theory Spec2Isabelle
  imports Main "HOL-Library.Word" "HOL-Library.Sublist"
begin

unbundle bit_operations_syntax

section \<open>Data model of the LLVM bridge (cgmain)\<close>

text \<open>
  The development embeds the parts of the IL-to-LLVM lowering engine that the verified
  properties talk about.  Integer handles of the compiler (symbol table pointers, ILI
  indices, dtype indices) are natural numbers; a pointer to a \<open>TMPS\<close> object is the
  identity of that temporary; an \<open>OPERAND\<close> chain linked through \<open>next\<close> is a list.
\<close>

type_synonym SPTR = nat
type_synonym ILIX = nat
type_synonym TMPS = nat

text \<open>
  The instruction names.  The enumeration itself is declared in a header; the constructors
  below are the names this file's code mentions, and \<open>I_other n\<close> stands for the entry
  number \<open>n\<close> of the table \<open>llvm_instr_names\<close> that has no constructor of its own.
\<close>

datatype LL_InstrName =
    I_NONE | I_RET | I_BR | I_SW | I_INVOKE | I_UNREACH
  | I_FADD | I_FSUB | I_FMUL
  | I_EXTELE | I_INSELE | I_EXTRACTVAL | I_INSERTVAL
  | I_LOAD | I_STORE | I_ICMP | I_FCMP | I_SELECT | I_CALL
  | I_DECL | I_RESUME | I_BARRIER | I_ATOMICRMW | I_CMPXCHG | I_FENCE
  | I_PICALL | I_INDBR | I_other nat




text \<open>Internal errors: \<open>assert\<close> and \<open>interr\<close> report a message and a value.\<close>

datatype error = Interr string

text \<open>Sequencing of steps that may stop with an internal error.\<close>

definition bind_err :: "error + 'a \<Rightarrow> ('a \<Rightarrow> error + 'b) \<Rightarrow> error + 'b" where
  "bind_err r f = (case r of Inl e \<Rightarrow> Inl e | Inr x \<Rightarrow> f x)"

datatype OperandType =
    OT_NONE | OT_CONSTSPTR | OT_VAR | OT_TMP | OT_LABEL | OT_CC | OT_TARGET | OT_CALL
  | OT_CONSTVAL | OT_UNDEF

datatype DTYPE =
    DT_NONE | DT_INT | DT_INT8 | DT_FLOAT | DT_DBLE | DT_CMPLX | DT_DCMPLX | DT_CPTR
  | DT_128 | DT_256 | DT_dtype nat

text \<open>
  Target types are built by the type bridge, which is outside this file.  A type is kept
  as the expression that builds it, so that two types are equal when they were requested
  the same way.
\<close>

datatype LL_Type =
    make_lltype_from_dtype DTYPE
  | make_int_lltype nat
  | make_ptr_lltype LL_Type
  | make_void_lltype
  | ll_get_vector_type LL_Type nat
  | sub_types LL_Type nat
  | make_type_from_msz nat
  | make_lltype_from_abi_arg nat
  | make_function_type_from_args LL_Type "LL_Type option list" bool

type_synonym LL_InstrListFlags = "32 word"

record OPERAND =
  ot_type :: OperandType
  tmps :: "TMPS option"
  ll_type :: "LL_Type option"
  val_sptr :: nat
  val_cc :: nat
  val_conval :: "int \<times> int"
  op_string :: "string option"
  op_flags :: "32 word"

record INSTR_LIST =
  i_id :: nat
  i_name :: LL_InstrName
  ilix :: ILIX
  i_tmps :: "TMPS option"
  i_ll_type :: "LL_Type option"
  operands :: "OPERAND list"
  flags :: LL_InstrListFlags

text \<open>
  The values of the instruction flag bits come from a header; they are a parameter of
  the development.
\<close>

record flag_consts =
  VOLATILE_FLAG :: LL_InstrListFlags
  FAST_MATH_FLAG :: LL_InstrListFlags
  CALL_FUNC_PTR_FLAG :: LL_InstrListFlags
  NOUNWIND_CALL_FLAG :: LL_InstrListFlags
  CALLCONV_SHIFT :: nat
  OPF_ZEXT :: "32 word"
  OPF_SEXT :: "32 word"
  CALL_INTRINSIC_FLAG :: LL_InstrListFlags
  DELETABLE :: LL_InstrListFlags
  STARTEBB :: LL_InstrListFlags
  CANCEL_CALL_DBG_VALUE :: LL_InstrListFlags
  ATOMIC_SINGLETHREAD_FLAG :: LL_InstrListFlags
  ATOMIC_MEM_ORD_FLAGS :: LL_InstrListFlags
  ATOMIC_MONOTONIC_FLAG :: LL_InstrListFlags
  ATOMIC_ACQUIRE_FLAG :: LL_InstrListFlags
  ATOMIC_RELEASE_FLAG :: LL_InstrListFlags
  ATOMIC_ACQ_REL_FLAG :: LL_InstrListFlags
  ATOMIC_SEQ_CST_FLAG :: LL_InstrListFlags
  ATOMIC_RMW_OP_FLAGS :: LL_InstrListFlags
  ATOMIC_SUB_FLAG :: LL_InstrListFlags
  ATOMIC_ADD_FLAG :: LL_InstrListFlags
  ATOMIC_XCHG_FLAG :: LL_InstrListFlags
  ATOMIC_UMIN_FLAG :: LL_InstrListFlags
  ATOMIC_MIN_FLAG :: LL_InstrListFlags
  ATOMIC_UMAX_FLAG :: LL_InstrListFlags
  ATOMIC_MAX_FLAG :: LL_InstrListFlags
  ATOMIC_AND_FLAG :: LL_InstrListFlags
  ATOMIC_OR_FLAG :: LL_InstrListFlags
  ATOMIC_XOR_FLAG :: LL_InstrListFlags

text \<open>
  Compiler switches: the optimisation level, the \<open>XBIT\<close> test, and the target
  architecture that the build was configured for.
\<close>

datatype target = TARGET_LLVM_POWER | TARGET_LLVM_ARM | TARGET_LLVM_X8664 | TARGET_LLVM_other

record config =
  flg_opt :: int
  XBIT :: "nat \<Rightarrow> nat \<Rightarrow> bool"
  TARGET :: target
  NEON_ENABLED :: bool

text \<open>
  The per-routine state of the bridge: the instruction list (\<open>Instructions\<close> up to
  \<open>llvm_info.last_instr\<close>, in order), the temporaries with their use counts and defining
  instructions, the bits of \<open>CGMain\<close>, the next label that \<open>getlab\<close> hands out, the
  CSE list (most recent entry first) with the \<open>ILI_COUNT\<close> field of the IL table, the map
  from IL nodes to temporaries, and the declared types of symbols, which lowering may
  revise.
\<close>

record cg_state =
  Instructions :: "INSTR_LIST list"
  instr_alloc :: nat
  tmps_alloc :: nat
  use_count :: "TMPS \<Rightarrow> int"
  idef :: "TMPS \<Rightarrow> nat option"
  new_ebb :: bool
  killCSE :: bool
  last_stmt_is_branch :: bool
  lab_alloc :: SPTR
  csedList :: "(ILIX \<times> OPERAND option) list"
  ILI_COUNT :: "ILIX \<Rightarrow> nat"
  tempsMap :: "ILIX \<Rightarrow> TMPS option"
  tempsMap_size :: nat
  curr_ret_dtype :: nat
  DTYPEG :: "SPTR \<Rightarrow> nat"
  declared_intrinsics :: "(string \<times> LL_Type) list"

definition ENABLE_CSE_OPT :: "config \<Rightarrow> cg_state \<Rightarrow> bool" where
  "ENABLE_CSE_OPT cfg st \<longleftrightarrow> flg_opt cfg \<ge> 1 \<and> \<not> XBIT cfg 183 0x20 \<and> \<not> killCSE st"

definition ENABLE_ENHANCED_CSE_OPT :: "config \<Rightarrow> bool" where
  "ENABLE_ENHANCED_CSE_OPT cfg \<longleftrightarrow> flg_opt cfg \<ge> 2 \<and> \<not> XBIT cfg 183 0x200000"



subsection \<open>Operands and temporaries\<close>

text \<open>
  Modelled from the spec: \<open>make_operand\<close>, \<open>make_tmps\<close>, \<open>make_tmp_op\<close>,
  \<open>make_undef_op\<close>, \<open>make_constval32_op\<close> and \<open>gen_copy_op\<close> live in the operand
  utilities, outside this file.  A temporary is "an opaque numbered handle, created
  fresh for every computed operand", carrying a use count that starts at zero; an
  operand is a tagged value with a target type; a copy of an operand is the same value,
  detached from any operand list.
\<close>

definition make_operand :: OPERAND where
  "make_operand = \<lparr> ot_type = OT_NONE, tmps = None, ll_type = None, val_sptr = 0,
     val_cc = 0, val_conval = (0, 0), op_string = None, op_flags = 0 \<rparr>"

definition make_tmps :: "cg_state \<Rightarrow> TMPS \<times> cg_state" where
  "make_tmps st =
     (tmps_alloc st,
      st\<lparr> tmps_alloc := Suc (tmps_alloc st),
          use_count := (use_count st)(tmps_alloc st := 0),
          idef := (idef st)(tmps_alloc st := None) \<rparr>)"

definition make_tmp_op :: "LL_Type option \<Rightarrow> TMPS option \<Rightarrow> OPERAND" where
  "make_tmp_op ty t = make_operand\<lparr> ot_type := OT_TMP, tmps := t, ll_type := ty \<rparr>"

definition make_undef_op :: "LL_Type \<Rightarrow> OPERAND" where
  "make_undef_op ty = make_operand\<lparr> ot_type := OT_UNDEF, ll_type := Some ty \<rparr>"

definition make_constval32_op :: "int \<Rightarrow> OPERAND" where
  "make_constval32_op idx =
     make_operand\<lparr> ot_type := OT_CONSTVAL, ll_type := Some (make_int_lltype 32),
                   val_conval := (idx, 0) \<rparr>"

definition gen_copy_op :: "OPERAND \<Rightarrow> OPERAND" where
  "gen_copy_op opnd = opnd"

subsection \<open>Building the instruction list\<close>

text \<open>
  \<open>make_instr\<close> allocates a zeroed instruction; the debug line it may attach belongs to
  the debug-info collaborator and is left out.
\<close>

definition make_instr :: "LL_InstrName \<Rightarrow> cg_state \<Rightarrow> INSTR_LIST \<times> cg_state" where
  "make_instr instr_name st =
     (\<lparr> i_id = instr_alloc st, i_name = instr_name, ilix = 0, i_tmps = None,
        i_ll_type = None, operands = [], flags = 0 \<rparr>,
      st\<lparr> instr_alloc := Suc (instr_alloc st) \<rparr>)"

definition gen_instr ::
  "LL_InstrName \<Rightarrow> TMPS option \<Rightarrow> LL_Type option \<Rightarrow> OPERAND list \<Rightarrow> cg_state
    \<Rightarrow> INSTR_LIST \<times> cg_state" where
  "gen_instr instr_name t ty ops st =
     (case make_instr instr_name st of (iptr, st1) \<Rightarrow>
        (iptr\<lparr> i_tmps := t, i_ll_type := ty, operands := ops \<rparr>,
         (case t of None \<Rightarrow> st1
          | Some tm \<Rightarrow> st1\<lparr> idef := (idef st1)(tm := Some (i_id iptr)) \<rparr>)))"

text \<open>The use-count loop of \<open>ad_instr\<close>: every \<open>OT_TMP\<close> operand counts one use.\<close>

fun count_uses :: "OPERAND list \<Rightarrow> (TMPS \<Rightarrow> int) \<Rightarrow> error + (TMPS \<Rightarrow> int)" where
  "count_uses [] uc = Inr uc"
| "count_uses (operand # rest) uc =
     (if ot_type operand = OT_TMP then
        (case tmps operand of
           None \<Rightarrow> Inl (Interr ''ad_instr(): missing last instruction'')
         | Some t \<Rightarrow> count_uses rest (uc(t := uc t + 1)))
      else count_uses rest uc)"

definition ad_instr ::
  "flag_consts \<Rightarrow> ILIX \<Rightarrow> INSTR_LIST \<Rightarrow> cg_state \<Rightarrow> error + cg_state" where
  "ad_instr fc ilx instr st =
     (case count_uses (operands instr) (use_count st) of
        Inl e \<Rightarrow> Inl e
      | Inr uc \<Rightarrow>
          Inr (st\<lparr> Instructions :=
                    Instructions st @
                      [instr\<lparr> ilix := ilx,
                             flags := (if new_ebb st then flags instr OR STARTEBB fc
                                       else flags instr) \<rparr>],
                  use_count := uc,
                  new_ebb := False \<rparr>))"

fun same_op :: "OPERAND \<Rightarrow> OPERAND \<Rightarrow> bool" where
  "same_op op1 op2 =
     (if ot_type op1 \<noteq> ot_type op2 then False
      else (case ot_type op1 of
              OT_TMP \<Rightarrow> tmps op1 = tmps op2
            | OT_VAR \<Rightarrow> val_sptr op1 = val_sptr op2
            | OT_CONSTVAL \<Rightarrow> val_conval op1 = val_conval op2
            | _ \<Rightarrow> False))"

text \<open>The operand comparison loop of \<open>ad_csed_instr\<close>: both lists end together.\<close>

fun same_operands :: "OPERAND list \<Rightarrow> OPERAND list \<Rightarrow> bool" where
  "same_operands [] [] = True"
| "same_operands (operand # rest) (new_op # new_rest) =
     (same_op operand new_op \<and> same_operands rest new_rest)"
| "same_operands _ _ = False"

text \<open>
  The backward search of \<open>ad_csed_instr\<close>, from \<open>llvm_info.last_instr\<close> through
  \<open>prev\<close>; the argument is the instruction list reversed.
\<close>

fun find_csed_instr ::
  "flag_consts \<Rightarrow> config \<Rightarrow> LL_InstrName \<Rightarrow> OPERAND list \<Rightarrow> INSTR_LIST list
    \<Rightarrow> INSTR_LIST option" where
  "find_csed_instr fc cfg instr_name ops [] = None"
| "find_csed_instr fc cfg instr_name ops (instr # prevs) =
     (if i_name instr = instr_name \<and> same_operands (operands instr) ops then Some instr
      else if i_name instr = I_SW \<or> i_name instr = I_INVOKE \<or> i_name instr = I_CALL
      then None
      else if (i_name instr = I_BR \<or> i_name instr = I_INDBR \<or> i_name instr = I_NONE)
              \<and> \<not> ENABLE_ENHANCED_CSE_OPT cfg
      then None
      else if flags instr AND STARTEBB fc \<noteq> 0 then None
      else find_csed_instr fc cfg instr_name ops prevs)"

definition ad_csed_instr ::
  "flag_consts \<Rightarrow> config \<Rightarrow> LL_InstrName \<Rightarrow> ILIX \<Rightarrow> LL_Type option \<Rightarrow> OPERAND list
    \<Rightarrow> LL_InstrListFlags \<Rightarrow> bool \<Rightarrow> cg_state \<Rightarrow> error + (OPERAND \<times> cg_state)" where
  "ad_csed_instr fc cfg instr_name ilx ty ops flgs do_cse st =
     (case (if do_cse \<and> ENABLE_CSE_OPT cfg st \<and> \<not> new_ebb st
            then find_csed_instr fc cfg instr_name ops (rev (Instructions st))
            else None) of
        Some instr \<Rightarrow> Inr (make_tmp_op (i_ll_type instr) (i_tmps instr), st)
      | None \<Rightarrow>
          (case make_tmps st of (t, st1) \<Rightarrow>
            (case gen_instr instr_name (Some t) ty ops st1 of (instr, st2) \<Rightarrow>
              bind_err (ad_instr fc ilx (instr\<lparr> flags := flgs \<rparr>) st2)
                (\<lambda>st3. Inr (make_tmp_op ty (Some t), st3)))))"

text \<open>
  The expression lowering engine \<open>gen_llvm_expr\<close> is passed to the functions that lower
  their subexpressions through it.
\<close>

type_synonym lowering =
  "ILIX \<Rightarrow> LL_Type option \<Rightarrow> cg_state \<Rightarrow> error + (OPERAND \<times> cg_state)"


subsection \<open>The IL, as this file reads it\<close>

text \<open>
  The IL opcodes this file's code names, grouped in families; \<open>IL_other n\<close> is any
  other opcode.
\<close>

datatype fp_op = IL_FADD | IL_FSUB | IL_FMUL | IL_FNEG | IL_DADD | IL_DSUB | IL_DMUL | IL_DNEG

datatype jsr_op = IL_JSR | IL_QJSR | IL_GJSR | IL_JSRA | IL_GJSRA

datatype minmax_op =
    IL_UIMIN | IL_UKMIN | IL_IMIN | IL_KMIN | IL_FMIN | IL_DMIN
  | IL_UIMAX | IL_UKMAX | IL_IMAX | IL_KMAX | IL_FMAX | IL_DMAX | IL_VMIN | IL_VMAX

datatype cse_op =
    IL_CSE | IL_CSEKR | IL_CSEIR | IL_CSESP | IL_CSEDP | IL_CSEAR | IL_CSECS | IL_CSECD

datatype dfr_op =
    IL_DFRKR | IL_DFRIR | IL_DFRSP | IL_DFRDP | IL_DFR128 | IL_DFR256 | IL_DFRAR | IL_DFRCS
  | IL_FREEKR | IL_FREEIR | IL_FREESP | IL_FREEDP | IL_FREEAR | IL_FREECS | IL_FREE

datatype misc_op =
    IL_GARGRET | IL_EXIT | IL_LABEL | IL_SMOVE | IL_FENCE | IL_DEALLOC | IL_NOP
  | IL_BCONCUR | IL_ECONCUR | IL_SCMPLXMUL | IL_DCMPLXMUL

datatype sel_op =
    IL_ISELECT | IL_KSELECT | IL_ASELECT | IL_FSELECT | IL_DSELECT
  | IL_ATOMICRMWI | IL_ATOMICRMWKR | IL_ATOMICRMWA | IL_ATOMICRMWSP | IL_ATOMICRMWDP

datatype addr_op = IL_AADD | IL_ASUB | IL_ACON | IL_IAMV | IL_KAMV | IL_LDA

datatype ILI_OP =
    FP fp_op | JSR jsr_op | MINMAX minmax_op | CSE cse_op | DFR dfr_op | MISC misc_op
  | SEL sel_op | ADDR addr_op | IL_other nat

datatype MEMORY_ORDER =
  MO_RELAXED | MO_CONSUME | MO_ACQUIRE | MO_RELEASE | MO_ACQ_REL | MO_SEQ_CST | MO_UNDEF

datatype SYNC_SCOPE = SS_SINGLETHREAD | SS_PROCESS

datatype ATOMIC_RMW_OP =
    AOP_XCHG | AOP_ADD | AOP_SUB | AOP_AND | AOP_OR | AOP_XOR
  | AOP_MIN | AOP_MAX | AOP_UMIN | AOP_UMAX | AOP_UNDEF

record ATOMIC_INFO =
  msz :: nat
  op :: ATOMIC_RMW_OP
  scope :: SYNC_SCOPE

text \<open>
  The read-only IL table, the dtype table \<open>DTY\<close> with the decoding \<open>TY\<close> of its type
  codes, and the queries on them that other modules answer.
\<close>

datatype TY_KIND =
    TY_STRUCT | TY_UNION | TY_FLOAT | TY_DBLE | TY_INT | TY_UINT | TY_SINT | TY_USINT
  | TY_BINT | TY_rest

record ili_env =
  ILI_OPC :: "ILIX \<Rightarrow> ILI_OP"
  ILI_OPND :: "ILIX \<Rightarrow> nat \<Rightarrow> nat"
  ILI_ALT :: "ILIX \<Rightarrow> ILIX"
  oprs :: "ILI_OP \<Rightarrow> nat"
  IL_ISLINK :: "ILI_OP \<Rightarrow> nat \<Rightarrow> bool"
  memory_order :: "ILIX \<Rightarrow> MEMORY_ORDER"
  atomic_info :: "ILIX \<Rightarrow> ATOMIC_INFO"
  NME_VOL :: nat
  DTY :: "nat \<Rightarrow> nat"
  TY :: "nat \<Rightarrow> TY_KIND"
  DT_ISUNSIGNED :: "nat \<Rightarrow> bool"
  DT_ISINT :: "nat \<Rightarrow> bool"
  zsize_of :: "nat \<Rightarrow> nat"
  ili_get_vect_type :: "ILIX \<Rightarrow> nat"
  ili_throw_label :: "ILIX \<Rightarrow> int"
  make_type_from_opc :: "ILI_OP \<Rightarrow> LL_Type"

subsection \<open>Atomic memory order: lowering and printing\<close>

definition ll_instr_flags_from_memory_order ::
  "flag_consts \<Rightarrow> MEMORY_ORDER \<Rightarrow> error + LL_InstrListFlags" where
  "ll_instr_flags_from_memory_order fc mo =
     (case mo of
        MO_RELAXED \<Rightarrow> Inr (ATOMIC_MONOTONIC_FLAG fc)
      | MO_CONSUME \<Rightarrow> Inr (ATOMIC_ACQUIRE_FLAG fc)
      | MO_ACQUIRE \<Rightarrow> Inr (ATOMIC_ACQUIRE_FLAG fc)
      | MO_RELEASE \<Rightarrow> Inr (ATOMIC_RELEASE_FLAG fc)
      | MO_ACQ_REL \<Rightarrow> Inr (ATOMIC_ACQ_REL_FLAG fc)
      | MO_SEQ_CST \<Rightarrow> Inr (ATOMIC_SEQ_CST_FLAG fc)
      | MO_UNDEF \<Rightarrow>
          Inl (Interr ''ll_instr_flags_from_memory_order: unimplemented memory order''))"

definition ll_instr_flags_for_memory_order_and_scope ::
  "flag_consts \<Rightarrow> ili_env \<Rightarrow> ILIX \<Rightarrow> error + LL_InstrListFlags" where
  "ll_instr_flags_for_memory_order_and_scope fc il ilx =
     bind_err (ll_instr_flags_from_memory_order fc (memory_order il ilx))
       (\<lambda>flgs. Inr (if scope (atomic_info il ilx) = SS_SINGLETHREAD
                    then flgs OR ATOMIC_SINGLETHREAD_FLAG fc else flgs))"

definition ll_instr_flags_from_aop ::
  "flag_consts \<Rightarrow> ATOMIC_RMW_OP \<Rightarrow> error + LL_InstrListFlags" where
  "ll_instr_flags_from_aop fc aop =
     (case aop of
        AOP_XCHG \<Rightarrow> Inr (ATOMIC_XCHG_FLAG fc)
      | AOP_ADD \<Rightarrow> Inr (ATOMIC_ADD_FLAG fc)
      | AOP_SUB \<Rightarrow> Inr (ATOMIC_SUB_FLAG fc)
      | AOP_AND \<Rightarrow> Inr (ATOMIC_AND_FLAG fc)
      | AOP_OR \<Rightarrow> Inr (ATOMIC_OR_FLAG fc)
      | AOP_XOR \<Rightarrow> Inr (ATOMIC_XOR_FLAG fc)
      | _ \<Rightarrow> Inl (Interr ''gen_llvm_atomicrmw_expr: unimplemented op''))"

definition gen_llvm_atomicrmw_expr ::
  "flag_consts \<Rightarrow> config \<Rightarrow> ili_env \<Rightarrow> lowering \<Rightarrow> ILIX \<Rightarrow> cg_state
    \<Rightarrow> error + (OPERAND \<times> cg_state)" where
  "gen_llvm_atomicrmw_expr fc cfg il gen_llvm_expr ilx st =
     (let info = atomic_info il ilx;
          instr_type = make_type_from_msz (msz info)
      in bind_err (gen_llvm_expr (ILI_OPND il ilx 2) (Some (make_ptr_lltype instr_type)) st)
           (\<lambda>(op1, st1).
         bind_err (gen_llvm_expr (ILI_OPND il ilx 1) (Some instr_type) st1)
           (\<lambda>(op2, st2).
         bind_err (ll_instr_flags_for_memory_order_and_scope fc il ilx)
           (\<lambda>flgs.
         bind_err (ll_instr_flags_from_aop fc (op info))
           (\<lambda>aop_flag.
              ad_csed_instr fc cfg I_ATOMICRMW ilx (Some instr_type) [op1, op2]
                ((if ILI_OPND il ilx 3 = NME_VOL il then flgs OR VOLATILE_FLAG fc else flgs)
                   OR aop_flag)
                False st2)))))"



text \<open>
  The output file is the sequence of tokens handed to \<open>print_token\<close>; \<open>reports\<close> collects
  the errors reported while printing, and \<open>dead_counter\<close> is the static counter of the
  dead labels.  The printers of operands, of the debug line and of the trace comment
  of an instruction belong to other modules: \<open>write_operands\<close> and \<open>print_trailer\<close> give
  the tokens they print.  Modelled from the spec: \<open>print_space n\<close> prints \<open>n\<close> blanks
  and \<open>print_nl\<close> ends the line.
\<close>

record pr_state =
  out :: "string list"
  expr_id :: nat
  t_id :: "TMPS \<Rightarrow> nat"
  reports :: "error list"
  dead_counter :: "32 word"


definition print_token :: "string \<Rightarrow> pr_state \<Rightarrow> pr_state" where
  "print_token tok ps = ps\<lparr> out := out ps @ [tok] \<rparr>"

definition print_space :: "nat \<Rightarrow> pr_state \<Rightarrow> pr_state" where
  "print_space n ps = print_token (replicate n CHR '' '') ps"

definition print_nl :: "pr_state \<Rightarrow> pr_state" where
  "print_nl ps = print_token [CHR 0x0A] ps"

text \<open>Printing the name that one of the two name functions returns, after its report.\<close>

definition print_name :: "string \<times> error list \<Rightarrow> pr_state \<Rightarrow> pr_state" where
  "print_name r ps = print_token (fst r) (ps\<lparr> reports := reports ps @ snd r \<rparr>)"

fun decimal :: "nat \<Rightarrow> string" where
  "decimal n =
     (if n < 10 then [char_of (48 + n)] else decimal (n div 10) @ [char_of (48 + n mod 10)])"




text \<open>
  \<open>dont_force_a_dummy_label\<close>; the second argument is the instruction after \<open>insn\<close> in
  the list, if there is one.
\<close>

definition dont_force_a_dummy_label :: "INSTR_LIST \<Rightarrow> INSTR_LIST option \<Rightarrow> bool" where
  "dont_force_a_dummy_label insn nxt \<longleftrightarrow>
     i_name insn = I_NONE \<or>
     (i_name insn = I_BR \<and> (case nxt of None \<Rightarrow> False | Some n \<Rightarrow> i_name n = I_NONE))"

text \<open>
  The head of the body of the loop of \<open>write_instructions\<close>: the dead label that is
  printed when \<open>forceLabel\<close> is set and the instruction does not make it superfluous.
  \<open>forceLabel\<close> is false after it.
\<close>

definition write_forced_label ::
  "INSTR_LIST \<Rightarrow> INSTR_LIST option \<Rightarrow> bool \<Rightarrow> pr_state \<Rightarrow> pr_state" where
  "write_forced_label instrs nxt forceLabel ps =
     (if forceLabel \<and> \<not> dont_force_a_dummy_label instrs nxt
      then print_token (''L.dead'' @ decimal (unat (dead_counter ps)) @ '':'' @ [CHR 0x0A])
             (ps\<lparr> dead_counter := dead_counter ps + 1 \<rparr>)
      else ps)"






subsection \<open>Example inputs\<close>

text \<open>
  A flag layout that meets \<open>atomic_flags_wf\<close>, a configuration with CSE enabled, the
  state at the start of a routine, and a lowering of leaf nodes that yields the
  variable numbered like the node without emitting anything.
\<close>

definition example_flags :: flag_consts where
  "example_flags =
     \<lparr> VOLATILE_FLAG = 0x10, FAST_MATH_FLAG = 0x20, CALL_FUNC_PTR_FLAG = 0x2,
       NOUNWIND_CALL_FLAG = 0x40, CALLCONV_SHIFT = 22, OPF_ZEXT = 0x1, OPF_SEXT = 0x2,
       CALL_INTRINSIC_FLAG = 0x4, DELETABLE = 0x100, STARTEBB = 0x200,
       CANCEL_CALL_DBG_VALUE = 0x400, ATOMIC_SINGLETHREAD_FLAG = 0x1000,
       ATOMIC_MEM_ORD_FLAGS = 0x1C0000, ATOMIC_MONOTONIC_FLAG = 0x40000,
       ATOMIC_ACQUIRE_FLAG = 0x80000, ATOMIC_RELEASE_FLAG = 0xC0000,
       ATOMIC_ACQ_REL_FLAG = 0x100000, ATOMIC_SEQ_CST_FLAG = 0x140000,
       ATOMIC_RMW_OP_FLAGS = 0x1E000, ATOMIC_SUB_FLAG = 0x2000, ATOMIC_ADD_FLAG = 0x4000,
       ATOMIC_XCHG_FLAG = 0x6000, ATOMIC_UMIN_FLAG = 0x8000, ATOMIC_MIN_FLAG = 0xA000,
       ATOMIC_UMAX_FLAG = 0xC000, ATOMIC_MAX_FLAG = 0xE000, ATOMIC_AND_FLAG = 0x10000,
       ATOMIC_OR_FLAG = 0x12000, ATOMIC_XOR_FLAG = 0x14000 \<rparr>"

definition example_config :: config where
  "example_config =
     \<lparr> flg_opt = 2, XBIT = (\<lambda>_ _. False), TARGET = TARGET_LLVM_other, NEON_ENABLED = False \<rparr>"

definition start_state :: cg_state where
  "start_state =
     \<lparr> Instructions = [], instr_alloc = 0, tmps_alloc = 0, use_count = (\<lambda>_. 0),
       idef = (\<lambda>_. None), new_ebb = False, killCSE = False, last_stmt_is_branch = False,
       lab_alloc = 1000, csedList = [], ILI_COUNT = (\<lambda>_. 0), tempsMap = (\<lambda>_. None),
       tempsMap_size = 0, curr_ret_dtype = 0, DTYPEG = (\<lambda>_. 0),
       declared_intrinsics = [] \<rparr>"

definition leaf_lowering :: lowering where
  "leaf_lowering ilx ty st =
     Inr (make_operand\<lparr> ot_type := OT_VAR, val_sptr := ilx, ll_type := ty \<rparr>, st)"

definition atomic_il :: "MEMORY_ORDER \<Rightarrow> ili_env" where
  "atomic_il mo =
     \<lparr> ILI_OPC = (\<lambda>_. IL_other 0), ILI_OPND = (\<lambda>ilx n. 10 * ilx + n), ILI_ALT = (\<lambda>_. 0),
       oprs = (\<lambda>_. 0), IL_ISLINK = (\<lambda>_ _. False),
       memory_order = (\<lambda>_. mo),
       atomic_info = (\<lambda>_. \<lparr> msz = 4, op = AOP_ADD, scope = SS_PROCESS \<rparr>),
       NME_VOL = 1, DTY = (\<lambda>_. 0), TY = (\<lambda>_. TY_rest), DT_ISUNSIGNED = (\<lambda>_. False),
       DT_ISINT = (\<lambda>_. False), zsize_of = (\<lambda>_. 4), ili_get_vect_type = (\<lambda>_. 0),
       ili_throw_label = (\<lambda>_. 0), make_type_from_opc = (\<lambda>_. make_int_lltype 32) \<rparr>"



subsection \<open>Complex multiplication\<close>

text \<open>
  \<open>gen_copy_operand\<close> copies an operand together with its successors; the operands
  handled here are single, so the copy is that of the operand.
\<close>

definition gen_copy_operand :: "OPERAND \<Rightarrow> OPERAND" where
  "gen_copy_operand opnd = gen_copy_op opnd"

definition gen_extract_value_ll ::
  "flag_consts \<Rightarrow> OPERAND \<Rightarrow> LL_Type \<Rightarrow> LL_Type \<Rightarrow> int \<Rightarrow> cg_state
    \<Rightarrow> error + (OPERAND \<times> cg_state)" where
  "gen_extract_value_ll fc aggr aggr_ty elt_ty idx st =
     (case make_tmps st of (t, st1) \<Rightarrow>
       (let res = make_tmp_op (Some elt_ty) (Some t) in
        (case gen_instr I_EXTRACTVAL (tmps res) (Some aggr_ty)
                [aggr, make_constval32_op idx] st1 of
           (Curr_Instr, st2) \<Rightarrow>
             bind_err (ad_instr fc 0 Curr_Instr st2) (\<lambda>st3. Inr (res, st3)))))"

definition gen_extract_value ::
  "flag_consts \<Rightarrow> OPERAND \<Rightarrow> DTYPE \<Rightarrow> DTYPE \<Rightarrow> int \<Rightarrow> cg_state
    \<Rightarrow> error + (OPERAND \<times> cg_state)" where
  "gen_extract_value fc aggr aggr_dtype elt_dtype idx st =
     gen_extract_value_ll fc aggr (make_lltype_from_dtype aggr_dtype)
       (make_lltype_from_dtype elt_dtype) idx st"

text \<open>
  The index of \<open>gen_insert_value\<close> is an \<open>unsigned\<close> that is handed to the \<open>int\<close>
  parameter of \<open>make_constval32_op\<close>, which reads it as a signed number.
\<close>

definition gen_insert_value ::
  "flag_consts \<Rightarrow> config \<Rightarrow> OPERAND \<Rightarrow> OPERAND \<Rightarrow> 32 word \<Rightarrow> cg_state
    \<Rightarrow> error + (OPERAND \<times> cg_state)" where
  "gen_insert_value fc cfg aggr elem index st =
     ad_csed_instr fc cfg I_INSERTVAL 0 (ll_type aggr)
       [aggr, elem, make_constval32_op (sint index)] 0 False st"

definition gen_eval_cmplx_value :: "lowering \<Rightarrow> ILIX \<Rightarrow> DTYPE \<Rightarrow> cg_state
    \<Rightarrow> error + (OPERAND \<times> cg_state)" where
  "gen_eval_cmplx_value gen_llvm_expr ilx dtype st =
     gen_llvm_expr ilx (Some (make_lltype_from_dtype dtype)) st"

definition gen_cmplx_mul ::
  "flag_consts \<Rightarrow> config \<Rightarrow> ili_env \<Rightarrow> lowering \<Rightarrow> ILIX \<Rightarrow> DTYPE \<Rightarrow> cg_state
    \<Rightarrow> error + (OPERAND \<times> cg_state)" where
  "gen_cmplx_mul fc cfg il gen_llvm_expr ilx dtype st =
     (let elt_dt = (if dtype = DT_CMPLX then DT_FLOAT else DT_DBLE);
          cmpnt_type = make_lltype_from_dtype elt_dt
      in
      bind_err (gen_eval_cmplx_value gen_llvm_expr (ILI_OPND il ilx 1) dtype st) (\<lambda>(c1, s1).
      bind_err (gen_eval_cmplx_value gen_llvm_expr (ILI_OPND il ilx 2) dtype s1) (\<lambda>(c2, s2).
      bind_err (gen_extract_value fc c1 dtype elt_dt 0 s2) (\<lambda>(a, s3).
      bind_err (gen_extract_value fc (gen_copy_operand c1) dtype elt_dt 1 s3) (\<lambda>(bi, s4).
      bind_err (gen_extract_value fc c2 dtype elt_dt 0 s4) (\<lambda>(c, s5).
      bind_err (gen_extract_value fc (gen_copy_operand c2) dtype elt_dt 1 s5) (\<lambda>(di, s6).
      bind_err (ad_csed_instr fc cfg I_FMUL 0 (Some cmpnt_type) [a, c] 0 True s6) (\<lambda>(r1, s7).
      bind_err (gen_extract_value fc (gen_copy_operand c1) dtype elt_dt 0 s7) (\<lambda>(a', s8).
      bind_err (ad_csed_instr fc cfg I_FMUL 0 (Some cmpnt_type) [a', di] 0 True s8) (\<lambda>(r2, s9).
      bind_err (ad_csed_instr fc cfg I_FMUL 0 (Some cmpnt_type) [bi, c] 0 True s9) (\<lambda>(r3, s10).
      bind_err (gen_extract_value fc (gen_copy_operand c1) dtype elt_dt 1 s10) (\<lambda>(bi', s11).
      bind_err (ad_csed_instr fc cfg I_FMUL 0 (Some cmpnt_type) [bi', di] 0 True s11) (\<lambda>(r4, s12).
      bind_err (ad_csed_instr fc cfg I_FSUB 0 (Some cmpnt_type) [r1, r4] 0 True s12) (\<lambda>(real, s13).
      bind_err (ad_csed_instr fc cfg I_FADD 0 (Some cmpnt_type) [r2, r3] 0 True s13) (\<lambda>(imag, s14).
      bind_err (gen_insert_value fc cfg (make_undef_op (make_lltype_from_dtype dtype)) real 0 s14)
        (\<lambda>(res, s15).
      gen_insert_value fc cfg res imag 1 s15))))))))))))))))"

text \<open>
  Conditions on a state and on operands under which the lowering is studied: an
  \<open>OT_TMP\<close> operand names a temporary, and the temporaries that operands name have been
  allocated.
\<close>

definition operand_ok :: "cg_state \<Rightarrow> OPERAND \<Rightarrow> bool" where
  "operand_ok st opnd \<longleftrightarrow>
     (ot_type opnd = OT_TMP \<longrightarrow> tmps opnd \<noteq> None) \<and>
     (\<forall>t. tmps opnd = Some t \<longrightarrow> t < tmps_alloc st)"

definition tmps_allocated :: "cg_state \<Rightarrow> bool" where
  "tmps_allocated st \<longleftrightarrow>
     (\<forall>instr \<in> set (Instructions st). \<forall>opnd \<in> set (operands instr).
        \<forall>t. tmps opnd = Some t \<longrightarrow> t < tmps_alloc st)"

text \<open>What an emitted instruction is made of, for stating results.\<close>

definition instr_shape ::
  "INSTR_LIST \<Rightarrow> LL_InstrName \<times> TMPS option \<times> OPERAND list" where
  "instr_shape instr = (i_name instr, i_tmps instr, operands instr)"


text \<open>
  The temporaries that the operands of the instruction list name, and the effect of one
  appended instruction that defines a new temporary.
\<close>

definition used_tmps :: "cg_state \<Rightarrow> TMPS set" where
  "used_tmps st = {t. \<exists>instr \<in> set (Instructions st). \<exists>opnd \<in> set (operands instr).
                        tmps opnd = Some t}"

definition emits :: "cg_state \<Rightarrow> cg_state \<Rightarrow> LL_InstrName \<Rightarrow> OPERAND list \<Rightarrow> bool" where
  "emits st st' nm ops \<longleftrightarrow>
     (\<exists>instr. Instructions st' = Instructions st @ [instr] \<and>
              instr_shape instr = (nm, Some (tmps_alloc st), ops)) \<and>
     tmps_alloc st' = Suc (tmps_alloc st) \<and> killCSE st' = killCSE st \<and> \<not> new_ebb st'"


definition example_il :: ili_env where
  "example_il = atomic_il MO_RELAXED"


subsection \<open>Dead instruction removal\<close>

text \<open>The use-count loop of \<open>remove_instr\<close>.\<close>

fun uncount_uses :: "OPERAND list \<Rightarrow> (TMPS \<Rightarrow> int) \<Rightarrow> error + (TMPS \<Rightarrow> int)" where
  "uncount_uses [] uc = Inr uc"
| "uncount_uses (operand # rest) uc =
     (if ot_type operand = OT_TMP then
        (case tmps operand of
           None \<Rightarrow> Inl (Interr ''remove_instr(): missing temp operand'')
         | Some t \<Rightarrow> uncount_uses rest (uc(t := uc t - 1)))
      else uncount_uses rest uc)"

text \<open>
  \<open>remove_instr\<close> unlinks the instruction at position \<open>k\<close> of the list (unless only the
  use counts are to be updated); the instruction before it, which the function returns,
  is then the one at position \<open>k - 1\<close>.
\<close>

definition remove_instr :: "nat \<Rightarrow> bool \<Rightarrow> cg_state \<Rightarrow> error + cg_state" where
  "remove_instr k update_usect_only st =
     bind_err (uncount_uses (operands (Instructions st ! k)) (use_count st))
       (\<lambda>uc. Inr (st\<lparr> Instructions :=
                        (if update_usect_only then Instructions st
                         else take k (Instructions st) @ drop (Suc k) (Instructions st)),
                      use_count := uc \<rparr>))"

text \<open>
  The loop of \<open>remove_dead_instrs\<close>; \<open>instr\<close> is the instruction at position \<open>k\<close> when
  the first argument is \<open>Suc k\<close>, and \<open>NULL\<close> when it is \<open>0\<close>.
\<close>

fun remove_dead_loop :: "flag_consts \<Rightarrow> nat \<Rightarrow> cg_state \<Rightarrow> error + cg_state" where
  "remove_dead_loop fc 0 st = Inr st"
| "remove_dead_loop fc (Suc k) st =
     (let instr = Instructions st ! k in
      if i_name instr = I_STORE \<and> flags instr AND DELETABLE fc \<noteq> 0
      then bind_err (remove_instr k False st) (remove_dead_loop fc k)
      else if (i_name instr \<noteq> I_CALL \<and> i_name instr \<noteq> I_INVOKE \<and>
               i_name instr \<noteq> I_ATOMICRMW) \<and>
              (case i_tmps instr of None \<Rightarrow> False | Some t \<Rightarrow> use_count st t \<le> 0)
      then bind_err (remove_instr k False st) (remove_dead_loop fc k)
      else remove_dead_loop fc k st)"

definition remove_dead_instrs :: "flag_consts \<Rightarrow> cg_state \<Rightarrow> error + cg_state" where
  "remove_dead_instrs fc st = remove_dead_loop fc (length (Instructions st)) st"

text \<open>
  The pass as the specification words it: going backward, an instruction is deleted
  when it is a store flagged deletable, or when it defines a temporary whose use count
  is not positive and it is no call, invoke or atomic read-modify-write; a deleted
  instruction gives up the uses of its operands.  The argument is the list reversed;
  the result is the reversed list of the instructions kept.
\<close>

definition deletable_store :: "flag_consts \<Rightarrow> INSTR_LIST \<Rightarrow> bool" where
  "deletable_store fc instr \<longleftrightarrow> i_name instr = I_STORE \<and> flags instr AND DELETABLE fc \<noteq> 0"

definition observable :: "INSTR_LIST \<Rightarrow> bool" where
  "observable instr \<longleftrightarrow>
     i_name instr = I_CALL \<or> i_name instr = I_INVOKE \<or> i_name instr = I_ATOMICRMW"

definition unused_def :: "(TMPS \<Rightarrow> int) \<Rightarrow> INSTR_LIST \<Rightarrow> bool" where
  "unused_def uc instr \<longleftrightarrow> (\<exists>t. i_tmps instr = Some t \<and> uc t \<le> 0)"

fun dead_code_spec ::
  "flag_consts \<Rightarrow> INSTR_LIST list \<Rightarrow> (TMPS \<Rightarrow> int)
    \<Rightarrow> error + (INSTR_LIST list \<times> (TMPS \<Rightarrow> int))" where
  "dead_code_spec fc [] uc = Inr ([], uc)"
| "dead_code_spec fc (instr # before) uc =
     (if deletable_store fc instr \<or> (unused_def uc instr \<and> \<not> observable instr)
      then bind_err (uncount_uses (operands instr) uc) (dead_code_spec fc before)
      else bind_err (dead_code_spec fc before uc) (\<lambda>(kept, uc'). Inr (instr # kept, uc')))"


subsection \<open>The statement scheduler\<close>

datatype STMT_Type =
    STMT_NONE | STMT_RET | STMT_EXPR | STMT_LABEL | STMT_BR | STMT_ST | STMT_CALL
  | STMT_SMOVE | STMT_SZERO | STMT_DECL

datatype ILTY =
    ILTY_STORE | ILTY_LOAD | ILTY_CONS | ILTY_ARTH | ILTY_DEFINE | ILTY_MOVE | ILTY_OTHER
  | ILTY_rest

datatype ILIA = ILIA_DP | ILIA_SP | ILIA_rest

text \<open>
  The block and statement tables, the symbol table and the routine-wide facts that
  \<open>schedule\<close> reads.  \<open>SJSR\<close> holds of the opcodes \<open>IL_SJSR\<close> and \<open>IL_SJSRA\<close> when
  the macro of that name is defined, and of no opcode otherwise.
\<close>

record sched_env =
  BIH_EN :: "nat \<Rightarrow> bool"
  BIH_LAST :: "nat \<Rightarrow> bool"
  BIH_LABEL :: "nat \<Rightarrow> SPTR"
  BIH_ILTFIRST :: "nat \<Rightarrow> nat"
  BIH_ILTLAST :: "nat \<Rightarrow> nat"
  BIH_NEXT :: "nat \<Rightarrow> nat"
  ILT_NEXT :: "nat \<Rightarrow> nat"
  ILT_ILIP :: "nat \<Rightarrow> ILIX"
  ILT_LINENO :: "nat \<Rightarrow> nat"
  ILT_BR :: "nat \<Rightarrow> bool"
  ILT_ST :: "nat \<Rightarrow> bool"
  ILT_DELETE :: "nat \<Rightarrow> bool"
  ILT_EX :: "nat \<Rightarrow> bool"
  DEFDG :: "SPTR \<Rightarrow> bool"
  CCSYMG :: "SPTR \<Rightarrow> bool"
  STYPEG_is_ST_LABEL :: "SPTR \<Rightarrow> bool"
  SCG_is_SC_DUMMY :: "SPTR \<Rightarrow> bool"
  NME_SYM :: "nat \<Rightarrow> int"
  IL_TYPE :: "ILI_OP \<Rightarrow> ILTY"
  IL_RES :: "ILI_OP \<Rightarrow> ILIA"
  is_rgdfili_opcode :: "ILI_OP \<Rightarrow> bool"
  is_mvili_opcode :: "ILI_OP \<Rightarrow> bool"
  is_freeili_opcode :: "ILI_OP \<Rightarrow> bool"
  SJSR :: "ILI_OP \<Rightarrow> bool"
  cgmain_init_call :: "nat \<Rightarrow> bool"
  has_multiple_entries :: bool
  DPDSCG_currsub :: nat
  processHostConcur :: bool
  usekmpc :: bool
  flg_debug :: bool
  sret_sptr :: SPTR

text \<open>
  The calls that \<open>schedule\<close> makes into the rest of the file, in the order it makes
  them.
\<close>

datatype sched_call =
    Make_stmt STMT_Type nat bool nat nat
  | Insert_jump_entry_instr nat
  | Insert_entry_label nat
  | Lldbg_emit_line nat
  | Remove_from_csed_list ILIX
  | Gen_llvm_fence_instruction ILIX
  | Clear_csed_list
  | Build_csed_list ILIX

record sched_vars =
  made_return :: bool
  first :: bool
  concurBih :: int
  merge_next_block :: bool

text \<open>The statements from the label \<open>return_with_call\<close> to the end of the loop body.\<close>

definition return_with_call ::
  "sched_env \<Rightarrow> config \<Rightarrow> ili_env \<Rightarrow> nat \<Rightarrow> nat \<Rightarrow> ILIX \<Rightarrow> ILI_OP \<Rightarrow> sched_vars
    \<Rightarrow> error + (sched_call list \<times> sched_vars)" where
  "return_with_call env cfg il bih ilt ilx opc sv =
     (if is_mvili_opcode env opc then
        (if sret_sptr env = 0 then
           (let ilix2 = ILI_OPND il ilx 1;
                ty2 = IL_TYPE env (ILI_OPC il ilix2);
                ret = Inr ([Make_stmt STMT_RET ilix2 False 0 ilt], sv\<lparr> made_return := True \<rparr>)
            in if ty2 = ILTY_LOAD \<or> ty2 = ILTY_CONS \<or> ty2 = ILTY_ARTH \<or> ty2 = ILTY_DEFINE \<or>
                  ty2 = ILTY_MOVE
               then ret
               else if ty2 = ILTY_OTHER \<and> XBIT cfg 70 0x40000000 \<and>
                       (IL_RES env (ILI_OPC il ilix2) = ILIA_DP \<or>
                        IL_RES env (ILI_OPC il ilix2) = ILIA_SP)
               then ret
               else (case ILI_OPC il ilix2 of
                       SEL _ \<Rightarrow> ret
                     | _ \<Rightarrow> Inl (Interr ''schedule(): incompatible return type'')))
         else Inr ([], sv))
      else if is_freeili_opcode env opc then
        Inr ([Remove_from_csed_list ilx, Make_stmt STMT_DECL ilx False 0 ilt], sv)
      else if opc = MISC IL_LABEL then Inr ([], sv)
      else if BIH_LAST env bih \<and> \<not> made_return sv then
        Inr ([Make_stmt STMT_RET ilx False 0 ilt], sv)
      else if opc = MISC IL_SMOVE then Inr ([Make_stmt STMT_SMOVE ilx False 0 ilt], sv)
      else Inr ([], sv))"

text \<open>
  The body of the loop over the statements of block \<open>bih\<close>, for statement \<open>ilt\<close>, in
  three parts: \<open>schedule_ex\<close> is the branch of the statements marked \<open>ILT_EX\<close> after the
  result moves \<open>DFRSP\<close>, \<open>DFRDP\<close> and \<open>DFRCS\<close> have been looked through;
  \<open>schedule_stmt\<close> is the chain of tests from \<open>ILT_BR\<close> on; \<open>schedule_ilt\<close> is the
  whole body.  \<open>dbg\<close> holds the call to \<open>lldbg_emit_line\<close>, if it was made.
\<close>

definition schedule_ex ::
  "sched_env \<Rightarrow> config \<Rightarrow> ili_env \<Rightarrow> nat \<Rightarrow> nat \<Rightarrow> sched_call list \<Rightarrow> ILIX \<Rightarrow> ILI_OP
    \<Rightarrow> sched_vars \<Rightarrow> error + (sched_call list \<times> sched_vars)" where
  "schedule_ex env cfg il bih ilt dbg ilx opc sv =
     (if is_mvili_opcode env opc then
        bind_err (return_with_call env cfg il bih ilt ilx opc sv)
          (\<lambda>(calls, sv2). Inr (dbg @ calls, sv2))
      else if is_freeili_opcode env opc then
        Inr (dbg @ [Remove_from_csed_list ilx, Make_stmt STMT_DECL ilx False 0 ilt], sv)
      else if opc = JSR IL_JSR \<or> opc = JSR IL_QJSR \<or> opc = JSR IL_JSRA \<or> SJSR env opc
      then Inr (dbg @ [Make_stmt STMT_CALL ilx False 0 ilt], sv)
      else if opc \<noteq> MISC IL_DEALLOC \<and> opc \<noteq> MISC IL_NOP
      then Inr (dbg @ [Make_stmt STMT_DECL ilx False 0 ilt], sv)
      else Inr (dbg, sv))"

definition schedule_stmt ::
  "sched_env \<Rightarrow> config \<Rightarrow> ili_env \<Rightarrow> cg_state \<Rightarrow> nat \<Rightarrow> nat \<Rightarrow> sched_call list \<Rightarrow> ILIX
    \<Rightarrow> ILI_OP \<Rightarrow> sched_vars \<Rightarrow> error + (sched_call list \<times> sched_vars)" where
  "schedule_stmt env cfg il st bih ilt dbg ilx opc sv =
     (if ILT_BR env ilt then
        (if ILT_NEXT env ilt = 0 \<and> BIH_NEXT env bih \<noteq> 0 \<and>
            BIH_LABEL env (BIH_NEXT env bih) \<noteq> 0 \<and>
            (DEFDG env (BIH_LABEL env (BIH_NEXT env bih)) \<or>
             CCSYMG env (BIH_LABEL env (BIH_NEXT env bih)))
         then Inr (dbg @ [Make_stmt STMT_BR ilx False (BIH_LABEL env (BIH_NEXT env bih)) ilt],
                   sv)
         else Inr (dbg @ [Make_stmt STMT_BR ilx False 0 ilt], sv))
      else if (ILT_ST env ilt \<or> ILT_DELETE env ilt) \<and> IL_TYPE env opc = ILTY_STORE then
        (if is_rgdfili_opcode env (ILI_OPC il (ILI_OPND il ilx 1)) then Inr (dbg, sv)
         else if BIH_EN env bih \<and> NME_SYM env (ILI_OPND il ilx 3) > 0 \<and>
                 SCG_is_SC_DUMMY env (nat (NME_SYM env (ILI_OPND il ilx 3)))
         then Inr (dbg, sv)
         else Inr (dbg @ [Make_stmt STMT_ST ilx
                            (ENABLE_CSE_OPT cfg st \<and> ILT_DELETE env ilt \<and>
                             IL_TYPE env opc = ILTY_STORE) 0 ilt], sv))
      else if opc = JSR IL_JSR \<and> cgmain_init_call env (ILI_OPND il ilx 1) then
        Inr (dbg @ [Make_stmt STMT_SZERO (ILI_OPND il ilx 2) False 0 ilt], sv)
      else if opc = MISC IL_SMOVE then
        Inr (dbg @ [Make_stmt STMT_SMOVE ilx False 0 ilt], sv)
      else if ILT_EX env ilt then
        (if opc = MISC IL_LABEL then Inr (dbg, sv)
         else if opc = DFR IL_DFRSP \<or> opc = DFR IL_DFRDP \<or> opc = DFR IL_DFRCS
         then schedule_ex env cfg il bih ilt dbg (ILI_OPND il ilx 1)
                (ILI_OPC il (ILI_OPND il ilx 1)) sv
         else schedule_ex env cfg il bih ilt dbg ilx opc sv)
      else if opc = MISC IL_FENCE then
        Inr (dbg @ [Gen_llvm_fence_instruction ilx], sv)
      else
        bind_err (return_with_call env cfg il bih ilt ilx opc sv)
          (\<lambda>(calls, sv2). Inr (dbg @ calls, sv2)))"

definition schedule_ilt ::
  "sched_env \<Rightarrow> config \<Rightarrow> ili_env \<Rightarrow> cg_state \<Rightarrow> nat \<Rightarrow> nat \<Rightarrow> sched_vars
    \<Rightarrow> error + (sched_call list \<times> sched_vars)" where
  "schedule_ilt env cfg il st bih ilt sv =
     (if BIH_EN env bih \<and> ilt = BIH_ILTFIRST env bih then
        (if \<not> has_multiple_entries env then Inr ([], sv)
         else if first sv
         then Inr ([Insert_jump_entry_instr ilt, Insert_entry_label ilt], sv\<lparr> first := False \<rparr>)
         else Inr ([Insert_entry_label ilt], sv))
      else
        (let dbg = (if flg_debug env \<or> XBIT cfg 120 0x1000
                    then [Lldbg_emit_line (ILT_LINENO env ilt)] else []);
             ilx = ILT_ILIP env ilt;
             opc = ILI_OPC il ilx;
             concur = processHostConcur env \<and> (XBIT cfg 34 0x200 \<or> usekmpc env);
             sv1 = (if concur \<and> opc = MISC IL_BCONCUR
                    then sv\<lparr> concurBih := concurBih sv + 1 \<rparr>
                    else if concur \<and> opc = MISC IL_ECONCUR
                    then sv\<lparr> concurBih := concurBih sv - 1 \<rparr>
                    else sv)
         in
         if concur \<and> concurBih sv1 \<noteq> 0 then Inr (dbg, sv1)
         else schedule_stmt env cfg il st bih ilt dbg ilx opc sv1))"


subsection \<open>The common-subexpression list\<close>

text \<open>
  \<open>csedList\<close> is searched from its head; a slot is reached through the pointer that
  \<open>get_csed_operand\<close> returns, here through the key of the entry.  A slot is filled with
  an operand of its own when the operand names a temporary, and with the operand handed
  in otherwise.
\<close>

definition alt_ili :: "ili_env \<Rightarrow> ILIX \<Rightarrow> ILIX" where
  "alt_ili il ilx = (if ILI_ALT il ilx \<noteq> 0 then ILI_ALT il ilx else ilx)"

definition get_csed_operand :: "ili_env \<Rightarrow> cg_state \<Rightarrow> ILIX \<Rightarrow> OPERAND option option" where
  "get_csed_operand il st ilx = map_of (csedList st) (alt_ili il ilx)"

fun set_slot :: "ILIX \<Rightarrow> OPERAND option \<Rightarrow> (ILIX \<times> OPERAND option) list
    \<Rightarrow> (ILIX \<times> OPERAND option) list" where
  "set_slot k v [] = []"
| "set_slot k v ((k', v') # rest) =
     (if k = k' then (k', v) # rest else (k', v') # set_slot k v rest)"

definition set_csed_operand :: "ili_env \<Rightarrow> ILIX \<Rightarrow> OPERAND \<Rightarrow> cg_state \<Rightarrow> cg_state" where
  "set_csed_operand il ilx operand st =
     st\<lparr> csedList :=
           set_slot (alt_ili il ilx)
             (Some (if tmps operand \<noteq> None then make_tmp_op (ll_type operand) (tmps operand)
                    else operand))
             (csedList st) \<rparr>"

definition clear_csed_list :: "cg_state \<Rightarrow> cg_state" where
  "clear_csed_list st =
     st\<lparr> ILI_COUNT := (\<lambda>ilx. if ilx \<in> fst ` set (csedList st) then 0 else ILI_COUNT st ilx),
         csedList := map (\<lambda>(ilx, _). (ilx, None)) (csedList st) \<rparr>"

definition is_cseili_opcode :: "ILI_OP \<Rightarrow> bool" where
  "is_cseili_opcode opc = (case opc of CSE _ \<Rightarrow> True | _ \<Rightarrow> False)"

text \<open>
  \<open>build_csed_list\<close> and \<open>add_to_cselist\<close> call each other along the links of the IL.
  Their bodies take the recursive \<open>build_csed_list\<close> as the argument \<open>build\<close>; the first
  argument of \<open>build_csed_list\<close> bounds the depth of the calls, and \<open>None\<close> means that it
  was too small.  They work on \<open>csedList\<close>; new entries go to its head.
\<close>

type_synonym csed_list = "(ILIX \<times> OPERAND option) list"

definition add_to_cselist_body ::
  "ili_env \<Rightarrow> (ILIX \<Rightarrow> csed_list \<Rightarrow> csed_list option) \<Rightarrow> ILIX \<Rightarrow> csed_list
    \<Rightarrow> (bool \<times> csed_list) option" where
  "add_to_cselist_body il build ilx l =
     (let k = alt_ili il ilx in
      if k \<in> fst ` set l then Some (True, l)
      else (case build k ((k, None) # l) of
              None \<Rightarrow> None
            | Some l' \<Rightarrow> Some (False, l')))"

fun build_csed_links ::
  "ili_env \<Rightarrow> (ILIX \<Rightarrow> csed_list \<Rightarrow> csed_list option) \<Rightarrow> ILIX \<Rightarrow> nat list \<Rightarrow> csed_list
    \<Rightarrow> csed_list option" where
  "build_csed_links il build ilx [] l = Some l"
| "build_csed_links il build ilx (i # rest) l =
     (case build (ILI_OPND il ilx i) l of
        None \<Rightarrow> None
      | Some l' \<Rightarrow> build_csed_links il build ilx rest l')"

definition build_csed_list_body ::
  "ili_env \<Rightarrow> (ILIX \<Rightarrow> csed_list \<Rightarrow> csed_list option) \<Rightarrow> ILIX \<Rightarrow> csed_list
    \<Rightarrow> csed_list option" where
  "build_csed_list_body il build ilx l =
     (let opc = ILI_OPC il ilx;
          links = filter (IL_ISLINK il opc) [1 ..< Suc (oprs il opc)]
      in if is_cseili_opcode opc then
           (case add_to_cselist_body il build (alt_ili il (ILI_OPND il ilx 1)) l of
              None \<Rightarrow> None
            | Some (found, l') \<Rightarrow>
                if found then Some l' else build_csed_links il build ilx links l')
         else build_csed_links il build ilx links l)"

fun build_csed_list :: "nat \<Rightarrow> ili_env \<Rightarrow> ILIX \<Rightarrow> csed_list \<Rightarrow> csed_list option" where
  "build_csed_list 0 il ilx l = None"
| "build_csed_list (Suc n) il ilx l = build_csed_list_body il (build_csed_list n il) ilx l"

definition add_to_cselist_list ::
  "nat \<Rightarrow> ili_env \<Rightarrow> ILIX \<Rightarrow> csed_list \<Rightarrow> (bool \<times> csed_list) option" where
  "add_to_cselist_list n il ilx l = add_to_cselist_body il (build_csed_list n il) ilx l"

definition add_to_cselist :: "nat \<Rightarrow> ili_env \<Rightarrow> ILIX \<Rightarrow> cg_state \<Rightarrow> (bool \<times> cg_state) option" where
  "add_to_cselist n il ilx st =
     (case add_to_cselist_list n il ilx (csedList st) of
        None \<Rightarrow> None
      | Some (found, l) \<Rightarrow> Some (found, st\<lparr> csedList := l \<rparr>))"


subsection \<open>Calls\<close>

text \<open>
  What the ABI classification of a call site says: \<open>has_sret\<close> is \<open>LL_ABI_HAS_SRET\<close>,
  \<open>return_is_void\<close> says that the data type of \<open>ll_abi_return_type\<close> is \<open>LL_VOID\<close>, and
  \<open>abi_arg0_type\<close> is \<open>make_lltype_from_abi_arg\<close> of the return descriptor.
\<close>

record LL_ABI_Info =
  call_conv :: "32 word"
  fast_math :: bool
  missing_prototype :: bool
  is_varargs :: bool
  call_as_varargs :: bool
  has_sret :: bool
  ll_abi_return_type :: LL_Type
  return_is_void :: bool
  ll_abi_function_type :: LL_Type
  abi_arg0_type :: LL_Type

text \<open>
  The collaborators of call lowering: ABI classification, the lowering of the argument
  list, operands for symbols, bitcasts, calls lowered as single instructions, and
  queries on symbols and dtypes.  \<open>callee_has_type opnd ty\<close> says that the function
  type \<open>opnd\<close> points to is \<open>ty\<close>.
\<close>

record call_env =
  ll_abi_from_call_site :: "ILIX \<Rightarrow> nat \<Rightarrow> LL_ABI_Info"
  gen_arg_operand_list :: "LL_ABI_Info \<Rightarrow> ILIX \<Rightarrow> cg_state \<Rightarrow> error + (OPERAND list \<times> cg_state)"
  make_var_op :: "SPTR \<Rightarrow> OPERAND"
  make_bitcast :: "OPERAND \<Rightarrow> LL_Type \<Rightarrow> cg_state \<Rightarrow> error + (OPERAND \<times> cg_state)"
  callee_has_type :: "OPERAND \<Rightarrow> LL_Type \<Rightarrow> bool"
  gen_call_as_llvm_instr :: "SPTR \<Rightarrow> ILIX \<Rightarrow> cg_state \<Rightarrow> error + (OPERAND option \<times> cg_state)"
  ldst_instr_flags_from_dtype :: "nat \<Rightarrow> LL_InstrListFlags"
  ILIA_ISAR_RES :: "ILI_OP \<Rightarrow> bool"
  dtype_from_return_type :: "ILI_OP \<Rightarrow> nat"
  update_return_type_for_ccfunc :: "ILIX \<Rightarrow> ILI_OP \<Rightarrow> (SPTR \<Rightarrow> nat) \<Rightarrow> (SPTR \<Rightarrow> nat)"
  is_256_or_512_bit_math_intrinsic :: "SPTR \<Rightarrow> bool"
  sym_CCSYMG :: "SPTR \<Rightarrow> bool"
  DT_MAX :: nat

text \<open>
  Modelled from the spec: \<open>make_label_op\<close> (operand utilities) builds the label operand
  of a symbol, and \<open>getlab\<close> (symbol table) hands out a label that is not in use.
\<close>

definition make_label_op :: "SPTR \<Rightarrow> OPERAND" where
  "make_label_op sptr = make_operand\<lparr> ot_type := OT_LABEL, val_sptr := sptr \<rparr>"

definition getlab :: "cg_state \<Rightarrow> SPTR \<times> cg_state" where
  "getlab st = (lab_alloc st, st\<lparr> lab_alloc := Suc (lab_alloc st) \<rparr>)"

definition make_store ::
  "flag_consts \<Rightarrow> OPERAND \<Rightarrow> OPERAND \<Rightarrow> LL_InstrListFlags \<Rightarrow> cg_state \<Rightarrow> error + cg_state" where
  "make_store fc sop address_op flgs st =
     (case gen_instr I_STORE None None [sop, address_op] st of
        (Curr_Instr, st1) \<Rightarrow>
          ad_instr fc 0 (Curr_Instr\<lparr> flags := flags Curr_Instr OR flgs \<rparr>) st1)"

definition is_struct_or_union :: "ili_env \<Rightarrow> nat \<Rightarrow> bool" where
  "is_struct_or_union il dtype \<longleftrightarrow>
     TY il (DTY il dtype) = TY_STRUCT \<or> TY il (DTY il dtype) = TY_UNION"

text \<open>
  \<open>gen_call_expr\<close>, for a call instruction that is not supplied by the caller
  (\<open>call_instr = NULL\<close>), which is how this file calls it for IL calls.  Its body is
  cut into the stages it runs through, in the order of the source: the function type
  of a call without prototype, the callee, the unwind labels, the result, and the
  store of a value returned through \<open>GARGRET\<close>.
\<close>

definition call_func_type ::
  "config \<Rightarrow> ili_env \<Rightarrow> call_env \<Rightarrow> LL_ABI_Info \<Rightarrow> SPTR \<Rightarrow> LL_Type option list \<Rightarrow> cg_state
    \<Rightarrow> LL_Type option" where
  "call_func_type cfg il ce abi call_sptr arg_types st =
     (if missing_prototype abi then
        (if TARGET cfg = TARGET_LLVM_X8664 \<and>
            (let dsize = (if DTYPEG st call_sptr = 0 then 0
                          else zsize_of il (DTYPEG st call_sptr))
             in (dsize = 32 \<or> dsize = 64) \<and>
                is_256_or_512_bit_math_intrinsic ce call_sptr \<and>
                \<not> XBIT cfg 183 0x4000)
         then Some (make_function_type_from_args (ll_abi_return_type abi) arg_types False)
         else Some (make_function_type_from_args (ll_abi_return_type abi) arg_types
                      (call_as_varargs abi)))
      else None)"

definition call_callee ::
  "flag_consts \<Rightarrow> ili_env \<Rightarrow> call_env \<Rightarrow> lowering \<Rightarrow> ILIX \<Rightarrow> LL_ABI_Info \<Rightarrow> LL_Type option
    \<Rightarrow> LL_Type option list \<Rightarrow> INSTR_LIST \<Rightarrow> cg_state
    \<Rightarrow> error + (OPERAND \<times> INSTR_LIST \<times> cg_state)" where
  "call_callee fc il ce gen_llvm_expr ilx abi func_type0 arg_types ci st =
     (case ILI_OPC il ilx of
        JSR jop \<Rightarrow>
          (if jop = IL_JSR \<or> jop = IL_GJSR \<or> jop = IL_QJSR then
             (let callee_op = make_var_op ce (ILI_OPND il ilx 1);
                  func_type =
                    (if func_type0 = None \<and> \<not> is_varargs abi
                     then Some (make_function_type_from_args (ll_abi_return_type abi)
                                  arg_types (call_as_varargs abi))
                     else func_type0)
              in case func_type of
                   Some fty \<Rightarrow>
                     (if \<not> callee_has_type ce callee_op fty
                      then bind_err (make_bitcast ce callee_op (make_ptr_lltype fty) st)
                             (\<lambda>(callee', st'). Inr (callee', ci, st'))
                      else Inr (callee_op, ci, st))
                 | None \<Rightarrow> Inr (callee_op, ci, st))
           else
             (let func_type = (case func_type0 of Some fty \<Rightarrow> fty
                               | None \<Rightarrow> ll_abi_function_type abi)
              in bind_err (gen_llvm_expr (ILI_OPND il ilx 1)
                             (Some (make_ptr_lltype func_type)) st)
                   (\<lambda>(callee_op, st').
                      Inr (callee_op,
                           ci\<lparr> flags := flags ci OR CALL_FUNC_PTR_FLAG fc \<rparr>, st'))))
      | _ \<Rightarrow> Inl (Interr ''Unhandled call instruction''))"

definition call_unwind ::
  "flag_consts \<Rightarrow> int \<Rightarrow> OPERAND \<Rightarrow> OPERAND list \<Rightarrow> INSTR_LIST \<Rightarrow> cg_state
    \<Rightarrow> INSTR_LIST \<times> cg_state" where
  "call_unwind fc throw_label callee_op first_arg_op ci st =
     (let ops0 = callee_op # first_arg_op in
      if throw_label = - 1 then (ci\<lparr> operands := ops0 \<rparr>, st)
      else if throw_label = 0 then
        (if op_string callee_op = Some ''@__cxa_call_unexpected''
         then (ci\<lparr> operands := ops0 \<rparr>, st)
         else (ci\<lparr> operands := ops0, flags := flags ci OR NOUNWIND_CALL_FLAG fc \<rparr>, st))
      else
        (ci\<lparr> operands :=
               ops0 @ [make_label_op (fst (getlab st)),
                       make_operand\<lparr> ot_type := OT_LABEL, val_sptr := nat throw_label \<rparr>] \<rparr>,
         snd (getlab st)))"

definition call_result ::
  "ili_env \<Rightarrow> LL_ABI_Info \<Rightarrow> nat \<Rightarrow> OPERAND list \<Rightarrow> INSTR_LIST \<Rightarrow> cg_state
    \<Rightarrow> INSTR_LIST \<times> OPERAND option \<times> cg_state" where
  "call_result il abi ret_dtype first_arg_op ci st =
     (if return_is_void abi then
        (ci\<lparr> i_ll_type := Some make_void_lltype \<rparr>,
         (if has_sret abi \<and> is_struct_or_union il ret_dtype
          then (case first_arg_op of
                  [] \<Rightarrow> None
                | a # _ \<Rightarrow> Some ((gen_copy_op a)\<lparr> op_flags := 0 \<rparr>))
          else None),
         st)
      else
        (ci\<lparr> i_ll_type := Some (abi_arg0_type abi), i_tmps := Some (fst (make_tmps st)) \<rparr>,
         (if ret_dtype \<noteq> 0
          then Some (make_tmp_op (Some (abi_arg0_type abi)) (Some (fst (make_tmps st))))
          else None),
         snd (make_tmps st)))"

definition call_gargret ::
  "flag_consts \<Rightarrow> ili_env \<Rightarrow> call_env \<Rightarrow> lowering \<Rightarrow> ILIX \<Rightarrow> LL_ABI_Info \<Rightarrow> nat
    \<Rightarrow> INSTR_LIST \<Rightarrow> OPERAND option \<Rightarrow> cg_state \<Rightarrow> error + (OPERAND option \<times> cg_state)" where
  "call_gargret fc il ce gen_llvm_expr first_arg_ili abi ret_dtype call_instr result_op st =
     (if ILI_OPC il first_arg_ili = MISC IL_GARGRET \<and> \<not> has_sret abi then
        (let addr_ili = ILI_OPND il first_arg_ili 1;
             return_dtype = ILI_OPND il first_arg_ili 3
         in if \<not> ILIA_ISAR_RES ce (ILI_OPC il addr_ili)
            then Inl (Interr ''GARGRET must be indirect value'')
            else
              bind_err (gen_llvm_expr addr_ili
                          (Some (make_ptr_lltype
                                   (case i_ll_type call_instr of Some ty \<Rightarrow> ty
                                    | None \<Rightarrow> make_void_lltype))) st)
                (\<lambda>(addr, st7).
              bind_err (make_store fc
                          (make_tmp_op (i_ll_type call_instr) (i_tmps call_instr)) addr
                          (ldst_instr_flags_from_dtype ce return_dtype) st7)
                (\<lambda>st8.
                   Inr (if is_struct_or_union il ret_dtype then Some (gen_copy_op addr)
                        else result_op, st8))))
      else Inr (result_op, st))"

definition gen_call_expr ::
  "flag_consts \<Rightarrow> config \<Rightarrow> ili_env \<Rightarrow> call_env \<Rightarrow> lowering \<Rightarrow> ILIX \<Rightarrow> nat \<Rightarrow> SPTR
    \<Rightarrow> cg_state \<Rightarrow> error + (OPERAND option \<times> cg_state)" where
  "gen_call_expr fc cfg il ce gen_llvm_expr ilx0 ret_dtype call_sptr st0 =
     (let throw_label = ili_throw_label il ilx0;
          ci0 = fst (make_instr (if throw_label > 0 then I_INVOKE else I_CALL) st0);
          st1 = snd (make_instr (if throw_label > 0 then I_INVOKE else I_CALL) st0);
          ilx = alt_ili il ilx0;
          first_arg_ili = ILI_OPND il ilx 2;
          abi = ll_abi_from_call_site ce ilx ret_dtype
      in
      bind_err (gen_arg_operand_list ce abi first_arg_ili st1) (\<lambda>(first_arg_op, st2).
      (let ci1 = ci0\<lparr> flags := flags ci0 OR push_bit (CALLCONV_SHIFT fc) (call_conv abi) \<rparr>;
           ci2 = (if fast_math abi then ci1\<lparr> flags := flags ci1 OR FAST_MATH_FLAG fc \<rparr> else ci1);
           arg_types = map ll_type first_arg_op;
           func_type0 = call_func_type cfg il ce abi call_sptr arg_types st2
       in
       bind_err (call_callee fc il ce gen_llvm_expr ilx abi func_type0 arg_types ci2 st2)
         (\<lambda>(callee_op, ci3, st3).
            (let u = call_unwind fc throw_label callee_op first_arg_op ci3 st3;
                 r = call_result il abi ret_dtype first_arg_op (fst u) (snd u);
                 call_instr = fst r;
                 result_op = fst (snd r)
             in
             bind_err (ad_instr fc ilx call_instr (snd (snd r))) (\<lambda>st6.
               call_gargret fc il ce gen_llvm_expr first_arg_ili abi ret_dtype call_instr
                 result_op st6))))))"

subsection \<open>Minimum and maximum\<close>

text \<open>
  \<open>get_intrinsic\<close> keeps the registry \<open>declared_intrinsics\<close> of the intrinsics declared so
  far, here the list of their names and function types in the order of declaration.  A
  name seen before must come with the function type it was declared with; a new name is
  declared and entered, unless it starts with \<open>asm\<close> and a blank.  The text of the
  declaration is built from the strings of the type and handed to the module of
  external function declarations; the entry of the registry stands for it.
\<close>

definition get_intrinsic :: "string \<Rightarrow> LL_Type \<Rightarrow> cg_state \<Rightarrow> error + (OPERAND \<times> cg_state)" where
  "get_intrinsic name func_type st =
     (let operand = make_operand\<lparr> ot_type := OT_CALL,
                                  ll_type := Some (make_ptr_lltype func_type),
                                  op_string := Some name \<rparr>
      in case map_of (declared_intrinsics st) name of
           Some old_type \<Rightarrow>
             if old_type = func_type then Inr (operand, st)
             else Inl (Interr ''Intrinsic already declared with different signature'')
         | None \<Rightarrow>
             if take 4 name = ''asm '' then Inr (operand, st)
             else Inr (operand,
                       st\<lparr> declared_intrinsics :=
                             declared_intrinsics st @ [(name, func_type)] \<rparr>))"

definition get_intrinsic_call_ops ::
  "string \<Rightarrow> LL_Type \<Rightarrow> OPERAND list \<Rightarrow> cg_state \<Rightarrow> error + (OPERAND list \<times> cg_state)" where
  "get_intrinsic_call_ops name return_type args st =
     bind_err
       (get_intrinsic name
          (make_function_type_from_args return_type (map ll_type args) False) st)
       (\<lambda>(operand, st1). Inr (operand # args, st1))"

text \<open>\<open>gen_call_to_builtin\<close> when no call instruction is supplied (\<open>Call_Instr = NULL\<close>).\<close>

definition gen_call_to_builtin ::
  "flag_consts \<Rightarrow> ILIX \<Rightarrow> string \<Rightarrow> OPERAND list \<Rightarrow> LL_Type \<Rightarrow> LL_InstrName \<Rightarrow> cg_state
    \<Rightarrow> error + (OPERAND \<times> cg_state)" where
  "gen_call_to_builtin fc ilx fname params return_ll_type nm st =
     (let t = fst (make_tmps st);
          m = make_instr nm (snd (make_tmps st));
          Curr_Instr = fst m;
          st2 = (snd m)\<lparr> idef := (idef (snd m))(t := Some (i_id Curr_Instr)) \<rparr>
      in
      bind_err (get_intrinsic_call_ops fname return_ll_type params st2)
        (\<lambda>(ops, st3).
           bind_err
             (ad_instr fc ilx
                (Curr_Instr\<lparr> flags := flags Curr_Instr OR CALL_INTRINSIC_FLAG fc,
                             i_tmps := Some t, i_ll_type := Some return_ll_type,
                             operands := ops \<rparr>)
                st3)
             (\<lambda>st4. Inr (make_tmp_op (Some return_ll_type) (Some t), st4))))"

text \<open>The three tables of vector intrinsics; \<open>None\<close> is the \<open>NULL\<close> result.\<close>

definition gen_call_vminmax_intrinsic ::
  "flag_consts \<Rightarrow> ili_env \<Rightarrow> ILIX \<Rightarrow> OPERAND \<Rightarrow> OPERAND \<Rightarrow> cg_state
    \<Rightarrow> error + (OPERAND option \<times> cg_state)" where
  "gen_call_vminmax_intrinsic fc il ilx op1 op2 st =
     (if ILI_OPC il ilx \<noteq> MINMAX IL_VMIN \<and> ILI_OPC il ilx \<noteq> MINMAX IL_VMAX
      then Inl (Interr ''gen_call_vminmax_intrinsic(): bad opc'')
      else
       (let mstr = (if ILI_OPC il ilx = MINMAX IL_VMIN then ''minnum'' else ''maxnum'');
            vect_dtype = ILI_OPND il ilx 3;
            vect_size = DTY il (vect_dtype + 2);
            kind = TY il (DTY il (DTY il (vect_dtype + 1)));
            ty = (if kind = TY_FLOAT \<or> kind = TY_DBLE then CHR ''f'' else CHR ''i'');
            supported =
              (if kind = TY_FLOAT \<or> kind = TY_DBLE \<or> kind = TY_INT \<or> kind = TY_UINT
               then vect_size = 2 \<or> vect_size = 4 \<or> vect_size = 8
               else if kind = TY_SINT \<or> kind = TY_USINT
               then vect_size = 4 \<or> vect_size = 8
               else False)
        in if \<not> supported then Inr (None, st)
           else
             (let type_size = zsize_of il (DTY il (vect_dtype + 1)) * 8;
                  buf = ''@llvm.'' @ mstr @ ''.v'' @ decimal vect_size @ [ty] @ decimal type_size
              in bind_err
                   (gen_call_to_builtin fc ilx buf [op1, op2]
                      (make_lltype_from_dtype (DT_dtype vect_dtype)) I_PICALL st)
                   (\<lambda>(operand, st1). Inr (Some operand, st1)))))"

definition gen_call_vminmax_power_intrinsic ::
  "flag_consts \<Rightarrow> ili_env \<Rightarrow> ILIX \<Rightarrow> OPERAND \<Rightarrow> OPERAND \<Rightarrow> cg_state
    \<Rightarrow> error + (OPERAND option \<times> cg_state)" where
  "gen_call_vminmax_power_intrinsic fc il ilx op1 op2 st =
     (let mstr = (if ILI_OPC il ilx = MINMAX IL_VMIN then ''min'' else ''max'');
          vect_dtype = ILI_OPND il ilx 3;
          vect_size = DTY il (vect_dtype + 2);
          kind = TY il (DTY il (DTY il (vect_dtype + 1)))
      in if vect_size \<noteq> 2 \<and> vect_size \<noteq> 4 then Inr (None, st)
         else if kind \<noteq> TY_FLOAT \<and> kind \<noteq> TY_DBLE then Inr (None, st)
         else
           (let ty = (if vect_size = 2 then ''dp'' else ''sp'');
                buf = ''@llvm.ppc.vsx.xv'' @ mstr @ ty
            in bind_err
                 (gen_call_to_builtin fc ilx buf [op1, op2]
                    (make_lltype_from_dtype (DT_dtype vect_dtype)) I_PICALL st)
                 (\<lambda>(operand, st1). Inr (Some operand, st1))))"

definition gen_call_vminmax_neon_intrinsic ::
  "flag_consts \<Rightarrow> config \<Rightarrow> ili_env \<Rightarrow> ILIX \<Rightarrow> OPERAND \<Rightarrow> OPERAND \<Rightarrow> cg_state
    \<Rightarrow> error + (OPERAND option \<times> cg_state)" where
  "gen_call_vminmax_neon_intrinsic fc cfg il ilx op1 op2 st =
     (if \<not> NEON_ENABLED cfg then Inr (None, st)
      else
       (let mstr = (if ILI_OPC il ilx = MINMAX IL_VMIN then ''vmin'' else ''vmax'');
            vect_dtype = ILI_OPND il ilx 3;
            vect_size = DTY il (vect_dtype + 2);
            kind = TY il (DTY il (DTY il (vect_dtype + 1)));
            ty = (if kind = TY_FLOAT then CHR ''f'' else CHR ''i'');
            sign = (if kind = TY_FLOAT \<or> kind = TY_INT \<or> kind = TY_SINT
                    then CHR ''s'' else CHR ''u'');
            supported =
              (if kind = TY_FLOAT \<or> kind = TY_INT \<or> kind = TY_UINT
               then vect_size = 2 \<or> vect_size = 4
               else if kind = TY_SINT \<or> kind = TY_USINT
               then vect_size = 4 \<or> vect_size = 8
               else False)
        in if \<not> supported then Inr (None, st)
           else
             (let type_size = zsize_of il (DTY il (vect_dtype + 1)) * 8;
                  buf = ''@llvm.arm.neon.'' @ mstr @ [sign] @ ''.v'' @ decimal vect_size @ [ty]
                          @ decimal type_size
              in bind_err
                   (gen_call_to_builtin fc ilx buf [op1, op2]
                      (make_lltype_from_dtype (DT_dtype vect_dtype)) I_PICALL st)
                   (\<lambda>(operand, st1). Inr (Some operand, st1)))))"

text \<open>
  The comparison codes of \<open>gen_minmax_expr\<close>; \<open>convert_to_llvm_cc\<close> maps them to the
  codes of the target and is a parameter here.
\<close>

datatype CC = CC_LT | CC_GT

record cmp_kind =
  CMP_INT :: bool
  CMP_FLT :: bool
  CMP_USG :: bool

text \<open>
  The \<open>switch\<close> of \<open>gen_minmax_expr\<close> that chooses the compare instruction and its
  condition code.  For an opcode that is none of the minimum and maximum opcodes the
  source leaves both uninitialised; that is \<open>None\<close> here, and \<open>gen_minmax_expr\<close> stops
  with an error.
\<close>

definition minmax_cc ::
  "ili_env \<Rightarrow> (CC \<Rightarrow> cmp_kind \<Rightarrow> nat) \<Rightarrow> ILI_OP \<Rightarrow> nat \<Rightarrow> (LL_InstrName \<times> nat) option" where
  "minmax_cc il convert_to_llvm_cc opc vect_dtype =
     (let int_cmp = \<lparr> CMP_INT = True, CMP_FLT = False, CMP_USG = False \<rparr>;
          usg_cmp = \<lparr> CMP_INT = True, CMP_FLT = False, CMP_USG = True \<rparr>;
          flt_cmp = \<lparr> CMP_INT = False, CMP_FLT = True, CMP_USG = False \<rparr>
      in case opc of
           MINMAX m \<Rightarrow>
             (if m = IL_UIMIN \<or> m = IL_UKMIN
              then Some (I_ICMP, convert_to_llvm_cc CC_LT usg_cmp)
              else if m = IL_IMIN \<or> m = IL_KMIN
              then Some (I_ICMP, convert_to_llvm_cc CC_LT int_cmp)
              else if m = IL_FMIN \<or> m = IL_DMIN
              then Some (I_FCMP, convert_to_llvm_cc CC_LT flt_cmp)
              else if m = IL_UIMAX \<or> m = IL_UKMAX
              then Some (I_ICMP, convert_to_llvm_cc CC_GT usg_cmp)
              else if m = IL_IMAX \<or> m = IL_KMAX
              then Some (I_ICMP, convert_to_llvm_cc CC_GT int_cmp)
              else if m = IL_FMAX \<or> m = IL_DMAX
              then Some (I_FCMP, convert_to_llvm_cc CC_GT flt_cmp)
              else
                (let cc_ctype = (if m = IL_VMIN then CC_LT else CC_GT);
                     kind = TY il (DTY il (DTY il (vect_dtype + 1)))
                 in if kind = TY_FLOAT \<or> kind = TY_DBLE
                    then Some (I_FCMP, convert_to_llvm_cc cc_ctype flt_cmp)
                    else if DT_ISUNSIGNED il (DTY il (vect_dtype + 1))
                    then Some (I_ICMP, convert_to_llvm_cc cc_ctype usg_cmp)
                    else Some (I_ICMP, convert_to_llvm_cc cc_ctype int_cmp)))
         | _ \<Rightarrow> None)"

definition gen_minmax_expr ::
  "flag_consts \<Rightarrow> ili_env \<Rightarrow> (CC \<Rightarrow> cmp_kind \<Rightarrow> nat) \<Rightarrow> ILIX \<Rightarrow> OPERAND \<Rightarrow> OPERAND
    \<Rightarrow> cg_state \<Rightarrow> error + (OPERAND \<times> cg_state)" where
  "gen_minmax_expr fc il convert_to_llvm_cc ilx op1 op2 st =
     (let opc = ILI_OPC il ilx;
          t = fst (make_tmps st);
          st1 = snd (make_tmps st);
          vect_dtype = ili_get_vect_type il ilx;
          llt = (if vect_dtype \<noteq> 0 then make_lltype_from_dtype (DT_dtype vect_dtype)
                 else make_type_from_opc il opc);
          operand = make_tmp_op (Some (if vect_dtype \<noteq> 0 then sub_types llt 0 else llt))
                      (Some t);
          bool_type = make_int_lltype 1
      in
      case minmax_cc il convert_to_llvm_cc opc vect_dtype of
        None \<Rightarrow> Inl (Interr ''gen_minmax_expr(): comparison left uninitialized'')
      | Some (cc_itype, cc_val) \<Rightarrow>
          (let tc = fst (make_tmps st1);
               st2 = snd (make_tmps st1);
               cmp_op = make_tmp_op (Some bool_type) (Some tc);
               c = gen_instr cc_itype (Some tc) (Some bool_type)
                     [make_operand\<lparr> ot_type := OT_CC, val_cc := cc_val, ll_type := Some llt \<rparr>,
                      op1, op2] st2
           in
           bind_err (ad_instr fc ilx (fst c) (snd c)) (\<lambda>st4.
             (let s = gen_instr I_SELECT (Some t) (ll_type operand)
                        [cmp_op, gen_copy_op op1, gen_copy_op op2] st4
              in bind_err (ad_instr fc ilx (fst s) (snd s)) (\<lambda>st6. Inr (operand, st6))))))"

text \<open>The cases \<open>IL_VMIN\<close> and \<open>IL_VMAX\<close> of \<open>gen_llvm_expr\<close>.\<close>

definition gen_vminmax ::
  "flag_consts \<Rightarrow> config \<Rightarrow> ili_env \<Rightarrow> (CC \<Rightarrow> cmp_kind \<Rightarrow> nat) \<Rightarrow> lowering \<Rightarrow> ILIX
    \<Rightarrow> cg_state \<Rightarrow> error + (OPERAND \<times> cg_state)" where
  "gen_vminmax fc cfg il convert_to_llvm_cc gen_llvm_expr ilx st =
     (let vect_dtype = ILI_OPND il ilx 3;
          lhs_ili = ILI_OPND il ilx 2;
          rhs_ili = ILI_OPND il ilx 1;
          llTy = make_lltype_from_dtype (DT_dtype vect_dtype)
      in
      bind_err (gen_llvm_expr lhs_ili (Some llTy) st) (\<lambda>(op1, st1).
      bind_err (gen_llvm_expr rhs_ili (Some llTy) st1) (\<lambda>(op2, st2).
      bind_err
        (case TARGET cfg of
           TARGET_LLVM_POWER \<Rightarrow> gen_call_vminmax_power_intrinsic fc il ilx op1 op2 st2
         | TARGET_LLVM_ARM \<Rightarrow> gen_call_vminmax_neon_intrinsic fc cfg il ilx op1 op2 st2
         | _ \<Rightarrow> gen_call_vminmax_intrinsic fc il ilx op1 op2 st2)
        (\<lambda>(res, st3).
           case res of
             Some operand \<Rightarrow> Inr (operand, st3)
           | None \<Rightarrow> gen_minmax_expr fc il convert_to_llvm_cc ilx op1 op2 st3))))"


subsection \<open>The expression lowering engine\<close>

text \<open>
  What \<open>gen_llvm_expr\<close> takes from elsewhere: the function's return type
  (\<open>return_is_void_type\<close> says that its data type is \<open>LL_VOID\<close>), the address of the
  return-value symbol cast for loading, the comparison codes, the lowering of the
  opcodes that are not treated here (it is handed the engine for its subexpressions),
  and the reconciliation of an operand with the expected type.
\<close>

record expr_env =
  return_ll_type :: LL_Type
  return_is_void_type :: bool
  ret_sret_sptr :: SPTR
  sret_as_prtype :: "cg_state \<Rightarrow> error + (OPERAND \<times> cg_state)"
  sret_load_flags :: LL_InstrListFlags
  convert_to_llvm_cc :: "CC \<Rightarrow> cmp_kind \<Rightarrow> nat"
  lower_opc :: "lowering \<Rightarrow> lowering"
  reconcile :: "ILIX \<Rightarrow> LL_Type \<Rightarrow> OPERAND \<Rightarrow> cg_state \<Rightarrow> error + (OPERAND \<times> cg_state)"

definition gen_load ::
  "flag_consts \<Rightarrow> config \<Rightarrow> OPERAND \<Rightarrow> LL_Type \<Rightarrow> LL_InstrListFlags \<Rightarrow> cg_state
    \<Rightarrow> error + (OPERAND \<times> cg_state)" where
  "gen_load fc cfg addr ty flgs st = ad_csed_instr fc cfg I_LOAD 0 (Some ty) [addr] flgs False st"

definition gen_return_operand ::
  "flag_consts \<Rightarrow> config \<Rightarrow> expr_env \<Rightarrow> cg_state \<Rightarrow> error + (OPERAND \<times> cg_state)" where
  "gen_return_operand fc cfg ee st =
     (let rtype = return_ll_type ee in
      if return_is_void_type ee then Inr (make_operand\<lparr> ll_type := Some rtype \<rparr>, st)
      else if ret_sret_sptr ee \<noteq> 0 then
        bind_err (sret_as_prtype ee st)
          (\<lambda>(addr, st1). gen_load fc cfg addr rtype (sret_load_flags ee) st1)
      else Inr (make_undef_op rtype, st))"

definition setTempMap :: "ILIX \<Rightarrow> OPERAND \<Rightarrow> cg_state \<Rightarrow> cg_state" where
  "setTempMap ilx opnd st =
     (if ilx < tempsMap_size st then st\<lparr> tempsMap := (tempsMap st)(ilx := tmps opnd) \<rparr> else st)"

definition define_expected_type :: "ili_env \<Rightarrow> dfr_op \<Rightarrow> ILIX \<Rightarrow> LL_Type" where
  "define_expected_type il d ilx =
     (case d of
        IL_DFRKR \<Rightarrow> make_lltype_from_dtype DT_INT8 | IL_FREEKR \<Rightarrow> make_lltype_from_dtype DT_INT8
      | IL_DFRIR \<Rightarrow> make_lltype_from_dtype DT_INT | IL_FREEIR \<Rightarrow> make_lltype_from_dtype DT_INT
      | IL_DFRSP \<Rightarrow> make_lltype_from_dtype DT_FLOAT | IL_FREESP \<Rightarrow> make_lltype_from_dtype DT_FLOAT
      | IL_DFRDP \<Rightarrow> make_lltype_from_dtype DT_DBLE | IL_FREEDP \<Rightarrow> make_lltype_from_dtype DT_DBLE
      | IL_DFR128 \<Rightarrow> make_lltype_from_dtype DT_128
      | IL_DFR256 \<Rightarrow> make_lltype_from_dtype DT_256
      | IL_DFRAR \<Rightarrow> make_lltype_from_dtype DT_CPTR | IL_FREEAR \<Rightarrow> make_lltype_from_dtype DT_CPTR
      | IL_DFRCS \<Rightarrow> make_lltype_from_dtype DT_CMPLX | IL_FREECS \<Rightarrow> make_lltype_from_dtype DT_CMPLX
      | IL_FREE \<Rightarrow> make_lltype_from_dtype (DT_dtype (ILI_OPND il ilx 2)))"

text \<open>The opcodes whose case sets the local \<open>cse_opc\<close>; \<open>IL_FREE\<close> does not.\<close>

definition cse_opc :: "dfr_op \<Rightarrow> bool" where
  "cse_opc d \<longleftrightarrow> d \<in> {IL_FREEKR, IL_FREEIR, IL_FREESP, IL_FREEDP, IL_FREEAR, IL_FREECS}"

definition fuel :: error where
  "fuel = Interr ''recursion bound of the model reached''"

text \<open>
  The cases of the \<open>switch\<close> of \<open>gen_llvm_expr\<close>, each a function of the engine \<open>rec\<close>
  used for the subexpressions.  A case yields the operand, the expected type (the
  result moves give it a default) and the state.
\<close>

type_synonym case_result = "error + (OPERAND \<times> LL_Type option \<times> cg_state)"

definition keep_type :: "LL_Type option \<Rightarrow> error + (OPERAND \<times> cg_state) \<Rightarrow> case_result" where
  "keep_type ty r = bind_err r (\<lambda>(operand, s). Inr (operand, ty, s))"

definition call_processing ::
  "flag_consts \<Rightarrow> config \<Rightarrow> ili_env \<Rightarrow> call_env \<Rightarrow> lowering \<Rightarrow> ILIX \<Rightarrow> LL_Type option
    \<Rightarrow> nat \<Rightarrow> SPTR \<Rightarrow> cg_state \<Rightarrow> case_result" where
  "call_processing fc cfg il ce rec ilx expected_type call_dtype call_sptr st =
     bind_err (gen_call_expr fc cfg il ce rec ilx call_dtype call_sptr st)
       (\<lambda>(call_op, s1).
          case call_op of
            Some operand \<Rightarrow>
              Inr (if DT_ISUNSIGNED il call_dtype
                   then operand\<lparr> op_flags := op_flags operand OR OPF_ZEXT fc \<rparr>
                   else if DT_ISINT il call_dtype
                   then operand\<lparr> op_flags := op_flags operand OR OPF_SEXT fc \<rparr>
                   else operand,
                   expected_type, s1)
          | None \<Rightarrow> Inr (make_operand\<lparr> ll_type := Some make_void_lltype \<rparr>, expected_type, s1))"

definition jsr_case ::
  "flag_consts \<Rightarrow> config \<Rightarrow> ili_env \<Rightarrow> call_env \<Rightarrow> lowering \<Rightarrow> jsr_op \<Rightarrow> ILIX
    \<Rightarrow> LL_Type option \<Rightarrow> cg_state \<Rightarrow> case_result" where
  "jsr_case fc cfg il ce rec jop ilx expected_type st =
     (if jop = IL_JSRA \<or> jop = IL_GJSRA then
        call_processing fc cfg il ce rec ilx expected_type
          (if ILI_OPND il ilx 4 \<noteq> 0 then DTY il (DTYPEG st (ILI_OPND il ilx 4))
           else curr_ret_dtype st) 0 st
      else
        bind_err (gen_call_as_llvm_instr ce (ILI_OPND il ilx 1) ilx st)
          (\<lambda>(call_op, s1).
             case call_op of
               Some operand \<Rightarrow> Inr (operand, expected_type, s1)
             | None \<Rightarrow>
                 call_processing fc cfg il ce rec ilx expected_type
                   (DTY il (DTYPEG s1 (ILI_OPND il ilx 1))) (ILI_OPND il ilx 1) s1))"

definition minmax_case ::
  "flag_consts \<Rightarrow> config \<Rightarrow> ili_env \<Rightarrow> expr_env \<Rightarrow> lowering \<Rightarrow> minmax_op \<Rightarrow> ILIX
    \<Rightarrow> LL_Type option \<Rightarrow> cg_state \<Rightarrow> case_result" where
  "minmax_case fc cfg il ee rec m ilx expected_type st =
     (if m = IL_VMIN \<or> m = IL_VMAX then
        keep_type expected_type (gen_vminmax fc cfg il (convert_to_llvm_cc ee) rec ilx st)
      else
        (let llTy = make_type_from_opc il (ILI_OPC il ilx) in
         bind_err (rec (ILI_OPND il ilx 2) (Some llTy) st) (\<lambda>(op1, s1).
         bind_err (rec (ILI_OPND il ilx 1) (Some llTy) s1) (\<lambda>(op2, s2).
         keep_type expected_type
           (gen_minmax_expr fc il (convert_to_llvm_cc ee) ilx op1 op2 s2)))))"

text \<open>
  The result moves and frees: everything from the label \<open>_process_define_ili\<close> to the
  \<open>break\<close>.  \<open>n\<close> bounds the walk of \<open>add_to_cselist\<close>.
\<close>

definition process_define_ili ::
  "nat \<Rightarrow> ili_env \<Rightarrow> call_env \<Rightarrow> lowering \<Rightarrow> dfr_op \<Rightarrow> ILIX \<Rightarrow> LL_Type option \<Rightarrow> cg_state
    \<Rightarrow> case_result" where
  "process_define_ili n il ce rec d ilx expected_type0 st =
     (let expected_type =
            (case expected_type0 of
               None \<Rightarrow> Some (define_expected_type il d ilx)
             | Some ty \<Rightarrow> Some ty);
          callee = ILI_OPND il ilx 1;
          callee_opc = ILI_OPC il callee;
          st1 = st\<lparr> curr_ret_dtype :=
                      (if cse_opc d then 0 else dtype_from_return_type ce (DFR d)) \<rparr>;
          st2 = (if (callee_opc = JSR IL_QJSR \<or> callee_opc = JSR IL_JSR \<or>
                     callee_opc = JSR IL_GJSR) \<and>
                    sym_CCSYMG ce (ILI_OPND il callee 1) \<and>
                    DTYPEG st1 (ILI_OPND il callee 1) < DT_MAX ce
                 then st1\<lparr> DTYPEG := update_return_type_for_ccfunc ce callee (DFR d)
                                         (DTYPEG st1) \<rparr>
                 else st1)
      in
      if callee_opc = JSR IL_QJSR \<or> callee_opc = JSR IL_GJSR then
        keep_type expected_type (rec callee expected_type st2)
      else
        (case get_csed_operand il st2 callee of
           None \<Rightarrow>
             bind_err (rec callee expected_type st2) (\<lambda>(operand, s1).
               case add_to_cselist n il callee s1 of
                 None \<Rightarrow> Inl fuel
               | Some (_, s2) \<Rightarrow>
                   Inr (operand, expected_type, set_csed_operand il callee operand s2))
         | Some slot \<Rightarrow>
             if ILI_COUNT st2 callee = 0 then
               keep_type expected_type (rec callee expected_type st2)
             else
               (case slot of
                  None \<Rightarrow>
                    bind_err (rec callee expected_type st2) (\<lambda>(operand, s1).
                      Inr (operand, expected_type, set_csed_operand il callee operand s1))
                | Some csed \<Rightarrow> Inr (gen_copy_op csed, expected_type, st2))))"

definition cse_case ::
  "ili_env \<Rightarrow> lowering \<Rightarrow> ILIX \<Rightarrow> LL_Type option \<Rightarrow> cg_state \<Rightarrow> case_result" where
  "cse_case il rec ilx expected_type st =
     (let csed_ilix = alt_ili il (ILI_OPND il ilx 1) in
      case get_csed_operand il st csed_ilix of
        None \<Rightarrow> Inl (Interr ''missing cse operand list for ilix '')
      | Some slot \<Rightarrow>
          if ILI_COUNT st csed_ilix = 0 then
            keep_type expected_type (rec csed_ilix expected_type st)
          else
            (case slot of
               None \<Rightarrow> Inl (Interr ''null operand in cse list for ilix '')
             | Some csed \<Rightarrow> Inr (gen_copy_op csed, expected_type, st)))"

definition misc_case ::
  "flag_consts \<Rightarrow> config \<Rightarrow> ili_env \<Rightarrow> expr_env \<Rightarrow> lowering \<Rightarrow> misc_op \<Rightarrow> ILIX
    \<Rightarrow> LL_Type option \<Rightarrow> cg_state \<Rightarrow> case_result" where
  "misc_case fc cfg il ee rec m ilx expected_type st =
     keep_type expected_type
       (if m = IL_EXIT then gen_return_operand fc cfg ee st
        else if m = IL_SCMPLXMUL then gen_cmplx_mul fc cfg il rec ilx DT_CMPLX st
        else if m = IL_DCMPLXMUL then gen_cmplx_mul fc cfg il rec ilx DT_DCMPLX st
        else lower_opc ee rec ilx expected_type st)"

definition sel_case ::
  "flag_consts \<Rightarrow> config \<Rightarrow> ili_env \<Rightarrow> expr_env \<Rightarrow> lowering \<Rightarrow> sel_op \<Rightarrow> ILIX
    \<Rightarrow> LL_Type option \<Rightarrow> cg_state \<Rightarrow> case_result" where
  "sel_case fc cfg il ee rec sop ilx expected_type st =
     keep_type expected_type
       (if sop = IL_ATOMICRMWI \<or> sop = IL_ATOMICRMWA \<or> sop = IL_ATOMICRMWKR
        then gen_llvm_atomicrmw_expr fc cfg il rec ilx st
        else lower_opc ee rec ilx expected_type st)"

text \<open>
  The statements of \<open>gen_llvm_expr\<close> after the \<open>switch\<close>.  An operand whose type is the
  expected type itself is returned as it is (\<open>match_types\<close> answers \<open>MATCH_OK\<close> and no
  cast is made); every other operand goes through \<open>reconcile\<close>.
\<close>

definition expr_tail ::
  "ili_env \<Rightarrow> expr_env \<Rightarrow> ILIX \<Rightarrow> OPERAND \<Rightarrow> LL_Type option \<Rightarrow> cg_state
    \<Rightarrow> error + (OPERAND \<times> cg_state)" where
  "expr_tail il ee ilx operand expected_type s1 =
     (if ll_type operand = None then Inl (Interr ''gen_llvm_expr(): missing type'')
      else
        (let s2 = (case get_csed_operand il s1 ilx of
                     None \<Rightarrow> s1
                   | Some _ \<Rightarrow> set_csed_operand il ilx operand s1);
             s3 = s2\<lparr> ILI_COUNT := (ILI_COUNT s2)(ilx := Suc (ILI_COUNT s2 ilx)) \<rparr>
         in
         bind_err
           (case expected_type of
              None \<Rightarrow> Inr (operand, s3)
            | Some ty \<Rightarrow>
                if ll_type operand = Some ty then Inr (operand, s3)
                else reconcile ee ilx ty operand s3)
           (\<lambda>(operand', s4). Inr (operand', setTempMap ilx operand' s4))))"

text \<open>
  One level of \<open>gen_llvm_expr\<close>: the alternative of the node is taken first unless the
  node is a \<open>JSR\<close> or a \<open>JSRA\<close>.
\<close>

definition expr_switch ::
  "nat \<Rightarrow> flag_consts \<Rightarrow> config \<Rightarrow> ili_env \<Rightarrow> call_env \<Rightarrow> expr_env \<Rightarrow> lowering \<Rightarrow> ILIX
    \<Rightarrow> LL_Type option \<Rightarrow> cg_state \<Rightarrow> case_result" where
  "expr_switch n fc cfg il ce ee rec ilx expected_type st =
     (case ILI_OPC il ilx of
        JSR jop \<Rightarrow> jsr_case fc cfg il ce rec jop ilx expected_type st
      | MISC m \<Rightarrow> misc_case fc cfg il ee rec m ilx expected_type st
      | MINMAX m \<Rightarrow> minmax_case fc cfg il ee rec m ilx expected_type st
      | SEL sop \<Rightarrow> sel_case fc cfg il ee rec sop ilx expected_type st
      | DFR d \<Rightarrow> process_define_ili n il ce rec d ilx expected_type st
      | CSE c \<Rightarrow> cse_case il rec ilx expected_type st
      | _ \<Rightarrow> keep_type expected_type (lower_opc ee rec ilx expected_type st))"

definition expr_level ::
  "nat \<Rightarrow> flag_consts \<Rightarrow> config \<Rightarrow> ili_env \<Rightarrow> call_env \<Rightarrow> expr_env \<Rightarrow> lowering \<Rightarrow> lowering" where
  "expr_level n fc cfg il ce ee rec ilx0 expected_type0 st =
     (let ilx = (if ILI_OPC il ilx0 = JSR IL_JSR \<or> ILI_OPC il ilx0 = JSR IL_JSRA then ilx0
                 else alt_ili il ilx0)
      in
      if ilx = 0 then Inl (Interr ''gen_llvm_expr(): no incoming ili'')
      else
        bind_err (expr_switch n fc cfg il ce ee rec ilx expected_type0 st)
          (\<lambda>(operand, expected_type, s1). expr_tail il ee ilx operand expected_type s1))"

text \<open>
  \<open>gen_llvm_expr\<close>.  The first argument bounds the depth of the recursion through the
  IL; running out of it is the error \<open>fuel\<close>.
\<close>

fun gen_llvm_expr ::
  "nat \<Rightarrow> flag_consts \<Rightarrow> config \<Rightarrow> ili_env \<Rightarrow> call_env \<Rightarrow> expr_env \<Rightarrow> lowering" where
  "gen_llvm_expr 0 fc cfg il ce ee ilx expected_type st = Inl fuel"
| "gen_llvm_expr (Suc n) fc cfg il ce ee ilx expected_type st =
     expr_level n fc cfg il ce ee (gen_llvm_expr n fc cfg il ce ee) ilx expected_type st"

subsection \<open>Statements\<close>

text \<open>
  What \<open>make_stmt\<close> takes from the rest of the file: the ABI's \<open>extend_abi_return\<close>,
  whether the routine has several entries and alternate returns, address operands,
  symbol processing, and the statement kinds that are not treated here (calls,
  branches, block moves and block zeroing).  \<open>store_operands\<close> is the part of the store
  case from \<open>cancel_store\<close> to the integer conversion of the stored value: it yields the
  value operand, the address operand and the flags of the data type, or nothing when
  the store is cancelled.
\<close>

record stmt_env =
  extend_abi_return :: bool
  has_entries :: bool
  arets :: bool
  gen_base_addr_operand :: lowering
  process_sptr :: "SPTR \<Rightarrow> cg_state \<Rightarrow> cg_state"
  update_llvm_sym_arrays :: "cg_state \<Rightarrow> cg_state"
  store_operands ::
    "lowering \<Rightarrow> ILIX \<Rightarrow> cg_state
      \<Rightarrow> error + ((OPERAND \<times> OPERAND \<times> LL_InstrListFlags) option \<times> cg_state)"
  IL_HAS_FENCE :: "ILI_OP \<Rightarrow> bool"
  other_stmt :: "lowering \<Rightarrow> STMT_Type \<Rightarrow> ILIX \<Rightarrow> nat \<Rightarrow> nat \<Rightarrow> cg_state \<Rightarrow> error + cg_state"



definition make_stmt_st ::
  "flag_consts \<Rightarrow> ili_env \<Rightarrow> stmt_env \<Rightarrow> lowering \<Rightarrow> ILIX \<Rightarrow> bool \<Rightarrow> cg_state
    \<Rightarrow> error + cg_state" where
  "make_stmt_st fc il se lower ilx deletable st =
     (let nme = ILI_OPND il ilx 3 in
      bind_err (store_operands se lower ilx (st\<lparr> curr_ret_dtype := 0 \<rparr>))
        (\<lambda>(r, st1).
           case r of
             None \<Rightarrow> Inr st1
           | Some (op1, store_op, store_flags0) \<Rightarrow>
               (let m = make_instr I_STORE st1;
                    store_flags1 = (if nme = NME_VOL il then store_flags0 OR VOLATILE_FLAG fc
                                    else store_flags0)
                in
                bind_err (if IL_HAS_FENCE se (ILI_OPC il ilx)
                          then bind_err (ll_instr_flags_for_memory_order_and_scope fc il ilx)
                                 (\<lambda>f. Inr (store_flags1 OR f))
                          else Inr store_flags1)
                  (\<lambda>store_flags.
                     ad_instr fc ilx
                       ((fst m)\<lparr> flags := (if deletable then store_flags OR DELETABLE fc
                                              else store_flags),
                                   operands := [op1, store_op] \<rparr>)
                       (snd m)))))"



subsection \<open>Example routines\<close>

text \<open>
  An instruction list for the dead-instruction pass: a load into temporary 0 that only
  the following add uses, an add into temporary 1 that nothing uses, a store flagged
  deletable, a call whose result is not used, and a store without the flag.
\<close>

definition var_op :: "SPTR \<Rightarrow> OPERAND" where
  "var_op sptr = make_operand\<lparr> ot_type := OT_VAR, val_sptr := sptr \<rparr>"

definition dce_instrs :: "INSTR_LIST list" where
  "dce_instrs =
     [\<lparr> i_id = 0, i_name = I_LOAD, ilix = 1, i_tmps = Some 0, i_ll_type = None,
        operands = [var_op 10], flags = 0 \<rparr>,
      \<lparr> i_id = 1, i_name = I_FADD, ilix = 2, i_tmps = Some 1, i_ll_type = None,
        operands = [make_tmp_op None (Some 0), make_tmp_op None (Some 0)], flags = 0 \<rparr>,
      \<lparr> i_id = 2, i_name = I_STORE, ilix = 3, i_tmps = None, i_ll_type = None,
        operands = [var_op 11, var_op 12], flags = DELETABLE example_flags \<rparr>,
      \<lparr> i_id = 3, i_name = I_CALL, ilix = 4, i_tmps = Some 2, i_ll_type = None,
        operands = [], flags = 0 \<rparr>,
      \<lparr> i_id = 4, i_name = I_STORE, ilix = 5, i_tmps = None, i_ll_type = None,
        operands = [var_op 11, var_op 13], flags = 0 \<rparr>]"

definition dce_state :: cg_state where
  "dce_state = start_state\<lparr> Instructions := dce_instrs, use_count := (\<lambda>_. 0)(0 := 2) \<rparr>"

text \<open>
  A block table with one block: block 1 is the last block, is no entry, and holds the
  statements 1 and 2.  Statement 1 is a store that the IL marks with \<open>ILT_DELETE\<close>;
  statement 2 is the exit of the routine.
\<close>

definition one_block :: sched_env where
  "one_block =
     \<lparr> BIH_EN = (\<lambda>_. False), BIH_LAST = (\<lambda>bih. bih = 1), BIH_LABEL = (\<lambda>_. 0),
       BIH_ILTFIRST = (\<lambda>_. 1), BIH_ILTLAST = (\<lambda>_. 2), BIH_NEXT = (\<lambda>_. 0),
       ILT_NEXT = (\<lambda>ilt. if ilt = 1 then 2 else 0), ILT_ILIP = (\<lambda>ilt. 20 + ilt),
       ILT_LINENO = (\<lambda>_. 0), ILT_BR = (\<lambda>_. False), ILT_ST = (\<lambda>ilt. ilt = 1),
       ILT_DELETE = (\<lambda>ilt. ilt = 1), ILT_EX = (\<lambda>_. False), DEFDG = (\<lambda>_. False),
       CCSYMG = (\<lambda>_. False), STYPEG_is_ST_LABEL = (\<lambda>_. True),
       SCG_is_SC_DUMMY = (\<lambda>_. False), NME_SYM = (\<lambda>_. 0),
       IL_TYPE = (\<lambda>opc. if opc = IL_other 1 then ILTY_STORE else ILTY_rest),
       IL_RES = (\<lambda>_. ILIA_rest), is_rgdfili_opcode = (\<lambda>_. False),
       is_mvili_opcode = (\<lambda>_. False), is_freeili_opcode = (\<lambda>_. False), SJSR = (\<lambda>_. False),
       cgmain_init_call = (\<lambda>_. False), has_multiple_entries = False, DPDSCG_currsub = 0,
       processHostConcur = False, usekmpc = False, flg_debug = False, sret_sptr = 0 \<rparr>"

text \<open>
  The IL of that block: node 21 is a store (opcode \<open>IL_other 1\<close>) and node 22 is
  \<open>IL_EXIT\<close>; no node has an alternative.
\<close>

definition one_block_il :: ili_env where
  "one_block_il =
     (atomic_il MO_RELAXED)
       \<lparr> ILI_OPC := (\<lambda>ilx. if ilx = 21 then IL_other 1
                            else if ilx = 22 then MISC IL_EXIT else IL_other 0) \<rparr>"


definition start_vars :: sched_vars where
  "start_vars = \<lparr> made_return = False, first = True, concurBih = 0, merge_next_block = False \<rparr>"

text \<open>
  Statement handling in which a store has the operands \<open>var_op 1\<close> (value) and
  \<open>var_op 2\<close> (address) and no flags from its data type, and a routine with one entry
  that returns a value of type \<open>i32\<close> in a register.
\<close>

definition example_stmt_env :: stmt_env where
  "example_stmt_env =
     \<lparr> extend_abi_return = False, has_entries = False, arets = False,
       gen_base_addr_operand = leaf_lowering, process_sptr = (\<lambda>_ st. st),
       update_llvm_sym_arrays = (\<lambda>st. st),
       store_operands = (\<lambda>_ _ st. Inr (Some (var_op 1, var_op 2, 0), st)),
       IL_HAS_FENCE = (\<lambda>_. False), other_stmt = (\<lambda>_ _ _ _ _ st. Inr st) \<rparr>"


text \<open>
  The IL of a vector minimum: node 30 is \<open>IL_VMIN\<close> of the nodes 301 and 302 on vectors
  of data type 100, which has three elements of the data type 200, a \<open>float\<close>.
\<close>

definition vmin_il :: ili_env where
  "vmin_il =
     (atomic_il MO_RELAXED)
       \<lparr> ILI_OPC := (\<lambda>ilx. if ilx = 30 then MINMAX IL_VMIN else IL_other 0),
         ILI_OPND := (\<lambda>ilx k. if ilx = 30 \<and> k = 3 then 100 else 10 * ilx + k),
         DTY := (\<lambda>d. if d = 101 then 200 else if d = 102 then 3 else if d = 200 then 5 else 0),
         TY := (\<lambda>k. if k = 5 then TY_FLOAT else TY_rest),
         ili_get_vect_type := (\<lambda>ilx. if ilx = 30 then 100 else 0) \<rparr>"

text \<open>
  A call that returns a struct in a register: node 40 is a \<open>JSR\<close> to the function 401
  whose first argument, node 402, is a \<open>GARGRET\<close> with the address node 4021.  The
  return data type 50 is a struct; the ABI returns it as an \<open>i64\<close> and has no \<open>sret\<close>
  argument.
\<close>

definition gargret_il :: ili_env where
  "gargret_il =
     (atomic_il MO_RELAXED)
       \<lparr> ILI_OPC := (\<lambda>ilx. if ilx = 40 then JSR IL_JSR
                            else if ilx = 402 then MISC IL_GARGRET else IL_other 0),
         DTY := (\<lambda>d. if d = 50 then 6 else 0),
         TY := (\<lambda>k. if k = 6 then TY_STRUCT else TY_rest) \<rparr>"

definition register_abi :: LL_ABI_Info where
  "register_abi =
     \<lparr> call_conv = 0, fast_math = False, missing_prototype = False, is_varargs = False,
       call_as_varargs = False, has_sret = False, ll_abi_return_type = make_int_lltype 64,
       return_is_void = False,
       ll_abi_function_type = make_function_type_from_args (make_int_lltype 64) [] False,
       abi_arg0_type = make_int_lltype 64 \<rparr>"

definition example_call_env :: call_env where
  "example_call_env =
     \<lparr> ll_abi_from_call_site = (\<lambda>_ _. register_abi),
       gen_arg_operand_list = (\<lambda>_ _ st. Inr ([], st)),
       make_var_op = var_op,
       make_bitcast = (\<lambda>operand ty st. Inr (operand\<lparr> ll_type := Some ty \<rparr>, st)),
       callee_has_type = (\<lambda>_ _. True),
       gen_call_as_llvm_instr = (\<lambda>_ _ st. Inr (None, st)),
       ldst_instr_flags_from_dtype = (\<lambda>_. 0),
       ILIA_ISAR_RES = (\<lambda>_. True),
       dtype_from_return_type = (\<lambda>_. 0),
       update_return_type_for_ccfunc = (\<lambda>_ _ d. d),
       is_256_or_512_bit_math_intrinsic = (\<lambda>_. False),
       sym_CCSYMG = (\<lambda>_. False),
       DT_MAX = 0 \<rparr>"

section \<open>Verified properties\<close>

subsection \<open>Errors and flag words\<close>

lemma bind_err_simps [simp]:
  "bind_err (Inl e) f = Inl e" "bind_err (Inr x) f = f x"
  by (simp_all add: bind_err_def)

lemma bind_err_Inr_iff:
  "bind_err r f = Inr y \<longleftrightarrow> (\<exists>x. r = Inr x \<and> f x = Inr y)"
  by (cases r) simp_all




subsection \<open>Atomic memory order\<close>










text \<open>What the printer appends to the output.\<close>

lemma print_token_simps [simp]:
  "out (print_token tok ps) = out ps @ [tok]"
  "reports (print_token tok ps) = reports ps"
  by (simp_all add: print_token_def)

lemma print_space_simps [simp]:
  "out (print_space n ps) = out ps @ [replicate n CHR '' '']"
  "reports (print_space n ps) = reports ps"
  by (simp_all add: print_space_def)

lemma print_nl_simps [simp]:
  "out (print_nl ps) = out ps @ [[CHR 0x0A]]"
  "reports (print_nl ps) = reports ps"
  by (simp_all add: print_nl_def)

lemma print_name_simps [simp]:
  "out (print_name r ps) = out ps @ [fst r]"
  "reports (print_name r ps) = reports ps @ snd r"
  by (simp_all add: print_name_def)


lemma write_forced_label_reports [simp]:
  "reports (write_forced_label instr nxt forceLabel ps) = reports ps"
  by (simp add: write_forced_label_def)









subsection \<open>Emitting instructions\<close>

lemma make_tmp_op_fields [simp]:
  "tmps (make_tmp_op ty t) = t" "ot_type (make_tmp_op ty t) = OT_TMP"
  "ll_type (make_tmp_op ty t) = ty"
  by (simp_all add: make_tmp_op_def make_operand_def)

lemma make_constval32_op_fields [simp]:
  "tmps (make_constval32_op idx) = None" "ot_type (make_constval32_op idx) = OT_CONSTVAL"
  by (simp_all add: make_constval32_op_def make_operand_def)

lemma make_undef_op_fields [simp]:
  "tmps (make_undef_op ty) = None" "ot_type (make_undef_op ty) = OT_UNDEF"
  "ll_type (make_undef_op ty) = Some ty"
  by (simp_all add: make_undef_op_def make_operand_def)

lemma count_uses_ok:
  "\<forall>opnd \<in> set ops. ot_type opnd = OT_TMP \<longrightarrow> tmps opnd \<noteq> None \<Longrightarrow>
     \<exists>uc'. count_uses ops uc = Inr uc'"
  by (induction ops arbitrary: uc) auto

lemma find_csed_instr_None:
  "\<forall>instr \<in> set xs. i_name instr = nm \<longrightarrow> \<not> same_operands (operands instr) ops \<Longrightarrow>
     find_csed_instr fc cfg nm ops xs = None"
  by (induction xs) auto

lemma same_operands_first_tmp:
  "same_operands xs (opnd # rest) \<Longrightarrow> ot_type opnd = OT_TMP \<Longrightarrow>
     \<exists>x \<in> set xs. tmps x = tmps opnd"
  by (cases xs) (auto split: if_splits)

lemma find_csed_instr_unused:
  assumes "ot_type opnd = OT_TMP" and "tmps opnd = Some t" and "t \<notin> used_tmps st"
  shows "find_csed_instr fc cfg nm (opnd # rest) (rev (Instructions st)) = None"
proof (rule find_csed_instr_None, intro ballI impI notI)
  fix instr
  assume i: "instr \<in> set (rev (Instructions st))"
    and s: "same_operands (operands instr) (opnd # rest)"
  from same_operands_first_tmp [OF s assms(1)] assms(2)
  obtain x where "x \<in> set (operands instr)" "tmps x = Some t" by auto
  with i have "t \<in> used_tmps st" by (auto simp: used_tmps_def)
  with assms(3) show False by simp
qed

lemma emit_new:
  assumes ok: "\<forall>opnd \<in> set ops. ot_type opnd = OT_TMP \<longrightarrow> tmps opnd \<noteq> None"
  shows "\<exists>st'. (case make_tmps st of (t, st1) \<Rightarrow>
            (case gen_instr nm (Some t) ty ops st1 of (instr, st2) \<Rightarrow>
              bind_err (ad_instr fc ilx (instr\<lparr> flags := flgs \<rparr>) st2)
                (\<lambda>st3. Inr (make_tmp_op ty2 (Some t), st3))))
            = Inr (make_tmp_op ty2 (Some (tmps_alloc st)), st') \<and> emits st st' nm ops"
proof -
  from count_uses_ok [OF ok] obtain uc' where
    "count_uses ops ((use_count st)(tmps_alloc st := 0)) = Inr uc'" by blast
  then show ?thesis
    by (simp add: make_tmps_def gen_instr_def make_instr_def ad_instr_def emits_def
          instr_shape_def)
qed

lemma ad_csed_instr_new:
  assumes ok: "\<forall>opnd \<in> set ops. ot_type opnd = OT_TMP \<longrightarrow> tmps opnd \<noteq> None"
    and nomatch: "do_cse \<Longrightarrow> find_csed_instr fc cfg nm ops (rev (Instructions st)) = None"
  shows "\<exists>st'. ad_csed_instr fc cfg nm ilx ty ops flgs do_cse st
            = Inr (make_tmp_op ty (Some (tmps_alloc st)), st') \<and> emits st st' nm ops"
  using emit_new [OF ok, where st = st and nm = nm and ty = ty and fc = fc and ilx = ilx
      and flgs = flgs and ?ty2.0 = ty] nomatch
  by (auto simp: ad_csed_instr_def)

lemma gen_extract_value_new:
  assumes ok: "ot_type aggr = OT_TMP \<longrightarrow> tmps aggr \<noteq> None"
  shows "\<exists>st'. gen_extract_value fc aggr adt edt idx st
            = Inr (make_tmp_op (Some (make_lltype_from_dtype edt)) (Some (tmps_alloc st)), st')
          \<and> emits st st' I_EXTRACTVAL [aggr, make_constval32_op idx]"
proof -
  have ok': "\<forall>opnd \<in> set [aggr, make_constval32_op idx].
               ot_type opnd = OT_TMP \<longrightarrow> tmps opnd \<noteq> None"
    using ok by simp
  have "gen_extract_value fc aggr adt edt idx st =
          (case make_tmps st of (t, st1) \<Rightarrow>
            (case gen_instr I_EXTRACTVAL (Some t) (Some (make_lltype_from_dtype adt))
                    [aggr, make_constval32_op idx] st1 of (instr, st2) \<Rightarrow>
              bind_err (ad_instr fc 0 (instr\<lparr> flags := 0 \<rparr>) st2)
                (\<lambda>st3. Inr (make_tmp_op (Some (make_lltype_from_dtype edt)) (Some t), st3))))"
    by (simp add: gen_extract_value_def gen_extract_value_ll_def Let_def make_tmps_def
          gen_instr_def make_instr_def)
  with emit_new [OF ok', where st = st and nm = I_EXTRACTVAL and fc = fc and ilx = 0
      and flgs = 0 and ty = "Some (make_lltype_from_dtype adt)"
      and ?ty2.0 = "Some (make_lltype_from_dtype edt)"]
  show ?thesis by simp
qed

lemma emits_used:
  "emits st st' nm ops \<Longrightarrow> used_tmps st' = used_tmps st \<union> {t. \<exists>opnd \<in> set ops. tmps opnd = Some t}"
  unfolding emits_def used_tmps_def instr_shape_def by (auto; blast)


lemma used_tmps_allocated:
  "tmps_allocated st \<Longrightarrow> t \<in> used_tmps st \<Longrightarrow> t < tmps_alloc st"
  by (auto simp: tmps_allocated_def used_tmps_def)

text \<open>
  Claim C4.  Lowering a complex multiply whose operands have been lowered to \<open>c1\<close> and
  \<open>c2\<close> appends exactly the following instructions: the extractions of the components,
  the four scalar multiplies \<open>a*c\<close>, \<open>a*d\<close>, \<open>b*c\<close>, \<open>b*d\<close>, the real part
  \<open>(a*c) - (b*d)\<close>, the imaginary part \<open>(a*d) + (b*c)\<close>, and the two insertions that
  put the real part at index 0 and the imaginary part at index 1 of the result; there
  are four multiplies and no call.  \<open>T k\<close> is the operand for the \<open>k\<close>-th temporary
  created by the lowering.
\<close>

theorem complex_multiply:
  assumes c1: "gen_eval_cmplx_value lower (ILI_OPND il ilx 1) dtype st = Inr (c1, s1)"
    and c2: "gen_eval_cmplx_value lower (ILI_OPND il ilx 2) dtype s1 = Inr (c2, s2)"
    and ok1: "operand_ok s2 c1" and ok2: "operand_ok s2 c2"
    and alloc: "tmps_allocated s2"
    and n: "n = tmps_alloc s2"
    and T: "T = (\<lambda>k. make_tmp_op
                 (Some (make_lltype_from_dtype (if dtype = DT_CMPLX then DT_FLOAT else DT_DBLE)))
                 (Some (n + k)))"
    and cty: "cty = make_lltype_from_dtype dtype"
  shows "\<exists>st' new.
           gen_cmplx_mul fc cfg il lower ilx dtype st
             = Inr (make_tmp_op (Some cty) (Some (n + 13)), st') \<and>
           Instructions st' = Instructions s2 @ new \<and>
           map instr_shape new =
           [(I_EXTRACTVAL, Some (n + 0), [c1, make_constval32_op 0]),
            (I_EXTRACTVAL, Some (n + 1), [c1, make_constval32_op 1]),
            (I_EXTRACTVAL, Some (n + 2), [c2, make_constval32_op 0]),
            (I_EXTRACTVAL, Some (n + 3), [c2, make_constval32_op 1]),
            (I_FMUL, Some (n + 4), [T 0, T 2]),
            (I_EXTRACTVAL, Some (n + 5), [c1, make_constval32_op 0]),
            (I_FMUL, Some (n + 6), [T 5, T 3]),
            (I_FMUL, Some (n + 7), [T 1, T 2]),
            (I_EXTRACTVAL, Some (n + 8), [c1, make_constval32_op 1]),
            (I_FMUL, Some (n + 9), [T 8, T 3]),
            (I_FSUB, Some (n + 10), [T 4, T 9]),
            (I_FADD, Some (n + 11), [T 6, T 7]),
            (I_INSERTVAL, Some (n + 12), [make_undef_op cty, T 10, make_constval32_op 0]),
            (I_INSERTVAL, Some (n + 13), [make_tmp_op (Some cty) (Some (n + 12)), T 11, make_constval32_op 1])] \<and>
           length (filter (\<lambda>instr. i_name instr = I_FMUL) new) = 4 \<and>
           list_all (\<lambda>instr. i_name instr \<noteq> I_CALL \<and> i_name instr \<noteq> I_PICALL \<and>
                              i_name instr \<noteq> I_INVOKE) new"
proof -
  define elt where "elt = (if dtype = DT_CMPLX then DT_FLOAT else DT_DBLE)"
  define ety where "ety = Some (make_lltype_from_dtype elt)"
  have Tk: "\<And>k. T k = make_tmp_op ety (Some (n + k))" by (simp add: T ety_def elt_def)
  have t1: "ot_type c1 = OT_TMP \<longrightarrow> tmps c1 \<noteq> None"
    and t2: "ot_type c2 = OT_TMP \<longrightarrow> tmps c2 \<noteq> None"
    using ok1 ok2 by (simp_all add: operand_ok_def)
  have lt1: "\<And>t. tmps c1 = Some t \<Longrightarrow> t < n" and lt2: "\<And>t. tmps c2 = Some t \<Longrightarrow> t < n"
    using ok1 ok2 n by (simp_all add: operand_ok_def)
  have old: "\<And>t. t \<in> used_tmps s2 \<Longrightarrow> t < n"
    using used_tmps_allocated [OF alloc] n by simp
  have a2: "tmps_alloc s2 = n + 0" using n by simp
  from gen_extract_value_new [OF t1, where fc = fc and adt = dtype
      and edt = elt and idx = 0 and st = s2]
  obtain s3 where
      g3: "gen_extract_value fc c1 dtype elt 0 s2
             = Inr (T 0, s3)"
    and e3: "emits s2 s3 I_EXTRACTVAL [c1, make_constval32_op 0]"
    unfolding Tk ety_def a2 by auto
  have a3: "tmps_alloc s3 = n + 1" using e3 a2 by (simp add: emits_def)
  note u3 = emits_used [OF e3]
  from gen_extract_value_new [OF t1, where fc = fc and adt = dtype
      and edt = elt and idx = 1 and st = s3]
  obtain s4 where
      g4: "gen_extract_value fc c1 dtype elt 1 s3
             = Inr (T 1, s4)"
    and e4: "emits s3 s4 I_EXTRACTVAL [c1, make_constval32_op 1]"
    unfolding Tk ety_def a3 by auto
  have a4: "tmps_alloc s4 = n + 2" using e4 a3 by (simp add: emits_def)
  note u4 = emits_used [OF e4] u3
  from gen_extract_value_new [OF t2, where fc = fc and adt = dtype
      and edt = elt and idx = 0 and st = s4]
  obtain s5 where
      g5: "gen_extract_value fc c2 dtype elt 0 s4
             = Inr (T 2, s5)"
    and e5: "emits s4 s5 I_EXTRACTVAL [c2, make_constval32_op 0]"
    unfolding Tk ety_def a4 by auto
  have a5: "tmps_alloc s5 = n + 3" using e5 a4 by (simp add: emits_def)
  note u5 = emits_used [OF e5] u4
  from gen_extract_value_new [OF t2, where fc = fc and adt = dtype
      and edt = elt and idx = 1 and st = s5]
  obtain s6 where
      g6: "gen_extract_value fc c2 dtype elt 1 s5
             = Inr (T 3, s6)"
    and e6: "emits s5 s6 I_EXTRACTVAL [c2, make_constval32_op 1]"
    unfolding Tk ety_def a5 by auto
  have a6: "tmps_alloc s6 = n + 4" using e6 a5 by (simp add: emits_def)
  note u6 = emits_used [OF e6] u5
  have "n + 0 \<notin> used_tmps s6"
    using old [of "n + 0"] lt1 [of "n + 0"] lt2 [of "n + 0"] by (auto simp: u6 Tk)
  then have "find_csed_instr fc cfg I_FMUL [T 0, T 2] (rev (Instructions s6)) = None"
    by (intro find_csed_instr_unused [where t = "n + 0"]) (simp_all add: Tk)
  from ad_csed_instr_new [where ops = "[T 0, T 2]" and do_cse = True and fc = fc and cfg = cfg
      and nm = I_FMUL and st = s6 and ilx = 0 and ty = ety and flgs = 0, OF _ this]
  obtain s7 where
      g7: "ad_csed_instr fc cfg I_FMUL 0 ety [T 0, T 2] 0 True s6 = Inr (T 4, s7)"
    and e7: "emits s6 s7 I_FMUL [T 0, T 2]"
    unfolding Tk a6 by (auto simp: Tk)
  have a7: "tmps_alloc s7 = n + 5" using e7 a6 by (simp add: emits_def)
  note u7 = emits_used [OF e7] u6
  from gen_extract_value_new [OF t1, where fc = fc and adt = dtype
      and edt = elt and idx = 0 and st = s7]
  obtain s8 where
      g8: "gen_extract_value fc c1 dtype elt 0 s7
             = Inr (T 5, s8)"
    and e8: "emits s7 s8 I_EXTRACTVAL [c1, make_constval32_op 0]"
    unfolding Tk ety_def a7 by auto
  have a8: "tmps_alloc s8 = n + 6" using e8 a7 by (simp add: emits_def)
  note u8 = emits_used [OF e8] u7
  have "n + 5 \<notin> used_tmps s8"
    using old [of "n + 5"] lt1 [of "n + 5"] lt2 [of "n + 5"] by (auto simp: u8 Tk)
  then have "find_csed_instr fc cfg I_FMUL [T 5, T 3] (rev (Instructions s8)) = None"
    by (intro find_csed_instr_unused [where t = "n + 5"]) (simp_all add: Tk)
  from ad_csed_instr_new [where ops = "[T 5, T 3]" and do_cse = True and fc = fc and cfg = cfg
      and nm = I_FMUL and st = s8 and ilx = 0 and ty = ety and flgs = 0, OF _ this]
  obtain s9 where
      g9: "ad_csed_instr fc cfg I_FMUL 0 ety [T 5, T 3] 0 True s8 = Inr (T 6, s9)"
    and e9: "emits s8 s9 I_FMUL [T 5, T 3]"
    unfolding Tk a8 by (auto simp: Tk)
  have a9: "tmps_alloc s9 = n + 7" using e9 a8 by (simp add: emits_def)
  note u9 = emits_used [OF e9] u8
  have "n + 1 \<notin> used_tmps s9"
    using old [of "n + 1"] lt1 [of "n + 1"] lt2 [of "n + 1"] by (auto simp: u9 Tk)
  then have "find_csed_instr fc cfg I_FMUL [T 1, T 2] (rev (Instructions s9)) = None"
    by (intro find_csed_instr_unused [where t = "n + 1"]) (simp_all add: Tk)
  from ad_csed_instr_new [where ops = "[T 1, T 2]" and do_cse = True and fc = fc and cfg = cfg
      and nm = I_FMUL and st = s9 and ilx = 0 and ty = ety and flgs = 0, OF _ this]
  obtain s10 where
      g10: "ad_csed_instr fc cfg I_FMUL 0 ety [T 1, T 2] 0 True s9 = Inr (T 7, s10)"
    and e10: "emits s9 s10 I_FMUL [T 1, T 2]"
    unfolding Tk a9 by (auto simp: Tk)
  have a10: "tmps_alloc s10 = n + 8" using e10 a9 by (simp add: emits_def)
  note u10 = emits_used [OF e10] u9
  from gen_extract_value_new [OF t1, where fc = fc and adt = dtype
      and edt = elt and idx = 1 and st = s10]
  obtain s11 where
      g11: "gen_extract_value fc c1 dtype elt 1 s10
             = Inr (T 8, s11)"
    and e11: "emits s10 s11 I_EXTRACTVAL [c1, make_constval32_op 1]"
    unfolding Tk ety_def a10 by auto
  have a11: "tmps_alloc s11 = n + 9" using e11 a10 by (simp add: emits_def)
  note u11 = emits_used [OF e11] u10
  have "n + 8 \<notin> used_tmps s11"
    using old [of "n + 8"] lt1 [of "n + 8"] lt2 [of "n + 8"] by (auto simp: u11 Tk)
  then have "find_csed_instr fc cfg I_FMUL [T 8, T 3] (rev (Instructions s11)) = None"
    by (intro find_csed_instr_unused [where t = "n + 8"]) (simp_all add: Tk)
  from ad_csed_instr_new [where ops = "[T 8, T 3]" and do_cse = True and fc = fc and cfg = cfg
      and nm = I_FMUL and st = s11 and ilx = 0 and ty = ety and flgs = 0, OF _ this]
  obtain s12 where
      g12: "ad_csed_instr fc cfg I_FMUL 0 ety [T 8, T 3] 0 True s11 = Inr (T 9, s12)"
    and e12: "emits s11 s12 I_FMUL [T 8, T 3]"
    unfolding Tk a11 by (auto simp: Tk)
  have a12: "tmps_alloc s12 = n + 10" using e12 a11 by (simp add: emits_def)
  note u12 = emits_used [OF e12] u11
  have "n + 4 \<notin> used_tmps s12"
    using old [of "n + 4"] lt1 [of "n + 4"] lt2 [of "n + 4"] by (auto simp: u12 Tk)
  then have "find_csed_instr fc cfg I_FSUB [T 4, T 9] (rev (Instructions s12)) = None"
    by (intro find_csed_instr_unused [where t = "n + 4"]) (simp_all add: Tk)
  from ad_csed_instr_new [where ops = "[T 4, T 9]" and do_cse = True and fc = fc and cfg = cfg
      and nm = I_FSUB and st = s12 and ilx = 0 and ty = ety and flgs = 0, OF _ this]
  obtain s13 where
      g13: "ad_csed_instr fc cfg I_FSUB 0 ety [T 4, T 9] 0 True s12 = Inr (T 10, s13)"
    and e13: "emits s12 s13 I_FSUB [T 4, T 9]"
    unfolding Tk a12 by (auto simp: Tk)
  have a13: "tmps_alloc s13 = n + 11" using e13 a12 by (simp add: emits_def)
  note u13 = emits_used [OF e13] u12
  have "n + 6 \<notin> used_tmps s13"
    using old [of "n + 6"] lt1 [of "n + 6"] lt2 [of "n + 6"] by (auto simp: u13 Tk)
  then have "find_csed_instr fc cfg I_FADD [T 6, T 7] (rev (Instructions s13)) = None"
    by (intro find_csed_instr_unused [where t = "n + 6"]) (simp_all add: Tk)
  from ad_csed_instr_new [where ops = "[T 6, T 7]" and do_cse = True and fc = fc and cfg = cfg
      and nm = I_FADD and st = s13 and ilx = 0 and ty = ety and flgs = 0, OF _ this]
  obtain s14 where
      g14: "ad_csed_instr fc cfg I_FADD 0 ety [T 6, T 7] 0 True s13 = Inr (T 11, s14)"
    and e14: "emits s13 s14 I_FADD [T 6, T 7]"
    unfolding Tk a13 by (auto simp: Tk)
  have a14: "tmps_alloc s14 = n + 12" using e14 a13 by (simp add: emits_def)
  note u14 = emits_used [OF e14] u13
  from ad_csed_instr_new [where ops = "[make_undef_op cty, T 10, make_constval32_op 0]" and do_cse = False and fc = fc
      and cfg = cfg and nm = I_INSERTVAL and st = s14 and ilx = 0 and ty = "Some cty" and flgs = 0]
  obtain s15 where
      g15: "ad_csed_instr fc cfg I_INSERTVAL 0 (Some cty) [make_undef_op cty, T 10, make_constval32_op 0] 0 False s14
             = Inr (make_tmp_op (Some cty) (Some (n + 12)), s15)"
    and e15: "emits s14 s15 I_INSERTVAL [make_undef_op cty, T 10, make_constval32_op 0]"
    unfolding a14 by (auto simp: Tk)
  have a15: "tmps_alloc s15 = n + 13" using e15 a14 by (simp add: emits_def)
  note u15 = emits_used [OF e15] u14
  from ad_csed_instr_new [where ops = "[make_tmp_op (Some cty) (Some (n + 12)), T 11, make_constval32_op 1]" and do_cse = False and fc = fc
      and cfg = cfg and nm = I_INSERTVAL and st = s15 and ilx = 0 and ty = "Some cty" and flgs = 0]
  obtain s16 where
      g16: "ad_csed_instr fc cfg I_INSERTVAL 0 (Some cty) [make_tmp_op (Some cty) (Some (n + 12)), T 11, make_constval32_op 1] 0 False s15
             = Inr (make_tmp_op (Some cty) (Some (n + 13)), s16)"
    and e16: "emits s15 s16 I_INSERTVAL [make_tmp_op (Some cty) (Some (n + 12)), T 11, make_constval32_op 1]"
    unfolding a15 by (auto simp: Tk)
  have a16: "tmps_alloc s16 = n + 14" using e16 a15 by (simp add: emits_def)
  note u16 = emits_used [OF e16] u15
  have res: "gen_cmplx_mul fc cfg il lower ilx dtype st
               = Inr (make_tmp_op (Some cty) (Some (n + 13)), s16)"
    unfolding gen_cmplx_mul_def Let_def elt_def [symmetric] ety_def [symmetric]
    using c1 c2
    by (simp add: gen_copy_operand_def gen_copy_op_def gen_insert_value_def
          g3 g4 g5 g6 g7 g8 g9 g10 g11 g12 g13 g14 g15 g16 cty [symmetric]
          del: One_nat_def)
  from e3 e4 e5 e6 e7 e8 e9 e10 e11 e12 e13 e14 e15 e16
  obtain new where new: "Instructions s16 = Instructions s2 @ new"
    and shapes: "map instr_shape new =
           [(I_EXTRACTVAL, Some (n + 0), [c1, make_constval32_op 0]),
            (I_EXTRACTVAL, Some (n + 1), [c1, make_constval32_op 1]),
            (I_EXTRACTVAL, Some (n + 2), [c2, make_constval32_op 0]),
            (I_EXTRACTVAL, Some (n + 3), [c2, make_constval32_op 1]),
            (I_FMUL, Some (n + 4), [T 0, T 2]),
            (I_EXTRACTVAL, Some (n + 5), [c1, make_constval32_op 0]),
            (I_FMUL, Some (n + 6), [T 5, T 3]),
            (I_FMUL, Some (n + 7), [T 1, T 2]),
            (I_EXTRACTVAL, Some (n + 8), [c1, make_constval32_op 1]),
            (I_FMUL, Some (n + 9), [T 8, T 3]),
            (I_FSUB, Some (n + 10), [T 4, T 9]),
            (I_FADD, Some (n + 11), [T 6, T 7]),
            (I_INSERTVAL, Some (n + 12), [make_undef_op cty, T 10, make_constval32_op 0]),
            (I_INSERTVAL, Some (n + 13), [make_tmp_op (Some cty) (Some (n + 12)), T 11, make_constval32_op 1])]"
    unfolding emits_def a2 a3 a4 a5 a6 a7 a8 a9 a10 a11 a12 a13 a14 a15 a16
    by (elim conjE exE) simp
  have names: "map i_name new = map fst (map instr_shape new)"
    by (simp add: instr_shape_def comp_def)
  have "length (filter (\<lambda>instr. i_name instr = I_FMUL) new)
          = length (filter (\<lambda>nm. nm = I_FMUL) (map i_name new))"
    by (simp add: filter_map comp_def)
  also have "\<dots> = 4" unfolding names shapes by simp
  finally have four: "length (filter (\<lambda>instr. i_name instr = I_FMUL) new) = 4" .
  have "list_all (\<lambda>nm. nm \<noteq> I_CALL \<and> nm \<noteq> I_PICALL \<and> nm \<noteq> I_INVOKE) (map i_name new)"
    unfolding names shapes by simp
  then have nocall: "list_all (\<lambda>instr. i_name instr \<noteq> I_CALL \<and> i_name instr \<noteq> I_PICALL \<and>
                              i_name instr \<noteq> I_INVOKE) new"
    by (simp add: list_all_iff)
  show ?thesis
    apply (rule exI [of _ s16])
    apply (rule exI [of _ new])
    apply (intro conjI)
        apply (rule res)
       apply (rule new)
      apply (rule shapes)
     apply (rule four)
    apply (rule nocall)
    done
qed


theorem complex_multiply_witness:
  "\<exists>st' new.
     gen_cmplx_mul example_flags example_config example_il leaf_lowering 7 DT_CMPLX start_state
       = Inr (make_tmp_op (Some (make_lltype_from_dtype DT_CMPLX)) (Some 13), st') \<and>
     Instructions st' = new \<and>
     map i_name new =
       [I_EXTRACTVAL, I_EXTRACTVAL, I_EXTRACTVAL, I_EXTRACTVAL, I_FMUL, I_EXTRACTVAL, I_FMUL,
        I_FMUL, I_EXTRACTVAL, I_FMUL, I_FSUB, I_FADD, I_INSERTVAL, I_INSERTVAL] \<and>
     map i_tmps new = map Some [0, 1, 2, 3, 4, 5, 6, 7, 8, 9, 10, 11, 12, 13]"
proof -
  define c1 where "c1 = make_operand\<lparr> ot_type := OT_VAR, val_sptr := 71,
                          ll_type := Some (make_lltype_from_dtype DT_CMPLX) \<rparr>"
  define c2 where "c2 = make_operand\<lparr> ot_type := OT_VAR, val_sptr := 72,
                          ll_type := Some (make_lltype_from_dtype DT_CMPLX) \<rparr>"
  have e1: "gen_eval_cmplx_value leaf_lowering (ILI_OPND example_il 7 1) DT_CMPLX start_state
              = Inr (c1, start_state)"
    and e2: "gen_eval_cmplx_value leaf_lowering (ILI_OPND example_il 7 2) DT_CMPLX start_state
              = Inr (c2, start_state)"
    by (simp_all add: gen_eval_cmplx_value_def leaf_lowering_def example_il_def atomic_il_def
          c1_def c2_def)
  have ok: "operand_ok start_state c1" "operand_ok start_state c2"
    by (simp_all add: operand_ok_def c1_def c2_def make_operand_def)
  have al: "tmps_allocated start_state"
    by (simp add: tmps_allocated_def start_state_def)
  from complex_multiply [OF e1 e2 ok al, where n = 0 and fc = example_flags
      and cfg = example_config, OF _ refl refl]
  obtain st' new where
      r: "gen_cmplx_mul example_flags example_config example_il leaf_lowering 7 DT_CMPLX
            start_state
          = Inr (make_tmp_op (Some (make_lltype_from_dtype DT_CMPLX)) (Some 13), st')"
    and i: "Instructions st' = Instructions start_state @ new"
    and sh: "map (fst \<circ> instr_shape) new =
       [I_EXTRACTVAL, I_EXTRACTVAL, I_EXTRACTVAL, I_EXTRACTVAL, I_FMUL, I_EXTRACTVAL, I_FMUL,
        I_FMUL, I_EXTRACTVAL, I_FMUL, I_FSUB, I_FADD, I_INSERTVAL, I_INSERTVAL]"
    and tm: "map (fst \<circ> snd \<circ> instr_shape) new
              = map Some [0, 1, 2, 3, 4, 5, 6, 7, 8, 9, 10, 11, 12, 13]"
    by (auto simp: start_state_def simp flip: map_map)
  have "fst \<circ> instr_shape = i_name" "fst \<circ> snd \<circ> instr_shape = i_tmps"
    by (auto simp: instr_shape_def fun_eq_iff)
  with r i sh tm show ?thesis
    by (simp add: start_state_def)
qed



subsection \<open>Dead instruction removal\<close>

lemma uncount_uses_le:
  "uncount_uses ops uc = Inr uc' \<Longrightarrow> uc' t \<le> uc t"
proof (induction ops arbitrary: uc)
  case Nil
  then show ?case by simp
next
  case (Cons a ops)
  show ?case
  proof (cases "ot_type a = OT_TMP")
    case True
    with Cons.prems obtain u where u: "tmps a = Some u"
      and r: "uncount_uses ops (uc(u := uc u - 1)) = Inr uc'"
      by (auto split: option.splits)
    from Cons.IH [OF r] show ?thesis by (auto split: if_splits)
  next
    case False
    with Cons show ?thesis by simp
  qed
qed

lemma remove_dead_loop_spec:
  "k \<le> length (Instructions st) \<Longrightarrow>
   remove_dead_loop fc k st =
     bind_err (dead_code_spec fc (rev (take k (Instructions st))) (use_count st))
       (\<lambda>(kept, uc). Inr (st\<lparr> Instructions := rev kept @ drop k (Instructions st),
                               use_count := uc \<rparr>))"
proof (induction k arbitrary: st)
  case 0
  then show ?case by simp
next
  case (Suc k)
  let ?xs = "Instructions st"
  let ?i = "?xs ! k"
  from Suc.prems have k: "k < length ?xs" by simp
  have tk: "rev (take (Suc k) ?xs) = ?i # rev (take k ?xs)"
    using k by (simp add: take_Suc_conv_app_nth)
  have dk: "drop k ?xs = ?i # drop (Suc k) ?xs"
    using k by (simp add: Cons_nth_drop_Suc)
  show ?case
  proof (cases "deletable_store fc ?i \<or> (unused_def (use_count st) ?i \<and> \<not> observable ?i)")
    case True
    then have step: "remove_dead_loop fc (Suc k) st
                       = bind_err (remove_instr k False st) (remove_dead_loop fc k)"
      by (auto simp: deletable_store_def unused_def_def observable_def Let_def
            split: option.splits)
    show ?thesis
    proof (cases "uncount_uses (operands ?i) (use_count st)")
      case (Inl e)
      then show ?thesis using True unfolding step by (simp add: tk remove_instr_def)
    next
      case (Inr uc1)
      define st1 where "st1 = st\<lparr> Instructions := take k ?xs @ drop (Suc k) ?xs,
                                  use_count := uc1 \<rparr>"
      have r: "remove_instr k False st = Inr st1"
        using Inr by (simp add: remove_instr_def st1_def)
      have len: "k \<le> length (Instructions st1)" using k by (simp add: st1_def)
      have t1: "take k (Instructions st1) = take k ?xs"
        and d1: "drop k (Instructions st1) = drop (Suc k) ?xs"
        using k by (simp_all add: st1_def)
      have a: "remove_dead_loop fc (Suc k) st = remove_dead_loop fc k st1"
        unfolding step r by simp
      have b: "remove_dead_loop fc k st1 =
                 bind_err (dead_code_spec fc (rev (take k ?xs)) uc1)
                   (\<lambda>(kept, uc). Inr (st\<lparr> Instructions := rev kept @ drop (Suc k) ?xs,
                                          use_count := uc \<rparr>))"
        using Suc.IH [OF len] unfolding t1 d1 by (simp add: st1_def)
      show ?thesis
        unfolding a b using True Inr by (simp add: tk)
    qed
  next
    case False
    then have step: "remove_dead_loop fc (Suc k) st = remove_dead_loop fc k st"
      by (auto simp: deletable_store_def unused_def_def observable_def Let_def
            split: option.splits)
    have len: "k \<le> length ?xs" using k by simp
    have sp: "dead_code_spec fc (?i # rev (take k ?xs)) (use_count st) =
                bind_err (dead_code_spec fc (rev (take k ?xs)) (use_count st))
                  (\<lambda>(kept, uc'). Inr (?i # kept, uc'))"
      using False by auto
    show ?thesis
      unfolding step Suc.IH [OF len] tk sp
      by (cases "dead_code_spec fc (rev (take k ?xs)) (use_count st)") (auto simp: dk)
  qed
qed

lemma dead_code_spec_props:
  "dead_code_spec fc xs uc = Inr (kept, uc') \<Longrightarrow>
     subseq kept xs \<and>
     (\<forall>instr \<in> set kept. \<not> deletable_store fc instr) \<and>
     filter observable kept = filter observable xs \<and>
     (\<forall>instr \<in> set kept. \<not> observable instr \<longrightarrow> \<not> unused_def uc instr) \<and>
     (\<forall>t. uc' t \<le> uc t)"
proof (induction xs arbitrary: uc kept uc')
  case Nil
  then show ?case by simp
next
  case (Cons i xs)
  show ?case
  proof (cases "deletable_store fc i \<or> (unused_def uc i \<and> \<not> observable i)")
    case True
    with Cons.prems obtain uc1 where u: "uncount_uses (operands i) uc = Inr uc1"
      and r: "dead_code_spec fc xs uc1 = Inr (kept, uc')"
      by (auto simp: bind_err_Inr_iff)
    have mono: "\<And>t. uc1 t \<le> uc t" using uncount_uses_le [OF u] .
    have obs: "\<not> observable i"
      using True by (auto simp: deletable_store_def observable_def)
    have un: "unused_def uc1 instr" if "unused_def uc instr" for instr
      using that mono by (auto simp: unused_def_def intro: order_trans)
    from Cons.IH [OF r] have ih: "subseq kept xs"
      "\<forall>instr \<in> set kept. \<not> deletable_store fc instr"
      "filter observable kept = filter observable xs"
      "\<forall>instr \<in> set kept. \<not> observable instr \<longrightarrow> \<not> unused_def uc1 instr"
      "\<forall>t. uc' t \<le> uc1 t"
      by blast+
    have "\<forall>t. uc' t \<le> uc t" using ih(5) mono by (blast intro: order_trans)
    moreover have "\<forall>instr \<in> set kept. \<not> observable instr \<longrightarrow> \<not> unused_def uc instr"
      using ih(4) un by blast
    ultimately show ?thesis using ih(1,2,3) obs by (simp add: list_emb_Cons)
  next
    case False
    with Cons.prems obtain kept1 where r: "dead_code_spec fc xs uc = Inr (kept1, uc')"
      and k: "kept = i # kept1"
      by (auto simp: bind_err_Inr_iff)
    from Cons.IH [OF r] False k show ?thesis by auto
  qed
qed


lemma dead_code_spec_removed:
  "dead_code_spec fc xs uc = Inr (kept, uc') \<Longrightarrow>
     \<forall>instr \<in> set xs - set kept.
        deletable_store fc instr \<or> (i_tmps instr \<noteq> None \<and> \<not> observable instr)"
proof (induction xs arbitrary: uc kept uc')
  case Nil
  then show ?case by simp
next
  case (Cons i xs)
  show ?case
  proof (cases "deletable_store fc i \<or> (unused_def uc i \<and> \<not> observable i)")
    case True
    with Cons.prems obtain uc1 where u: "uncount_uses (operands i) uc = Inr uc1"
      and r: "dead_code_spec fc xs uc1 = Inr (kept, uc')"
      by (auto simp: bind_err_Inr_iff)
    have "deletable_store fc i \<or> (i_tmps i \<noteq> None \<and> \<not> observable i)"
      using True by (auto simp: unused_def_def)
    with Cons.IH [OF r] show ?thesis by auto
  next
    case False
    with Cons.prems obtain kept1 where r: "dead_code_spec fc xs uc = Inr (kept1, uc')"
      and k: "kept = i # kept1"
      by (auto simp: bind_err_Inr_iff)
    from Cons.IH [OF r] k show ?thesis by auto
  qed
qed


text \<open>The flag that \<open>schedule\<close> hands to \<open>make_stmt\<close>.\<close>

lemma return_with_call_deletable:
  "case return_with_call env cfg il bih ilt ilx opc sv of
     Inl _ \<Rightarrow> True
   | Inr (calls, _) \<Rightarrow>
       \<forall>c \<in> set calls. (case c of Make_stmt ty _ d _ _ \<Rightarrow> \<not> d \<and> ty \<noteq> STMT_ST | _ \<Rightarrow> True)"
  by (simp add: return_with_call_def Let_def split: ILI_OP.split)

lemma with_dbg_deletable:
  assumes "dbg = [] \<or> (\<exists>l. dbg = [Lldbg_emit_line l])"
  shows "case bind_err (return_with_call env cfg il bih ilt ilx opc sv)
                (\<lambda>(calls, sv2). Inr (dbg @ calls, sv2)) of
     Inl _ \<Rightarrow> True
   | Inr (calls, _) \<Rightarrow>
       \<forall>c \<in> set calls.
         (case c of
            Make_stmt ty _ d _ _ \<Rightarrow> (d \<longleftrightarrow> ty = STMT_ST \<and> e)
          | _ \<Rightarrow> True)"
proof (cases "return_with_call env cfg il bih ilt ilx opc sv")
  case (Inl err)
  then show ?thesis by simp
next
  case (Inr r)
  obtain calls sv2 where r: "r = (calls, sv2)" by (cases r)
  have c: "\<forall>c \<in> set calls.
             (case c of Make_stmt ty _ d _ _ \<Rightarrow> \<not> d \<and> ty \<noteq> STMT_ST | _ \<Rightarrow> True)"
    using return_with_call_deletable [where env = env and cfg = cfg and il = il and bih = bih
        and ilt = ilt and ilx = ilx and opc = opc and sv = sv] Inr r by simp
  have "\<forall>c \<in> set (dbg @ calls).
          (case c of
             Make_stmt ty _ d _ _ \<Rightarrow> (d \<longleftrightarrow> ty = STMT_ST \<and> e)
           | _ \<Rightarrow> True)"
  proof
    fix c assume "c \<in> set (dbg @ calls)"
    then consider "c \<in> set dbg" | "c \<in> set calls" by auto
    then show "case c of
             Make_stmt ty _ d _ _ \<Rightarrow> (d \<longleftrightarrow> ty = STMT_ST \<and> e)
           | _ \<Rightarrow> True"
    proof cases
      case 1
      with assms show ?thesis by auto
    next
      case 2
      with c have "case c of Make_stmt ty _ d _ _ \<Rightarrow> \<not> d \<and> ty \<noteq> STMT_ST | _ \<Rightarrow> True"
        by blast
      then show ?thesis by (cases c) auto
    qed
  qed
  then show ?thesis by (simp add: Inr r)
qed

lemma dbg_deletable:
  assumes "dbg = [] \<or> (\<exists>l. dbg = [Lldbg_emit_line l])"
  shows "\<forall>c \<in> set dbg.
           (case c of Make_stmt ty _ d _ _ \<Rightarrow> (d \<longleftrightarrow> ty = STMT_ST \<and> e) | _ \<Rightarrow> True)"
  using assms by auto

lemma schedule_ex_deletable:
  assumes "dbg = [] \<or> (\<exists>l. dbg = [Lldbg_emit_line l])"
  shows "case schedule_ex env cfg il bih ilt dbg ilx opc sv of
     Inl _ \<Rightarrow> True
   | Inr (calls, _) \<Rightarrow>
       \<forall>c \<in> set calls.
         (case c of
            Make_stmt ty _ d _ _ \<Rightarrow> (d \<longleftrightarrow> ty = STMT_ST \<and> e)
          | _ \<Rightarrow> True)"
proof -
  note a = with_dbg_deletable [OF assms, where env = env and cfg = cfg and il = il
      and bih = bih and ilt = ilt and ilx = ilx and opc = opc and sv = sv and e = e]
  note dd = dbg_deletable [OF assms, where e = e]
  show ?thesis
    by (simp add: schedule_ex_def ball_Un a dd)
qed

lemma schedule_stmt_deletable:
  assumes "dbg = [] \<or> (\<exists>l. dbg = [Lldbg_emit_line l])"
  shows "case schedule_stmt env cfg il st bih ilt dbg ilx opc sv of
     Inl _ \<Rightarrow> True
   | Inr (calls, _) \<Rightarrow>
       \<forall>c \<in> set calls.
         (case c of
            Make_stmt ty _ d _ _ \<Rightarrow>
              (d \<longleftrightarrow> ty = STMT_ST \<and> ENABLE_CSE_OPT cfg st \<and> ILT_DELETE env ilt)
          | _ \<Rightarrow> True)"
proof -
  note a = with_dbg_deletable [OF assms, where env = env and cfg = cfg and il = il
      and bih = bih and ilt = ilt and ilx = ilx and opc = opc and sv = sv
      and e = "ENABLE_CSE_OPT cfg st \<and> ILT_DELETE env ilt"]
  note b = schedule_ex_deletable [OF assms, where env = env and cfg = cfg and il = il
      and bih = bih and ilt = ilt and sv = sv
      and e = "ENABLE_CSE_OPT cfg st \<and> ILT_DELETE env ilt"]
  note dd = dbg_deletable [OF assms, where e = "ENABLE_CSE_OPT cfg st \<and> ILT_DELETE env ilt"]
  show ?thesis
    by (simp add: schedule_stmt_def ball_Un a b dd)
qed

lemma schedule_ilt_deletable:
  assumes "schedule_ilt env cfg il st bih ilt sv = Inr (calls, sv')"
    and "Make_stmt ty ilx d nl i \<in> set calls"
  shows "d \<longleftrightarrow> ty = STMT_ST \<and> ENABLE_CSE_OPT cfg st \<and> ILT_DELETE env ilt"
proof (cases "BIH_EN env bih \<and> ilt = BIH_ILTFIRST env bih")
  case True
  with assms show ?thesis by (auto simp: schedule_ilt_def split: if_splits)
next
  case False
  define dbg where "dbg = (if flg_debug env \<or> XBIT cfg 120 0x1000
                    then [Lldbg_emit_line (ILT_LINENO env ilt)] else [])"
  have d: "dbg = [] \<or> (\<exists>l. dbg = [Lldbg_emit_line l])" by (simp add: dbg_def)
  from assms(1) False have
    "(\<exists>sv1. schedule_stmt env cfg il st bih ilt dbg (ILT_ILIP env ilt)
              (ILI_OPC il (ILT_ILIP env ilt)) sv1 = Inr (calls, sv')) \<or> calls = dbg"
    unfolding schedule_ilt_def Let_def dbg_def [symmetric]
    by (auto split: if_splits)
  then show ?thesis
  proof
    assume "calls = dbg"
    with d assms(2) show ?thesis by auto
  next
    assume "\<exists>sv1. schedule_stmt env cfg il st bih ilt dbg (ILT_ILIP env ilt)
              (ILI_OPC il (ILT_ILIP env ilt)) sv1 = Inr (calls, sv')"
    then obtain sv1 where s: "schedule_stmt env cfg il st bih ilt dbg (ILT_ILIP env ilt)
              (ILI_OPC il (ILT_ILIP env ilt)) sv1 = Inr (calls, sv')" ..
    from schedule_stmt_deletable [OF d, where env = env and cfg = cfg and il = il and st = st
        and bih = bih and ilt = ilt and ilx = "ILT_ILIP env ilt"
        and opc = "ILI_OPC il (ILT_ILIP env ilt)" and sv = sv1] s assms(2)
    show ?thesis by (auto split: sched_call.splits)
  qed
qed


lemma subseq_rev: "subseq xs ys \<Longrightarrow> subseq (rev xs) (rev ys)"
proof (induction rule: list_emb.induct)
  case (list_emb_Nil ys)
  then show ?case by simp
next
  case (list_emb_Cons xs ys y)
  then have "subseq (rev xs @ []) (rev ys @ [y])"
    by (intro list_emb_append_mono) simp_all
  then show ?case by simp
next
  case (list_emb_Cons2 x y xs ys)
  then have "subseq (rev xs @ [x]) (rev ys @ [y])"
    by (intro list_emb_append_mono) simp_all
  then show ?case by simp
qed

text \<open>The store that \<open>make_stmt\<close> appends for a store statement, and its flags.\<close>

lemma make_stmt_st_flags:
  assumes so: "store_operands se lower ilx (st\<lparr> curr_ret_dtype := 0 \<rparr>)
                 = Inr (Some (op1, store_op, f0), st1)"
    and ms: "make_stmt_st fc il se lower ilx deletable st = Inr st'"
  shows "\<exists>instr fence.
           Instructions st' = Instructions st1 @ [instr] \<and> i_name instr = I_STORE \<and>
           operands instr = [op1, store_op] \<and>
           (if IL_HAS_FENCE se (ILI_OPC il ilx)
            then ll_instr_flags_for_memory_order_and_scope fc il ilx = Inr fence
            else fence = 0) \<and>
           flags instr =
             (((f0 OR (if ILI_OPND il ilx 3 = NME_VOL il then VOLATILE_FLAG fc else 0))
               OR fence)
              OR (if deletable then DELETABLE fc else 0))
             OR (if new_ebb st1 then STARTEBB fc else 0)"
proof (cases "IL_HAS_FENCE se (ILI_OPC il ilx)")
  case True
  with so ms obtain fence where
    f: "ll_instr_flags_for_memory_order_and_scope fc il ilx = Inr fence"
    by (cases "ll_instr_flags_for_memory_order_and_scope fc il ilx")
       (auto simp: make_stmt_st_def Let_def)
  show ?thesis
    using so ms True f
    by (auto simp: make_stmt_st_def Let_def make_instr_def ad_instr_def bind_err_Inr_iff
          split: sum.splits)
next
  case False
  show ?thesis
    using so ms False
    by (auto simp: make_stmt_st_def Let_def make_instr_def ad_instr_def bind_err_Inr_iff
          split: sum.splits)
qed

text \<open>
  Claim C6.  \<open>remove_dead_instrs\<close> computes what the pass is specified to compute:
  going backward from the last instruction it deletes the stores flagged deletable and
  the instructions that define a temporary whose use count is not positive, calls,
  invokes and atomic read-modify-writes excepted, each deleted instruction giving up the
  uses of its operands.  The list that is left is a sublist of the original in its
  order; it holds no store flagged deletable; it holds every call, invoke and atomic
  read-modify-write of the original; every other instruction left did not define a
  temporary without uses; and every instruction deleted was a store flagged deletable
  or defined a temporary and was no call, invoke or atomic read-modify-write.
  \<open>schedule\<close> passes the deletable flag to \<open>make_stmt\<close> for store statements only, and
  exactly when CSE optimization is enabled and the IL marks the statement with
  \<open>ILT_DELETE\<close>; \<open>make_stmt\<close> sets \<open>DELETABLE\<close> on the store it appends exactly when it
  is passed the flag.
\<close>

theorem dead_code_elimination:
  "remove_dead_instrs fc st =
     bind_err (dead_code_spec fc (rev (Instructions st)) (use_count st))
       (\<lambda>(kept, uc). Inr (st\<lparr> Instructions := rev kept, use_count := uc \<rparr>))
   \<and> (dead_code_spec fc (rev (Instructions st)) (use_count st) = Inr (kept, uc') \<longrightarrow>
        subseq (rev kept) (Instructions st) \<and>
        (\<forall>instr \<in> set kept. \<not> deletable_store fc instr) \<and>
        filter observable (rev kept) = filter observable (Instructions st) \<and>
        (\<forall>instr \<in> set kept. \<not> observable instr \<longrightarrow> \<not> unused_def (use_count st) instr) \<and>
        (\<forall>instr \<in> set (Instructions st) - set kept.
           deletable_store fc instr \<or> (i_tmps instr \<noteq> None \<and> \<not> observable instr)))
   \<and> (schedule_ilt env cfg il st0 bih ilt sv = Inr (calls, sv') \<longrightarrow>
        Make_stmt ty ilx d nl i \<in> set calls \<longrightarrow>
        (d \<longleftrightarrow> ty = STMT_ST \<and> ENABLE_CSE_OPT cfg st0 \<and> ILT_DELETE env ilt))
   \<and> (store_operands se lower ilx (st0\<lparr> curr_ret_dtype := 0 \<rparr>)
          = Inr (Some (op1, store_op, f0), st1) \<longrightarrow>
        make_stmt_st fc il se lower ilx d st0 = Inr st2 \<longrightarrow>
        (\<exists>instr fence.
           Instructions st2 = Instructions st1 @ [instr] \<and> i_name instr = I_STORE \<and>
           operands instr = [op1, store_op] \<and>
           (if IL_HAS_FENCE se (ILI_OPC il ilx)
            then ll_instr_flags_for_memory_order_and_scope fc il ilx = Inr fence
            else fence = 0) \<and>
           flags instr =
             (((f0 OR (if ILI_OPND il ilx 3 = NME_VOL il then VOLATILE_FLAG fc else 0))
               OR fence)
              OR (if d then DELETABLE fc else 0))
             OR (if new_ebb st1 then STARTEBB fc else 0)))"
proof (intro conjI impI)
  show "remove_dead_instrs fc st =
     bind_err (dead_code_spec fc (rev (Instructions st)) (use_count st))
       (\<lambda>(kept, uc). Inr (st\<lparr> Instructions := rev kept, use_count := uc \<rparr>))"
    using remove_dead_loop_spec [of "length (Instructions st)" st fc]
    by (simp add: remove_dead_instrs_def)
next
  assume r: "dead_code_spec fc (rev (Instructions st)) (use_count st) = Inr (kept, uc')"
  note p = dead_code_spec_props [OF r]
  from p have "subseq kept (rev (Instructions st))" by blast
  from subseq_rev [OF this] show "subseq (rev kept) (Instructions st)" by simp
  from p show "\<forall>instr \<in> set kept. \<not> deletable_store fc instr" by blast
  from p have "filter observable kept = filter observable (rev (Instructions st))" by blast
  then have "rev (filter observable kept) = rev (filter observable (rev (Instructions st)))"
    by simp
  then show "filter observable (rev kept) = filter observable (Instructions st)"
    by (simp add: rev_filter)
  from p show "\<forall>instr \<in> set kept. \<not> observable instr \<longrightarrow> \<not> unused_def (use_count st) instr"
    by blast
  from dead_code_spec_removed [OF r]
  show "\<forall>instr \<in> set (Instructions st) - set kept.
           deletable_store fc instr \<or> (i_tmps instr \<noteq> None \<and> \<not> observable instr)"
    by simp
next
  assume "schedule_ilt env cfg il st0 bih ilt sv = Inr (calls, sv')"
    and "Make_stmt ty ilx d nl i \<in> set calls"
  then show "d \<longleftrightarrow> ty = STMT_ST \<and> ENABLE_CSE_OPT cfg st0 \<and> ILT_DELETE env ilt"
    by (rule schedule_ilt_deletable)
next
  assume "store_operands se lower ilx (st0\<lparr> curr_ret_dtype := 0 \<rparr>)
          = Inr (Some (op1, store_op, f0), st1)"
    and "make_stmt_st fc il se lower ilx d st0 = Inr st2"
  then show "\<exists>instr fence.
           Instructions st2 = Instructions st1 @ [instr] \<and> i_name instr = I_STORE \<and>
           operands instr = [op1, store_op] \<and>
           (if IL_HAS_FENCE se (ILI_OPC il ilx)
            then ll_instr_flags_for_memory_order_and_scope fc il ilx = Inr fence
            else fence = 0) \<and>
           flags instr =
             (((f0 OR (if ILI_OPND il ilx 3 = NME_VOL il then VOLATILE_FLAG fc else 0))
               OR fence)
              OR (if d then DELETABLE fc else 0))
             OR (if new_ebb st1 then STARTEBB fc else 0)"
    by (rule make_stmt_st_flags)
qed


text \<open>
  The theorem on the example list: the add, then the load it used, and the store flagged
  deletable go; the call and the other store stay.  And on the example block: the store
  statement that the IL marks is scheduled with the flag, and the store appended for it
  carries \<open>DELETABLE\<close>.
\<close>

theorem dead_code_elimination_witness:
  "(\<exists>uc. dead_code_spec example_flags (rev (Instructions dce_state)) (use_count dce_state)
           = Inr ([dce_instrs ! 4, dce_instrs ! 3], uc) \<and>
         remove_dead_instrs example_flags dce_state
           = Inr (dce_state\<lparr> Instructions := [dce_instrs ! 3, dce_instrs ! 4],
                             use_count := uc \<rparr>)) \<and>
   subseq [dce_instrs ! 3, dce_instrs ! 4] (Instructions dce_state) \<and>
   filter observable [dce_instrs ! 3, dce_instrs ! 4]
     = filter observable (Instructions dce_state) \<and>
   schedule_ilt one_block example_config one_block_il start_state 1 1 start_vars
     = Inr ([Make_stmt STMT_ST 21 True 0 1], start_vars) \<and>
   ENABLE_CSE_OPT example_config start_state \<and> ILT_DELETE one_block 1 \<and>
   (\<exists>st2 instr.
      make_stmt_st example_flags one_block_il example_stmt_env leaf_lowering 21 True start_state
        = Inr st2 \<and>
      Instructions st2 = [instr] \<and> i_name instr = I_STORE \<and>
      flags instr = DELETABLE example_flags)"
proof -
  have spec: "\<exists>uc. dead_code_spec example_flags (rev (Instructions dce_state))
                     (use_count dce_state) = Inr ([dce_instrs ! 4, dce_instrs ! 3], uc)"
    by (simp add: dce_state_def dce_instrs_def start_state_def deletable_store_def
          unused_def_def observable_def example_flags_def var_op_def make_tmp_op_def
          make_operand_def)
  then obtain uc where
    s: "dead_code_spec example_flags (rev (Instructions dce_state)) (use_count dce_state)
          = Inr ([dce_instrs ! 4, dce_instrs ! 3], uc)" ..
  have sch: "schedule_ilt one_block example_config one_block_il start_state 1 1 start_vars
               = Inr ([Make_stmt STMT_ST 21 True 0 1], start_vars)"
    by (simp add: schedule_ilt_def schedule_stmt_def one_block_def one_block_il_def
          atomic_il_def example_config_def start_state_def start_vars_def ENABLE_CSE_OPT_def
          Let_def)
  have so: "store_operands example_stmt_env leaf_lowering 21 (start_state\<lparr> curr_ret_dtype := 0 \<rparr>)
              = Inr (Some (var_op 1, var_op 2, 0), start_state\<lparr> curr_ret_dtype := 0 \<rparr>)"
    by (simp add: example_stmt_env_def)
  have "\<exists>st2. make_stmt_st example_flags one_block_il example_stmt_env leaf_lowering 21 True
                 start_state = Inr st2"
    by (simp add: make_stmt_st_def example_stmt_env_def Let_def make_instr_def ad_instr_def
          var_op_def make_operand_def start_state_def)
  then obtain st2 where
    ms: "make_stmt_st example_flags one_block_il example_stmt_env leaf_lowering 21 True
           start_state = Inr st2" ..
  have mem: "Make_stmt STMT_ST 21 True 0 1 \<in> set [Make_stmt STMT_ST 21 True 0 1]" by simp
  note t = dead_code_elimination [where fc = example_flags and st = dce_state
      and kept = "[dce_instrs ! 4, dce_instrs ! 3]" and uc' = uc
      and env = one_block and cfg = example_config and il = one_block_il
      and ?st0.0 = start_state and bih = 1 and ilt = 1 and sv = start_vars
      and calls = "[Make_stmt STMT_ST 21 True 0 1]" and sv' = start_vars
      and ty = STMT_ST and ilx = 21 and d = True and nl = 0 and i = 1
      and se = example_stmt_env and lower = leaf_lowering and ?op1.0 = "var_op 1"
      and store_op = "var_op 2" and ?f0.0 = 0
      and ?st1.0 = "start_state\<lparr> curr_ret_dtype := 0 \<rparr>" and ?st2.0 = st2]
  from t s have r: "remove_dead_instrs example_flags dce_state
           = Inr (dce_state\<lparr> Instructions := [dce_instrs ! 3, dce_instrs ! 4],
                             use_count := uc \<rparr>)"
    by simp
  from t s have sub: "subseq [dce_instrs ! 3, dce_instrs ! 4] (Instructions dce_state)"
    and obs: "filter observable [dce_instrs ! 3, dce_instrs ! 4]
                = filter observable (Instructions dce_state)"
    by simp_all
  from t sch mem have en: "ENABLE_CSE_OPT example_config start_state"
    and del: "ILT_DELETE one_block 1"
    by simp_all
  from t so ms obtain instr where
    i: "Instructions st2 = Instructions (start_state\<lparr> curr_ret_dtype := 0 \<rparr>) @ [instr]"
       "i_name instr = I_STORE"
       "flags instr = (((0 OR (if ILI_OPND one_block_il 21 3 = NME_VOL one_block_il
                                then VOLATILE_FLAG example_flags else 0)) OR 0)
                       OR DELETABLE example_flags)
                      OR (if new_ebb (start_state\<lparr> curr_ret_dtype := 0 \<rparr>)
                          then STARTEBB example_flags else 0)"
    by (auto simp: example_stmt_env_def)
  have "Instructions st2 = [instr]" "flags instr = DELETABLE example_flags"
    using i by (simp_all add: start_state_def one_block_il_def atomic_il_def)
  with s r sub obs sch en del ms i(2) show ?thesis by blast
qed


subsection \<open>Vector minimum and maximum\<close>

text \<open>When the three tables of vector intrinsics have no entry.\<close>

lemma gen_call_vminmax_intrinsic_None:
  assumes "ILI_OPC il ilx = MINMAX IL_VMIN \<or> ILI_OPC il ilx = MINMAX IL_VMAX"
  shows "gen_call_vminmax_intrinsic fc il ilx op1 op2 st = Inr (None, st') \<longleftrightarrow>
           st' = st \<and>
           \<not> ((TY il (DTY il (DTY il (ILI_OPND il ilx 3 + 1)))
                  \<in> {TY_FLOAT, TY_DBLE, TY_INT, TY_UINT} \<and>
                DTY il (ILI_OPND il ilx 3 + 2) \<in> {2, 4, 8}) \<or>
               (TY il (DTY il (DTY il (ILI_OPND il ilx 3 + 1))) \<in> {TY_SINT, TY_USINT} \<and>
                DTY il (ILI_OPND il ilx 3 + 2) \<in> {4, 8}))"
  using assms
  by (auto simp: gen_call_vminmax_intrinsic_def Let_def bind_err_Inr_iff
        simp del: decimal.simps)

lemma gen_call_vminmax_power_intrinsic_None:
  "gen_call_vminmax_power_intrinsic fc il ilx op1 op2 st = Inr (None, st') \<longleftrightarrow>
     st' = st \<and>
     \<not> (DTY il (ILI_OPND il ilx 3 + 2) \<in> {2, 4} \<and>
        TY il (DTY il (DTY il (ILI_OPND il ilx 3 + 1))) \<in> {TY_FLOAT, TY_DBLE})"
  by (auto simp: gen_call_vminmax_power_intrinsic_def Let_def bind_err_Inr_iff)

lemma gen_call_vminmax_neon_intrinsic_None:
  "gen_call_vminmax_neon_intrinsic fc cfg il ilx op1 op2 st = Inr (None, st') \<longleftrightarrow>
     st' = st \<and>
     \<not> (NEON_ENABLED cfg \<and>
        ((TY il (DTY il (DTY il (ILI_OPND il ilx 3 + 1))) \<in> {TY_FLOAT, TY_INT, TY_UINT} \<and>
          DTY il (ILI_OPND il ilx 3 + 2) \<in> {2, 4}) \<or>
         (TY il (DTY il (DTY il (ILI_OPND il ilx 3 + 1))) \<in> {TY_SINT, TY_USINT} \<and>
          DTY il (ILI_OPND il ilx 3 + 2) \<in> {4, 8})))"
  by (auto simp: gen_call_vminmax_neon_intrinsic_def Let_def bind_err_Inr_iff
        simp del: decimal.simps)

text \<open>The compare and the select of \<open>gen_minmax_expr\<close> for a vector node.\<close>

lemma gen_minmax_expr_vector:
  assumes opc: "ILI_OPC il ilx = MINMAX IL_VMIN \<or> ILI_OPC il ilx = MINMAX IL_VMAX"
    and ok1: "ot_type op1 = OT_TMP \<longrightarrow> tmps op1 \<noteq> None"
    and ok2: "ot_type op2 = OT_TMP \<longrightarrow> tmps op2 \<noteq> None"
    and n: "n = tmps_alloc st"
    and vd: "vd = ili_get_vect_type il ilx"
    and llt: "llt = (if vd \<noteq> 0 then make_lltype_from_dtype (DT_dtype vd)
                     else make_type_from_opc il (ILI_OPC il ilx))"
    and rty: "rty = (if vd \<noteq> 0 then sub_types llt 0 else llt)"
    and cc: "cc = (if ILI_OPC il ilx = MINMAX IL_VMIN then CC_LT else CC_GT)"
    and flt: "flt \<longleftrightarrow> TY il (DTY il (DTY il (vd + 1))) \<in> {TY_FLOAT, TY_DBLE}"
    and kind: "kind = (if flt then \<lparr> CMP_INT = False, CMP_FLT = True, CMP_USG = False \<rparr>
                       else \<lparr> CMP_INT = True, CMP_FLT = False,
                              CMP_USG = DT_ISUNSIGNED il (DTY il (vd + 1)) \<rparr>)"
  shows "\<exists>st' cmp sel.
           gen_minmax_expr fc il convert ilx op1 op2 st
             = Inr (make_tmp_op (Some rty) (Some n), st') \<and>
           Instructions st' = Instructions st @ [cmp, sel] \<and>
           instr_shape cmp =
             (if flt then I_FCMP else I_ICMP, Some (n + 1),
              [make_operand\<lparr> ot_type := OT_CC, val_cc := convert cc kind, ll_type := Some llt \<rparr>,
               op1, op2]) \<and>
           instr_shape sel =
             (I_SELECT, Some n,
              [make_tmp_op (Some (make_int_lltype 1)) (Some (n + 1)), op1, op2])"
proof -
  have cu: "\<exists>uc'. count_uses [x, op1, op2] uc = Inr uc'"
    if "ot_type x = OT_TMP \<longrightarrow> tmps x \<noteq> None" for x uc
    using that ok1 ok2 by (auto split: option.splits)
  define ccop where
    "ccop = make_operand\<lparr> ot_type := OT_CC, val_cc := convert cc kind, ll_type := Some llt \<rparr>"
  define cmp_op where "cmp_op = make_tmp_op (Some (make_int_lltype 1)) (Some (n + 1))"
  have x1: "ot_type ccop = OT_TMP \<longrightarrow> tmps ccop \<noteq> None"
    by (simp add: ccop_def make_operand_def)
  have x2: "ot_type cmp_op = OT_TMP \<longrightarrow> tmps cmp_op \<noteq> None"
    by (simp add: cmp_op_def make_tmp_op_def make_operand_def)
  have sel: "minmax_cc il convert (ILI_OPC il ilx) vd
               = Some (if flt then I_FCMP else I_ICMP, convert cc kind)"
    using opc by (auto simp: minmax_cc_def cc flt kind Let_def)
  obtain uc1 where uc1:
    "count_uses [ccop, op1, op2] ((use_count st)(n := 0, Suc n := 0)) = Inr uc1"
    using cu [OF x1] by blast
  obtain uc2 where uc2: "count_uses [cmp_op, op1, op2] uc1 = Inr uc2"
    using cu [OF x2] by blast
  show ?thesis
    unfolding gen_minmax_expr_def Let_def vd [symmetric] sel
    using uc1 uc2
    by (simp add: make_tmps_def gen_instr_def make_instr_def ad_instr_def n rty llt
        instr_shape_def gen_copy_op_def ccop_def cmp_op_def
        del: count_uses.simps)
qed


text \<open>
  Claim C8.  A vector minimum or maximum is lowered through the table of intrinsics of
  the target: the VSX table on POWER, the NEON table on ARM, and the table of
  \<open>llvm.minnum\<close> and \<open>llvm.maxnum\<close> otherwise.  When the table has an intrinsic, its call
  is the result.  When it has none, which happens exactly for the element kinds and
  vector lengths listed, nothing has been emitted for the lookup and the lowering is that
  of \<open>gen_minmax_expr\<close>: it succeeds and appends a compare of the two operands (\<open>fcmp\<close>
  for \<open>float\<close> and \<open>double\<close> elements, \<open>icmp\<close> otherwise, less-than for a minimum and
  greater-than for a maximum) and a \<open>select\<close> between the two operands on the result of
  the compare.
\<close>

theorem vector_minmax_fallback:
  assumes opc: "ILI_OPC il ilx = MINMAX IL_VMIN \<or> ILI_OPC il ilx = MINMAX IL_VMAX"
    and l1: "lower (ILI_OPND il ilx 2)
               (Some (make_lltype_from_dtype (DT_dtype (ILI_OPND il ilx 3)))) st
               = Inr (op1, st1)"
    and l2: "lower (ILI_OPND il ilx 1)
               (Some (make_lltype_from_dtype (DT_dtype (ILI_OPND il ilx 3)))) st1
               = Inr (op2, st2)"
    and ok1: "ot_type op1 = OT_TMP \<longrightarrow> tmps op1 \<noteq> None"
    and ok2: "ot_type op2 = OT_TMP \<longrightarrow> tmps op2 \<noteq> None"
    and table: "table = (case TARGET cfg of
                   TARGET_LLVM_POWER \<Rightarrow> gen_call_vminmax_power_intrinsic fc il ilx op1 op2 st2
                 | TARGET_LLVM_ARM \<Rightarrow> gen_call_vminmax_neon_intrinsic fc cfg il ilx op1 op2 st2
                 | _ \<Rightarrow> gen_call_vminmax_intrinsic fc il ilx op1 op2 st2)"
    and ety: "ety = TY il (DTY il (DTY il (ILI_OPND il ilx 3 + 1)))"
    and len: "len = DTY il (ILI_OPND il ilx 3 + 2)"
    and n: "n = tmps_alloc st2"
    and vd: "vd = ili_get_vect_type il ilx"
    and llt: "llt = (if vd \<noteq> 0 then make_lltype_from_dtype (DT_dtype vd)
                     else make_type_from_opc il (ILI_OPC il ilx))"
    and rty: "rty = (if vd \<noteq> 0 then sub_types llt 0 else llt)"
    and cc: "cc = (if ILI_OPC il ilx = MINMAX IL_VMIN then CC_LT else CC_GT)"
    and flt: "flt \<longleftrightarrow> TY il (DTY il (DTY il (vd + 1))) \<in> {TY_FLOAT, TY_DBLE}"
    and kind: "kind = (if flt then \<lparr> CMP_INT = False, CMP_FLT = True, CMP_USG = False \<rparr>
                       else \<lparr> CMP_INT = True, CMP_FLT = False,
                              CMP_USG = DT_ISUNSIGNED il (DTY il (vd + 1)) \<rparr>)"
  shows "(table = Inr (Some operand, st3) \<longrightarrow>
            gen_vminmax fc cfg il convert lower ilx st = Inr (operand, st3))
       \<and> ((\<exists>s. table = Inr (None, s)) \<longleftrightarrow>
            (case TARGET cfg of
               TARGET_LLVM_POWER \<Rightarrow> \<not> (len \<in> {2, 4} \<and> ety \<in> {TY_FLOAT, TY_DBLE})
             | TARGET_LLVM_ARM \<Rightarrow>
                 \<not> (NEON_ENABLED cfg \<and>
                    ((ety \<in> {TY_FLOAT, TY_INT, TY_UINT} \<and> len \<in> {2, 4}) \<or>
                     (ety \<in> {TY_SINT, TY_USINT} \<and> len \<in> {4, 8})))
             | _ \<Rightarrow>
                 \<not> ((ety \<in> {TY_FLOAT, TY_DBLE, TY_INT, TY_UINT} \<and> len \<in> {2, 4, 8}) \<or>
                    (ety \<in> {TY_SINT, TY_USINT} \<and> len \<in> {4, 8}))))
       \<and> ((\<exists>s. table = Inr (None, s)) \<longrightarrow>
            table = Inr (None, st2) \<and>
            gen_vminmax fc cfg il convert lower ilx st
              = gen_minmax_expr fc il convert ilx op1 op2 st2 \<and>
            (\<exists>st' cmp sel.
               gen_vminmax fc cfg il convert lower ilx st
                 = Inr (make_tmp_op (Some rty) (Some n), st') \<and>
               Instructions st' = Instructions st2 @ [cmp, sel] \<and>
               instr_shape cmp =
                 (if flt then I_FCMP else I_ICMP, Some (n + 1),
                  [make_operand\<lparr> ot_type := OT_CC, val_cc := convert cc kind,
                                  ll_type := Some llt \<rparr>,
                   op1, op2]) \<and>
               instr_shape sel =
                 (I_SELECT, Some n,
                  [make_tmp_op (Some (make_int_lltype 1)) (Some (n + 1)), op1, op2])))"
proof -
  have gv: "gen_vminmax fc cfg il convert lower ilx st =
              bind_err table
                (\<lambda>(res, st3). case res of Some operand \<Rightarrow> Inr (operand, st3)
                   | None \<Rightarrow> gen_minmax_expr fc il convert ilx op1 op2 st3)"
    by (simp add: gen_vminmax_def Let_def l1 l2 table del: One_nat_def)
  have none: "table = Inr (None, s) \<longleftrightarrow>
            s = st2 \<and>
            (case TARGET cfg of
               TARGET_LLVM_POWER \<Rightarrow> \<not> (len \<in> {2, 4} \<and> ety \<in> {TY_FLOAT, TY_DBLE})
             | TARGET_LLVM_ARM \<Rightarrow>
                 \<not> (NEON_ENABLED cfg \<and>
                    ((ety \<in> {TY_FLOAT, TY_INT, TY_UINT} \<and> len \<in> {2, 4}) \<or>
                     (ety \<in> {TY_SINT, TY_USINT} \<and> len \<in> {4, 8})))
             | _ \<Rightarrow>
                 \<not> ((ety \<in> {TY_FLOAT, TY_DBLE, TY_INT, TY_UINT} \<and> len \<in> {2, 4, 8}) \<or>
                    (ety \<in> {TY_SINT, TY_USINT} \<and> len \<in> {4, 8})))" for s
    unfolding table ety len
    by (cases "TARGET cfg")
       (simp_all add: gen_call_vminmax_intrinsic_None [OF opc]
          gen_call_vminmax_power_intrinsic_None gen_call_vminmax_neon_intrinsic_None)
  have a: "table = Inr (Some operand, st3) \<longrightarrow>
            gen_vminmax fc cfg il convert lower ilx st = Inr (operand, st3)"
    by (simp add: gv)
  have b: "(\<exists>s. table = Inr (None, s)) \<longleftrightarrow>
            (case TARGET cfg of
               TARGET_LLVM_POWER \<Rightarrow> \<not> (len \<in> {2, 4} \<and> ety \<in> {TY_FLOAT, TY_DBLE})
             | TARGET_LLVM_ARM \<Rightarrow>
                 \<not> (NEON_ENABLED cfg \<and>
                    ((ety \<in> {TY_FLOAT, TY_INT, TY_UINT} \<and> len \<in> {2, 4}) \<or>
                     (ety \<in> {TY_SINT, TY_USINT} \<and> len \<in> {4, 8})))
             | _ \<Rightarrow>
                 \<not> ((ety \<in> {TY_FLOAT, TY_DBLE, TY_INT, TY_UINT} \<and> len \<in> {2, 4, 8}) \<or>
                    (ety \<in> {TY_SINT, TY_USINT} \<and> len \<in> {4, 8})))"
    unfolding none by blast
  have c: "table = Inr (None, st2) \<and>
            gen_vminmax fc cfg il convert lower ilx st
              = gen_minmax_expr fc il convert ilx op1 op2 st2 \<and>
            (\<exists>st' cmp sel.
               gen_vminmax fc cfg il convert lower ilx st
                 = Inr (make_tmp_op (Some rty) (Some n), st') \<and>
               Instructions st' = Instructions st2 @ [cmp, sel] \<and>
               instr_shape cmp =
                 (if flt then I_FCMP else I_ICMP, Some (n + 1),
                  [make_operand\<lparr> ot_type := OT_CC, val_cc := convert cc kind,
                                  ll_type := Some llt \<rparr>,
                   op1, op2]) \<and>
               instr_shape sel =
                 (I_SELECT, Some n,
                  [make_tmp_op (Some (make_int_lltype 1)) (Some (n + 1)), op1, op2]))"
    if "\<exists>s. table = Inr (None, s)"
  proof -
    from that none have t: "table = Inr (None, st2)" by blast
    have e: "gen_vminmax fc cfg il convert lower ilx st
               = gen_minmax_expr fc il convert ilx op1 op2 st2"
      by (simp add: gv t)
    from gen_minmax_expr_vector [OF opc ok1 ok2 n vd llt rty cc flt kind,
        where fc = fc and convert = convert]
    show ?thesis unfolding e using t by blast
  qed
  from a b c show ?thesis by blast
qed

text \<open>
  The theorem on the example node with the table of \<open>llvm.minnum\<close>: three elements are
  not in the table, and the minimum is an \<open>fcmp\<close> and a \<open>select\<close>.
\<close>

theorem vector_minmax_fallback_witness:
  "ILI_OPC vmin_il 30 = MINMAX IL_VMIN \<and>
   gen_call_vminmax_intrinsic example_flags vmin_il 30 (var_op 302) (var_op 301) start_state
     = Inr (None, start_state) \<and>
   (\<exists>st' cmp sel.
      gen_vminmax example_flags example_config vmin_il (\<lambda>_ _. 7)
        (\<lambda>ilx ty st. Inr (var_op ilx, st)) 30 start_state
        = Inr (make_tmp_op (Some (sub_types (make_lltype_from_dtype (DT_dtype 100)) 0)) (Some 0),
               st') \<and>
      Instructions st' = [cmp, sel] \<and>
      instr_shape cmp =
        (I_FCMP, Some 1,
         [make_operand\<lparr> ot_type := OT_CC, val_cc := 7,
                         ll_type := Some (make_lltype_from_dtype (DT_dtype 100)) \<rparr>,
          var_op 302, var_op 301]) \<and>
      instr_shape sel =
        (I_SELECT, Some 0,
         [make_tmp_op (Some (make_int_lltype 1)) (Some 1), var_op 302, var_op 301]))"
proof -
  have facts: "ILI_OPC vmin_il 30 = MINMAX IL_VMIN" "ILI_OPND vmin_il 30 3 = 100"
    "ILI_OPND vmin_il 30 2 = 302" "ILI_OPND vmin_il 30 1 = 301"
    "TARGET example_config = TARGET_LLVM_other" "ili_get_vect_type vmin_il 30 = 100"
    "DTY vmin_il 101 = 200" "DTY vmin_il 102 = 3" "DTY vmin_il 200 = 5"
    "TY vmin_il 5 = TY_FLOAT" "ot_type (var_op x) \<noteq> OT_TMP"
    "tmps_alloc start_state = 0" "Instructions start_state = []"
    for x
    by (simp_all add: vmin_il_def atomic_il_def example_config_def var_op_def
          make_operand_def start_state_def)
  have tab: "gen_call_vminmax_intrinsic example_flags vmin_il 30 (var_op 302) (var_op 301)
               start_state = Inr (None, start_state)"
    by (simp add: gen_call_vminmax_intrinsic_def Let_def facts del: decimal.simps One_nat_def)
  note t = vector_minmax_fallback [where il = vmin_il and ilx = 30
      and lower = "\<lambda>ilx ty st. Inr (var_op ilx, st)" and st = start_state
      and ?op1.0 = "var_op 302" and ?st1.0 = start_state and ?op2.0 = "var_op 301"
      and ?st2.0 = start_state and cfg = example_config and fc = example_flags
      and convert = "\<lambda>_ _. 7", OF _ _ _ _ _ refl refl refl refl refl refl refl refl refl refl]
  from t tab have "\<exists>st' cmp sel.
      gen_vminmax example_flags example_config vmin_il (\<lambda>_ _. 7)
        (\<lambda>ilx ty st. Inr (var_op ilx, st)) 30 start_state
        = Inr (make_tmp_op (Some (sub_types (make_lltype_from_dtype (DT_dtype 100)) 0)) (Some 0),
               st') \<and>
      Instructions st' = [cmp, sel] \<and>
      instr_shape cmp =
        (I_FCMP, Some 1,
         [make_operand\<lparr> ot_type := OT_CC, val_cc := 7,
                         ll_type := Some (make_lltype_from_dtype (DT_dtype 100)) \<rparr>,
          var_op 302, var_op 301]) \<and>
      instr_shape sel =
        (I_SELECT, Some 0,
         [make_tmp_op (Some (make_int_lltype 1)) (Some 1), var_op 302, var_op 301])"
    by (simp (no_asm_use) add: facts del: One_nat_def) blast
  with facts(1) tab show ?thesis by blast
qed


subsection \<open>Calls that return an aggregate in registers\<close>

lemma ad_instr_Inr:
  "ad_instr fc ilx instr st = Inr st' \<Longrightarrow>
     Instructions st' =
       Instructions st @
         [instr\<lparr> ilix := ilx,
                flags := (if new_ebb st then flags instr OR STARTEBB fc else flags instr) \<rparr>] \<and>
     tmps_alloc st' = tmps_alloc st"
  by (auto simp: ad_instr_def split: sum.splits)

lemma call_result_fields:
  "i_name (fst (call_result il abi ret_dtype args ci st)) = i_name ci"
  "operands (fst (call_result il abi ret_dtype args ci st)) = operands ci"
  "\<not> return_is_void abi \<Longrightarrow>
     i_ll_type (fst (call_result il abi ret_dtype args ci st)) = Some (abi_arg0_type abi) \<and>
     i_tmps (fst (call_result il abi ret_dtype args ci st)) = Some (tmps_alloc st) \<and>
     fst (snd (call_result il abi ret_dtype args ci st)) =
       (if ret_dtype \<noteq> 0
        then Some (make_tmp_op (Some (abi_arg0_type abi)) (Some (tmps_alloc st))) else None)"
  "return_is_void abi \<Longrightarrow>
     i_ll_type (fst (call_result il abi ret_dtype args ci st)) = Some make_void_lltype \<and>
     i_tmps (fst (call_result il abi ret_dtype args ci st)) = i_tmps ci"
  by (simp_all add: call_result_def make_tmps_def)

lemma call_unwind_fields:
  "i_name (fst (call_unwind fc throw_label callee args ci st)) = i_name ci"
  "i_tmps (fst (call_unwind fc throw_label callee args ci st)) = i_tmps ci"
  "\<exists>labels. operands (fst (call_unwind fc throw_label callee args ci st))
               = callee # args @ labels"
  by (simp_all add: call_unwind_def Let_def)

lemma call_callee_fields:
  "call_callee fc il ce lower ilx abi fty tys ci st = Inr (callee, ci', st') \<Longrightarrow>
     i_name ci' = i_name ci \<and> i_tmps ci' = i_tmps ci"
  by (auto simp: call_callee_def Let_def bind_err_Inr_iff
        split: ILI_OP.splits if_splits option.splits)

text \<open>The store of \<open>gen_call_expr\<close> for a \<open>GARGRET\<close> argument.\<close>

lemma call_gargret_store:
  assumes g: "ILI_OPC il first_arg_ili = MISC IL_GARGRET" and ns: "\<not> has_sret abi"
    and ty: "i_ll_type call_instr = Some cty" and t: "i_tmps call_instr = Some t"
    and r: "call_gargret fc il ce lower first_arg_ili abi ret_dtype call_instr result_op st
              = Inr (res, st')"
  shows "\<exists>addr st7 store.
           ILIA_ISAR_RES ce (ILI_OPC il (ILI_OPND il first_arg_ili 1)) \<and>
           lower (ILI_OPND il first_arg_ili 1) (Some (make_ptr_lltype cty)) st
             = Inr (addr, st7) \<and>
           Instructions st' = Instructions st7 @ [store] \<and>
           instr_shape store = (I_STORE, None, [make_tmp_op (Some cty) (Some t), addr]) \<and>
           flags store =
             (if new_ebb st7
              then ldst_instr_flags_from_dtype ce (ILI_OPND il first_arg_ili 3) OR STARTEBB fc
              else ldst_instr_flags_from_dtype ce (ILI_OPND il first_arg_ili 3)) \<and>
           res = (if is_struct_or_union il ret_dtype then Some (gen_copy_op addr)
                  else result_op)"
proof -
  from r g ns ty obtain addr st7 st8 where
      isar: "ILIA_ISAR_RES ce (ILI_OPC il (ILI_OPND il first_arg_ili 1))"
    and l: "lower (ILI_OPND il first_arg_ili 1) (Some (make_ptr_lltype cty)) st
              = Inr (addr, st7)"
    and s: "make_store fc (make_tmp_op (Some cty) (Some t)) addr
              (ldst_instr_flags_from_dtype ce (ILI_OPND il first_arg_ili 3)) st7 = Inr st8"
    and res: "res = (if is_struct_or_union il ret_dtype then Some (gen_copy_op addr)
                     else result_op)" "st' = st8"
    by (auto simp: call_gargret_def Let_def bind_err_Inr_iff t split: if_splits)
  from s obtain store where
    "Instructions st8 = Instructions st7 @ [store]"
    "instr_shape store = (I_STORE, None, [make_tmp_op (Some cty) (Some t), addr])"
    "flags store =
             (if new_ebb st7
              then ldst_instr_flags_from_dtype ce (ILI_OPND il first_arg_ili 3) OR STARTEBB fc
              else ldst_instr_flags_from_dtype ce (ILI_OPND il first_arg_ili 3))"
    by (auto simp: make_store_def gen_instr_def make_instr_def instr_shape_def
          dest!: ad_instr_Inr)
  with isar l res show ?thesis by blast
qed

lemma call_gargret_void:
  assumes g: "ILI_OPC il first_arg_ili = MISC IL_GARGRET" and ns: "\<not> has_sret abi"
    and t: "i_tmps call_instr = None"
  shows "\<exists>e. call_gargret fc il ce lower first_arg_ili abi ret_dtype call_instr result_op st
               = Inl e"
proof (cases "call_gargret fc il ce lower first_arg_ili abi ret_dtype call_instr result_op st")
  case (Inl e)
  then show ?thesis by blast
next
  case (Inr r)
  with g ns t have False
    by (auto simp: call_gargret_def Let_def bind_err_Inr_iff make_store_def gen_instr_def
          make_instr_def ad_instr_def make_tmp_op_def make_operand_def
          split: if_splits sum.splits)
  then show ?thesis ..
qed


text \<open>The stages that a successful \<open>gen_call_expr\<close> has gone through.\<close>

lemma gen_call_expr_stages:
  assumes gen: "gen_call_expr fc cfg il ce lower ilx0 ret_dtype call_sptr st = Inr (res, st')"
    and abi: "abi = ll_abi_from_call_site ce (alt_ili il ilx0) ret_dtype"
    and fa: "first_arg_ili = ILI_OPND il (alt_ili il ilx0) 2"
    and nm: "nm = (if ili_throw_label il ilx0 > 0 then I_INVOKE else I_CALL)"
  shows "\<exists>args st2 ci2 callee ci3 st3 u r st6.
           call_callee fc il ce lower (alt_ili il ilx0) abi
             (call_func_type cfg il ce abi call_sptr (map ll_type args) st2)
             (map ll_type args) ci2 st2 = Inr (callee, ci3, st3) \<and>
           ad_instr fc (alt_ili il ilx0) (fst r) (snd (snd r)) = Inr st6 \<and>
           call_gargret fc il ce lower first_arg_ili abi ret_dtype (fst r) (fst (snd r)) st6
             = Inr (res, st') \<and>
           u = call_unwind fc (ili_throw_label il ilx0) callee args ci3 st3 \<and>
           r = call_result il abi ret_dtype args (fst u) (snd u) \<and>
           i_name ci2 = nm \<and> i_tmps ci2 = None"
  using gen
  unfolding gen_call_expr_def Let_def abi [symmetric] fa [symmetric] nm [symmetric]
  apply (clarsimp simp: bind_err_Inr_iff)
  apply (intro exI conjI)
        apply assumption
       apply assumption
      apply assumption
     apply (rule prod.collapse)
    apply simp
   apply (simp_all add: make_instr_def)
  done

text \<open>
  Claim C5.  At a call whose first argument is \<open>GARGRET\<close> while the ABI has no \<open>sret\<close>
  argument and returns a value: when \<open>gen_call_expr\<close> succeeds, it has appended the call
  (or invoke), which defines a temporary of the type of the ABI's return descriptor;
  then the address operand of the \<open>GARGRET\<close> node has been lowered as a pointer to that
  type; and last a store has been appended that stores the temporary of the call to that
  address, with the flags of the data type that the \<open>GARGRET\<close> node names.  The result
  is a copy of the address when the return data type is a struct or a union, and else
  the temporary of the call (nothing if no return value is expected).  When the ABI
  returns nothing, there is no temporary to store and the lowering of such a call stops
  with an error.
\<close>

theorem gargret_store:
  assumes abi: "abi = ll_abi_from_call_site ce (alt_ili il ilx0) ret_dtype"
    and fa: "first_arg_ili = ILI_OPND il (alt_ili il ilx0) 2"
    and g: "ILI_OPC il first_arg_ili = MISC IL_GARGRET"
    and ns: "\<not> has_sret abi"
  shows "(\<not> return_is_void abi \<longrightarrow>
            gen_call_expr fc cfg il ce lower ilx0 ret_dtype call_sptr st = Inr (res, st') \<longrightarrow>
            (\<exists>pre call t st6 addr st7 store.
               Instructions st6 = pre @ [call] \<and>
               i_name call = (if ili_throw_label il ilx0 > 0 then I_INVOKE else I_CALL) \<and>
               i_tmps call = Some t \<and> i_ll_type call = Some (abi_arg0_type abi) \<and>
               ILIA_ISAR_RES ce (ILI_OPC il (ILI_OPND il first_arg_ili 1)) \<and>
               lower (ILI_OPND il first_arg_ili 1)
                 (Some (make_ptr_lltype (abi_arg0_type abi))) st6 = Inr (addr, st7) \<and>
               Instructions st' = Instructions st7 @ [store] \<and>
               instr_shape store =
                 (I_STORE, None, [make_tmp_op (Some (abi_arg0_type abi)) (Some t), addr]) \<and>
               flags store =
                 (if new_ebb st7
                  then ldst_instr_flags_from_dtype ce (ILI_OPND il first_arg_ili 3)
                         OR STARTEBB fc
                  else ldst_instr_flags_from_dtype ce (ILI_OPND il first_arg_ili 3)) \<and>
               res = (if is_struct_or_union il ret_dtype then Some (gen_copy_op addr)
                      else if ret_dtype \<noteq> 0
                      then Some (make_tmp_op (Some (abi_arg0_type abi)) (Some t))
                      else None)))
       \<and> (return_is_void abi \<longrightarrow>
            (\<exists>e. gen_call_expr fc cfg il ce lower ilx0 ret_dtype call_sptr st = Inl e))"
proof (intro conjI impI)
  assume nv: "\<not> return_is_void abi"
    and gen: "gen_call_expr fc cfg il ce lower ilx0 ret_dtype call_sptr st = Inr (res, st')"
  define nm where "nm = (if ili_throw_label il ilx0 > 0 then I_INVOKE else I_CALL)"
  from gen_call_expr_stages [OF gen abi fa nm_def]
  obtain args st2 ci2 callee ci3 st3 u r st6 where
      cc: "call_callee fc il ce lower (alt_ili il ilx0) abi
             (call_func_type cfg il ce abi call_sptr (map ll_type args) st2)
             (map ll_type args) ci2 st2 = Inr (callee, ci3, st3)"
    and ad: "ad_instr fc (alt_ili il ilx0) (fst r) (snd (snd r)) = Inr st6"
    and cg: "call_gargret fc il ce lower first_arg_ili abi ret_dtype (fst r) (fst (snd r)) st6
               = Inr (res, st')"
    and u: "u = call_unwind fc (ili_throw_label il ilx0) callee args ci3 st3"
    and r: "r = call_result il abi ret_dtype args (fst u) (snd u)"
    and c2: "i_name ci2 = nm" "i_tmps ci2 = None"
    by blast
  define t where "t = tmps_alloc (snd u)"
  have n3: "i_name ci3 = nm"
    using call_callee_fields [OF cc] c2 by simp
  have rn: "i_name (fst r) = nm"
    unfolding r u by (simp add: call_result_fields(1) call_unwind_fields(1) n3)
  have rt: "i_ll_type (fst r) = Some (abi_arg0_type abi)" "i_tmps (fst r) = Some t"
    "fst (snd r) = (if ret_dtype \<noteq> 0
        then Some (make_tmp_op (Some (abi_arg0_type abi)) (Some t)) else None)"
    using call_result_fields(3) [OF nv, of il ret_dtype args "fst u" "snd u"]
    by (simp_all add: r t_def)
  define call where
    "call = (fst r)\<lparr> ilix := alt_ili il ilx0,
               flags := (if new_ebb (snd (snd r)) then flags (fst r) OR STARTEBB fc
                         else flags (fst r)) \<rparr>"
  have i6: "Instructions st6 = Instructions (snd (snd r)) @ [call]"
    using ad_instr_Inr [OF ad] by (simp add: call_def)
  have cf: "i_name call = nm" "i_tmps call = Some t" "i_ll_type call = Some (abi_arg0_type abi)"
    by (simp_all add: call_def rn rt)
  from call_gargret_store [OF g ns rt(1) rt(2) cg] obtain addr st7 store where
      "ILIA_ISAR_RES ce (ILI_OPC il (ILI_OPND il first_arg_ili 1))"
      "lower (ILI_OPND il first_arg_ili 1) (Some (make_ptr_lltype (abi_arg0_type abi))) st6
         = Inr (addr, st7)"
      "Instructions st' = Instructions st7 @ [store]"
      "instr_shape store =
         (I_STORE, None, [make_tmp_op (Some (abi_arg0_type abi)) (Some t), addr])"
      "flags store =
         (if new_ebb st7
          then ldst_instr_flags_from_dtype ce (ILI_OPND il first_arg_ili 3) OR STARTEBB fc
          else ldst_instr_flags_from_dtype ce (ILI_OPND il first_arg_ili 3))"
      "res = (if is_struct_or_union il ret_dtype then Some (gen_copy_op addr)
              else fst (snd r))"
    by blast
  with i6 cf show "\<exists>pre call t st6 addr st7 store.
               Instructions st6 = pre @ [call] \<and>
               i_name call = (if ili_throw_label il ilx0 > 0 then I_INVOKE else I_CALL) \<and>
               i_tmps call = Some t \<and> i_ll_type call = Some (abi_arg0_type abi) \<and>
               ILIA_ISAR_RES ce (ILI_OPC il (ILI_OPND il first_arg_ili 1)) \<and>
               lower (ILI_OPND il first_arg_ili 1)
                 (Some (make_ptr_lltype (abi_arg0_type abi))) st6 = Inr (addr, st7) \<and>
               Instructions st' = Instructions st7 @ [store] \<and>
               instr_shape store =
                 (I_STORE, None, [make_tmp_op (Some (abi_arg0_type abi)) (Some t), addr]) \<and>
               flags store =
                 (if new_ebb st7
                  then ldst_instr_flags_from_dtype ce (ILI_OPND il first_arg_ili 3)
                         OR STARTEBB fc
                  else ldst_instr_flags_from_dtype ce (ILI_OPND il first_arg_ili 3)) \<and>
               res = (if is_struct_or_union il ret_dtype then Some (gen_copy_op addr)
                      else if ret_dtype \<noteq> 0
                      then Some (make_tmp_op (Some (abi_arg0_type abi)) (Some t))
                      else None)"
    unfolding nm_def rt(3) by blast
next
  assume v: "return_is_void abi"
  show "\<exists>e. gen_call_expr fc cfg il ce lower ilx0 ret_dtype call_sptr st = Inl e"
  proof (cases "gen_call_expr fc cfg il ce lower ilx0 ret_dtype call_sptr st")
    case (Inl e)
    then show ?thesis by blast
  next
    case (Inr p)
    obtain res0 st0 where p: "p = (res0, st0)" by (cases p)
    from gen_call_expr_stages [OF Inr [unfolded p] abi fa refl]
    obtain args st2 ci2 callee ci3 st3 u r st6 where
        cc: "call_callee fc il ce lower (alt_ili il ilx0) abi
               (call_func_type cfg il ce abi call_sptr (map ll_type args) st2)
               (map ll_type args) ci2 st2 = Inr (callee, ci3, st3)"
      and cg: "call_gargret fc il ce lower first_arg_ili abi ret_dtype (fst r) (fst (snd r)) st6
                 = Inr (res0, st0)"
      and u: "u = call_unwind fc (ili_throw_label il ilx0) callee args ci3 st3"
      and r: "r = call_result il abi ret_dtype args (fst u) (snd u)"
      and c2: "i_tmps ci2 = None"
      by blast
    have "i_tmps ci3 = None"
      using call_callee_fields [OF cc] c2 by simp
    then have "i_tmps (fst r) = None"
      using call_result_fields(4) [OF v] by (simp add: r u call_unwind_fields(2))
    from call_gargret_void [OF g ns this, where fc = fc and ce = ce and lower = lower
        and ret_dtype = ret_dtype and result_op = "fst (snd r)" and st = st6] cg
    show ?thesis by simp
  qed
qed


text \<open>
  The theorem on the example call: a call into temporary 0, and the store of temporary 0
  to the address of the \<open>GARGRET\<close> node, which is the result.
\<close>

theorem gargret_store_witness:
  "ILI_OPC gargret_il (ILI_OPND gargret_il (alt_ili gargret_il 40) 2) = MISC IL_GARGRET \<and>
   \<not> has_sret (ll_abi_from_call_site example_call_env (alt_ili gargret_il 40) 50) \<and>
   \<not> return_is_void (ll_abi_from_call_site example_call_env (alt_ili gargret_il 40) 50) \<and>
   is_struct_or_union gargret_il 50 \<and>
   (\<exists>st' call store.
      gen_call_expr example_flags example_config gargret_il example_call_env leaf_lowering
        40 50 401 start_state
        = Inr (Some (make_operand\<lparr> ot_type := OT_VAR, val_sptr := 4021,
                                    ll_type := Some (make_ptr_lltype (make_int_lltype 64)) \<rparr>),
               st') \<and>
      Instructions st' = [call, store] \<and> i_name call = I_CALL \<and> i_tmps call = Some 0 \<and>
      instr_shape store =
        (I_STORE, None,
         [make_tmp_op (Some (make_int_lltype 64)) (Some 0),
          make_operand\<lparr> ot_type := OT_VAR, val_sptr := 4021,
                         ll_type := Some (make_ptr_lltype (make_int_lltype 64)) \<rparr>]))"
proof -
  have facts: "alt_ili gargret_il 40 = 40" "ILI_OPND gargret_il 40 2 = 402"
    "ILI_OPND gargret_il 402 1 = 4021" "ILI_OPND gargret_il 402 (Suc 0) = 4021"
    "ILI_OPC gargret_il 402 = MISC IL_GARGRET"
    "ll_abi_from_call_site example_call_env x y = register_abi"
    "\<not> has_sret register_abi" "\<not> return_is_void register_abi"
    "abi_arg0_type register_abi = make_int_lltype 64"
    "is_struct_or_union gargret_il 50"
    "ili_throw_label gargret_il 40 = 0"
    for x y
    by (simp_all add: gargret_il_def atomic_il_def alt_ili_def example_call_env_def
          register_abi_def is_struct_or_union_def)
  have leaf: "leaf_lowering x ty s = Inr (y, s') \<longleftrightarrow>
       y = make_operand\<lparr> ot_type := OT_VAR, val_sptr := x, ll_type := ty \<rparr> \<and> s' = s"
    for x ty s y s'
    by (auto simp: leaf_lowering_def)
  note defs = gen_call_expr_def Let_def alt_ili_def example_call_env_def register_abi_def
    call_func_type_def call_callee_def call_unwind_def call_result_def call_gargret_def
    gargret_il_def atomic_il_def make_instr_def make_tmps_def ad_instr_def
    make_store_def gen_instr_def leaf_lowering_def var_op_def make_operand_def
    make_tmp_op_def example_flags_def start_state_def is_struct_or_union_def
  have "\<exists>p. gen_call_expr example_flags example_config gargret_il example_call_env
               leaf_lowering 40 50 401 start_state = Inr p"
    by (simp add: defs)
  then obtain res st' where
    g: "gen_call_expr example_flags example_config gargret_il example_call_env
          leaf_lowering 40 50 401 start_state = Inr (res, st')"
    by auto
  have len: "length (Instructions st') = 2"
    using g
    by (auto simp: defs)
  note t = gargret_store [where ce = example_call_env and il = gargret_il and ?ilx0.0 = 40
      and ret_dtype = 50 and fc = example_flags and cfg = example_config
      and lower = leaf_lowering and call_sptr = 401 and st = start_state and res = res
      and st' = st', OF refl refl]
  from t g have "\<exists>pre' call t' store.
         i_name call = I_CALL \<and> i_tmps call = Some t' \<and>
         Instructions st' = pre' @ [call, store] \<and>
         instr_shape store =
            (I_STORE, None,
             [make_tmp_op (Some (make_int_lltype 64)) (Some t'),
              make_operand\<lparr> ot_type := OT_VAR, val_sptr := 4021,
                             ll_type := Some (make_ptr_lltype (make_int_lltype 64)) \<rparr>]) \<and>
         res = Some (make_operand\<lparr> ot_type := OT_VAR, val_sptr := 4021,
                                     ll_type := Some (make_ptr_lltype (make_int_lltype 64)) \<rparr>)"
    by (fastforce simp: facts leaf gen_copy_op_def)
  then obtain pre' call t' store where
      i: "i_name call = I_CALL" "i_tmps call = Some t'"
         "Instructions st' = pre' @ [call, store]"
         "instr_shape store =
            (I_STORE, None,
             [make_tmp_op (Some (make_int_lltype 64)) (Some t'),
              make_operand\<lparr> ot_type := OT_VAR, val_sptr := 4021,
                             ll_type := Some (make_ptr_lltype (make_int_lltype 64)) \<rparr>])"
         "res = Some (make_operand\<lparr> ot_type := OT_VAR, val_sptr := 4021,
                                     ll_type := Some (make_ptr_lltype (make_int_lltype 64)) \<rparr>)"
    by blast
  have "pre' = []" using i(3) len by simp
  moreover have "t' = 0"
    using g i(2,3)
    by (auto simp: defs)
  ultimately have "Instructions st' = [call, store]" using i(3) by simp
  with facts g i \<open>t' = 0\<close> show ?thesis by auto
qed


subsection \<open>The default return\<close>




lemma Instructions_tail_state [simp]:
  "Instructions (setTempMap ilx operand st) = Instructions st"
  "Instructions (set_csed_operand il ilx operand st) = Instructions st"
  "use_count (setTempMap ilx operand st) = use_count st"
  "use_count (set_csed_operand il ilx operand st) = use_count st"
  "new_ebb (setTempMap ilx operand st) = new_ebb st"
  "new_ebb (set_csed_operand il ilx operand st) = new_ebb st"
  by (simp_all add: setTempMap_def set_csed_operand_def)








end
